theory Spec2Isabelle
  imports Main
begin

section \<open>Types (type.h is not among the sources)\<close>

text \<open>
  Modelled from the spec: the type hierarchy of section 3.3.  Only the capabilities
  that stmt.cpp consults are kept: uniform/varying, const, numeric, bool, the
  reference target, and the element count and element types of collections.
  An atomic type is its basic type with the two qualifiers, so the singletons
  \<^verbatim>\<open>AtomicType::UniformBool\<close>, ... of the source are plain values and pointer
  equality on them is equality.
\<close>

datatype BasicType =
    TYPE_VOID | TYPE_BOOL
  | TYPE_INT8 | TYPE_UINT8 | TYPE_INT16 | TYPE_UINT16
  | TYPE_INT32 | TYPE_UINT32 | TYPE_FLOAT
  | TYPE_INT64 | TYPE_UINT64 | TYPE_DOUBLE

datatype Type =
    AtomicType BasicType bool bool
  | EnumType string bool bool
  | ReferenceType Type
  | ArrayType Type nat
  | VectorType Type nat
  | StructType string "Type list" bool bool

abbreviation UniformBool :: Type where "UniformBool \<equiv> AtomicType TYPE_BOOL True False"
abbreviation VaryingBool :: Type where "VaryingBool \<equiv> AtomicType TYPE_BOOL False False"
abbreviation UniformInt8 :: Type where "UniformInt8 \<equiv> AtomicType TYPE_INT8 True False"
abbreviation UniformUInt8 :: Type where "UniformUInt8 \<equiv> AtomicType TYPE_UINT8 True False"
abbreviation UniformInt16 :: Type where "UniformInt16 \<equiv> AtomicType TYPE_INT16 True False"
abbreviation UniformUInt16 :: Type where "UniformUInt16 \<equiv> AtomicType TYPE_UINT16 True False"
abbreviation UniformInt32 :: Type where "UniformInt32 \<equiv> AtomicType TYPE_INT32 True False"
abbreviation VaryingInt32 :: Type where "VaryingInt32 \<equiv> AtomicType TYPE_INT32 False False"
abbreviation UniformUInt32 :: Type where "UniformUInt32 \<equiv> AtomicType TYPE_UINT32 True False"
abbreviation VaryingUInt32 :: Type where "VaryingUInt32 \<equiv> AtomicType TYPE_UINT32 False False"
abbreviation UniformFloat :: Type where "UniformFloat \<equiv> AtomicType TYPE_FLOAT True False"
abbreviation VaryingFloat :: Type where "VaryingFloat \<equiv> AtomicType TYPE_FLOAT False False"
abbreviation UniformInt64 :: Type where "UniformInt64 \<equiv> AtomicType TYPE_INT64 True False"
abbreviation VaryingInt64 :: Type where "VaryingInt64 \<equiv> AtomicType TYPE_INT64 False False"
abbreviation UniformUInt64 :: Type where "UniformUInt64 \<equiv> AtomicType TYPE_UINT64 True False"
abbreviation VaryingUInt64 :: Type where "VaryingUInt64 \<equiv> AtomicType TYPE_UINT64 False False"
abbreviation UniformDouble :: Type where "UniformDouble \<equiv> AtomicType TYPE_DOUBLE True False"
abbreviation VaryingDouble :: Type where "VaryingDouble \<equiv> AtomicType TYPE_DOUBLE False False"
abbreviation VoidType :: Type where "VoidType \<equiv> AtomicType TYPE_VOID True False"

fun IsUniformType :: "Type \<Rightarrow> bool" where
  "IsUniformType (AtomicType b u c) = u"
| "IsUniformType (EnumType n u c) = u"
| "IsUniformType (ReferenceType t) = IsUniformType t"
| "IsUniformType (ArrayType t n) = IsUniformType t"
| "IsUniformType (VectorType t n) = IsUniformType t"
| "IsUniformType (StructType n ts u c) = u"

definition IsVaryingType :: "Type \<Rightarrow> bool" where
  "IsVaryingType t = (\<not> IsUniformType t)"

fun IsConstType :: "Type \<Rightarrow> bool" where
  "IsConstType (AtomicType b u c) = c"
| "IsConstType (EnumType n u c) = c"
| "IsConstType (ReferenceType t) = IsConstType t"
| "IsConstType (ArrayType t n) = IsConstType t"
| "IsConstType (VectorType t n) = IsConstType t"
| "IsConstType (StructType n ts u c) = c"

fun IsBoolType :: "Type \<Rightarrow> bool" where
  "IsBoolType (AtomicType b u c) = (b = TYPE_BOOL)"
| "IsBoolType (ReferenceType t) = IsBoolType t"
| "IsBoolType (VectorType t n) = IsBoolType t"
| "IsBoolType _ = False"

fun IsNumericType :: "Type \<Rightarrow> bool" where
  "IsNumericType (AtomicType b u c) = (b \<noteq> TYPE_BOOL \<and> b \<noteq> TYPE_VOID)"
| "IsNumericType (ReferenceType t) = IsNumericType t"
| "IsNumericType (VectorType t n) = IsNumericType t"
| "IsNumericType _ = False"

fun GetAsNonConstType :: "Type \<Rightarrow> Type" where
  "GetAsNonConstType (AtomicType b u c) = AtomicType b u False"
| "GetAsNonConstType (EnumType n u c) = EnumType n u False"
| "GetAsNonConstType (ReferenceType t) = ReferenceType (GetAsNonConstType t)"
| "GetAsNonConstType (ArrayType t n) = ArrayType (GetAsNonConstType t) n"
| "GetAsNonConstType (VectorType t n) = VectorType (GetAsNonConstType t) n"
| "GetAsNonConstType (StructType n ts u c) = StructType n ts u False"

fun GetAsUniformType :: "Type \<Rightarrow> Type" where
  "GetAsUniformType (AtomicType b u c) = AtomicType b True c"
| "GetAsUniformType (EnumType n u c) = EnumType n True c"
| "GetAsUniformType (ReferenceType t) = ReferenceType (GetAsUniformType t)"
| "GetAsUniformType (ArrayType t n) = ArrayType (GetAsUniformType t) n"
| "GetAsUniformType (VectorType t n) = VectorType (GetAsUniformType t) n"
| "GetAsUniformType (StructType n ts u c) = StructType n ts True c"

fun GetReferenceTarget :: "Type \<Rightarrow> Type" where
  "GetReferenceTarget (ReferenceType t) = t"
| "GetReferenceTarget t = t"

text \<open>The dynamic casts of the source: which capability set a type belongs to.\<close>

fun isAtomicType :: "Type \<Rightarrow> bool" where
  "isAtomicType (AtomicType b u c) = True"
| "isAtomicType _ = False"

fun isEnumType :: "Type \<Rightarrow> bool" where
  "isEnumType (EnumType n u c) = True"
| "isEnumType _ = False"

fun isReferenceType :: "Type \<Rightarrow> bool" where
  "isReferenceType (ReferenceType t) = True"
| "isReferenceType _ = False"

fun isCollectionType :: "Type \<Rightarrow> bool" where
  "isCollectionType (StructType n ts u c) = True"
| "isCollectionType (ArrayType t n) = True"
| "isCollectionType (VectorType t n) = True"
| "isCollectionType _ = False"

fun isArrayType :: "Type \<Rightarrow> bool" where
  "isArrayType (ArrayType t n) = True"
| "isArrayType _ = False"

fun isSequentialType :: "Type \<Rightarrow> bool" where
  "isSequentialType (ArrayType t n) = True"
| "isSequentialType (VectorType t n) = True"
| "isSequentialType _ = False"

fun GetElementCount :: "Type \<Rightarrow> nat" where
  "GetElementCount (StructType n ts u c) = length ts"
| "GetElementCount (ArrayType t n) = n"
| "GetElementCount (VectorType t n) = n"
| "GetElementCount _ = 0"

fun GetElementType :: "Type \<Rightarrow> nat \<Rightarrow> Type" where
  "GetElementType (StructType n ts u c) i = ts ! i"
| "GetElementType (ArrayType t n) i = t"
| "GetElementType (VectorType t n) i = t"
| "GetElementType t i = t"

fun GetSizedArray :: "Type \<Rightarrow> nat \<Rightarrow> Type" where
  "GetSizedArray (ArrayType t n) k = ArrayType t k"
| "GetSizedArray t k = t"

definition type_Equal :: "Type option \<Rightarrow> Type option \<Rightarrow> bool" where
  "type_Equal a b = (case a of None \<Rightarrow> False | Some x \<Rightarrow> (case b of None \<Rightarrow> False | Some y \<Rightarrow> x = y))"

section \<open>Expressions (expr.h is not among the sources)\<close>

text \<open>
  Modelled from the spec: the expression classes that stmt.cpp tells apart by dynamic
  cast, with the children it reads.  A child pointer may be null.  What
  \<^verbatim>\<open>GetType()\<close> answers is kept in the node where stmt.cpp cannot derive it; the
  32-bit values that \<^verbatim>\<open>ConstExpr::AsInt32\<close> delivers are kept in the constant.
  Expression positions only feed diagnostics and are left out.
\<close>

datatype Expr =
    UnaryExpr "Expr option" "Type option"
  | BinaryExpr "Expr option" "Expr option" "Type option"
  | AssignExpr "Expr option" "Expr option" "Type option"
  | SelectExpr "Expr option" "Expr option" "Expr option" "Type option"
  | ExprList "Expr option list"
  | FunctionCallExpr "Expr option" "Expr option" "Type option"
  | IndexExpr "Expr option" "Expr option" "Type option"
  | MemberExpr "Expr option" string "Type option"
  | ConstExpr Type "int list"
  | TypeCastExpr Type "Expr option"
  | ReferenceExpr "Expr option" "Type option"
  | DereferenceExpr "Expr option"
  | SymbolExpr "nat option" "Type option"
  | FunctionSymbolExpr string "Type option"
  | SyncExpr

fun GetType :: "Expr \<Rightarrow> Type option" where
  "GetType (UnaryExpr e t) = t"
| "GetType (BinaryExpr a b t) = t"
| "GetType (AssignExpr l r t) = t"
| "GetType (SelectExpr c a b t) = t"
| "GetType (ExprList es) = None"
| "GetType (FunctionCallExpr f a t) = t"
| "GetType (IndexExpr a i t) = t"
| "GetType (MemberExpr e m t) = t"
| "GetType (ConstExpr t vs) = Some t"
| "GetType (TypeCastExpr t e) = Some t"
| "GetType (ReferenceExpr e t) = t"
| "GetType (DereferenceExpr None) = None"
| "GetType (DereferenceExpr (Some e)) =
     (case GetType e of None \<Rightarrow> None | Some t \<Rightarrow> Some (GetReferenceTarget t))"
| "GetType (SymbolExpr s t) = t"
| "GetType (FunctionSymbolExpr f t) = t"
| "GetType SyncExpr = Some VoidType"

fun isExprList :: "Expr \<Rightarrow> bool" where
  "isExprList (ExprList es) = True"
| "isExprList _ = False"

fun isConstExpr :: "Expr \<Rightarrow> bool" where
  "isConstExpr (ConstExpr t vs) = True"
| "isConstExpr _ = False"

section \<open>Statements\<close>

type_synonym SourcePos = "string \<times> nat \<times> nat"

record VariableDeclaration =
  sym :: "nat option"
  init :: "Expr option"

datatype Stmt =
    ExprStmt "Expr option" SourcePos
  | DeclStmt "VariableDeclaration list" SourcePos
  | IfStmt "Expr option" "Stmt option" "Stmt option" bool bool SourcePos
  | DoStmt "Expr option" "Stmt option" bool SourcePos
  | ForStmt "Stmt option" "Expr option" "Stmt option" "Stmt option" bool SourcePos
  | BreakStmt bool SourcePos
  | ContinueStmt bool SourcePos
  | ReturnStmt "Expr option" bool SourcePos
  | StmtList "Stmt option list" SourcePos
  | PrintStmt string "Expr option" SourcePos
  | AssertStmt string "Expr option" SourcePos

fun isStmtList :: "Stmt option \<Rightarrow> bool" where
  "isStmtList (Some (StmtList ss p)) = True"
| "isStmtList _ = False"

text \<open>Aborts of the compiler: a failed \<^verbatim>\<open>assert\<close>, \<^verbatim>\<open>FATAL\<close>, a null dereference.\<close>

datatype abort = AssertFailed | Fatal | NullDeref

section \<open>Safe to run with all lanes off\<close>

text \<open>\<^verbatim>\<open>a && b\<close> on results that may abort: \<open>b\<close> is not reached when \<open>a\<close> is false.\<close>

definition andAlso :: "abort + bool \<Rightarrow> abort + bool \<Rightarrow> abort + bool" where
  "andAlso a b = (case a of Inl x \<Rightarrow> Inl x | Inr v \<Rightarrow> (if v then b else Inr False))"

text \<open>The loop over the constant indices of \<^verbatim>\<open>lSafeToRunWithAllLanesOff(Expr *)\<close>.\<close>

fun indicesInBounds :: "int list \<Rightarrow> nat \<Rightarrow> bool" where
  "indicesInBounds [] nElements = True"
| "indicesInBounds (i # is) nElements =
     (if i < 0 \<or> i \<ge> int nElements then False else indicesInBounds is nElements)"

fun lSafeToRunWithAllLanesOff_Expr :: "Expr option \<Rightarrow> abort + bool"
  and lSafeToRunWithAllLanesOff_exprs :: "Expr option list \<Rightarrow> abort + bool" where
  "lSafeToRunWithAllLanesOff_Expr None = Inr False"
| "lSafeToRunWithAllLanesOff_Expr (Some (UnaryExpr e t)) = lSafeToRunWithAllLanesOff_Expr e"
| "lSafeToRunWithAllLanesOff_Expr (Some (BinaryExpr arg0 arg1 t)) =
     andAlso (lSafeToRunWithAllLanesOff_Expr arg0) (lSafeToRunWithAllLanesOff_Expr arg1)"
| "lSafeToRunWithAllLanesOff_Expr (Some (AssignExpr lvalue rvalue t)) =
     andAlso (lSafeToRunWithAllLanesOff_Expr lvalue) (lSafeToRunWithAllLanesOff_Expr rvalue)"
| "lSafeToRunWithAllLanesOff_Expr (Some (SelectExpr test expr1 expr2 t)) =
     andAlso (lSafeToRunWithAllLanesOff_Expr test)
       (andAlso (lSafeToRunWithAllLanesOff_Expr expr1) (lSafeToRunWithAllLanesOff_Expr expr2))"
| "lSafeToRunWithAllLanesOff_Expr (Some (ExprList exprs)) = lSafeToRunWithAllLanesOff_exprs exprs"
| "lSafeToRunWithAllLanesOff_Expr (Some (FunctionCallExpr f a t)) = Inr False"
| "lSafeToRunWithAllLanesOff_Expr (Some (IndexExpr arrayOrVector index t)) =
     (case arrayOrVector of
        None \<Rightarrow> Inr False
      | Some av \<Rightarrow>
          (case (GetType av, index) of
             (Some type, Some (ConstExpr ct indices)) \<Rightarrow>
               (let type' = (if isReferenceType type then GetReferenceTarget type else type) in
                if \<not> isSequentialType type' then Inl AssertFailed
                else if GetElementCount type' = 0 then Inr False
                else Inr (indicesInBounds indices (GetElementCount type')))
           | _ \<Rightarrow> Inr False))"
| "lSafeToRunWithAllLanesOff_Expr (Some (MemberExpr e m t)) = lSafeToRunWithAllLanesOff_Expr e"
| "lSafeToRunWithAllLanesOff_Expr (Some (ConstExpr t vs)) = Inr True"
| "lSafeToRunWithAllLanesOff_Expr (Some (TypeCastExpr t e)) = lSafeToRunWithAllLanesOff_Expr e"
| "lSafeToRunWithAllLanesOff_Expr (Some (ReferenceExpr e t)) = lSafeToRunWithAllLanesOff_Expr e"
| "lSafeToRunWithAllLanesOff_Expr (Some (DereferenceExpr e)) = lSafeToRunWithAllLanesOff_Expr e"
| "lSafeToRunWithAllLanesOff_Expr (Some (SymbolExpr s t)) = Inr True"
| "lSafeToRunWithAllLanesOff_Expr (Some (FunctionSymbolExpr f t)) = Inr True"
| "lSafeToRunWithAllLanesOff_Expr (Some SyncExpr) = Inr True"
| "lSafeToRunWithAllLanesOff_exprs [] = Inr True"
| "lSafeToRunWithAllLanesOff_exprs (e # es) =
     (case lSafeToRunWithAllLanesOff_Expr e of
        Inl x \<Rightarrow> Inl x
      | Inr v \<Rightarrow> (if \<not> v then Inr False else lSafeToRunWithAllLanesOff_exprs es))"

text \<open>The loop over the declared variables of a \<^verbatim>\<open>DeclStmt\<close>.\<close>

fun lSafeToRunWithAllLanesOff_vars :: "VariableDeclaration list \<Rightarrow> abort + bool" where
  "lSafeToRunWithAllLanesOff_vars [] = Inr True"
| "lSafeToRunWithAllLanesOff_vars (v # vs) =
     (case lSafeToRunWithAllLanesOff_Expr (init v) of
        Inl x \<Rightarrow> Inl x
      | Inr b \<Rightarrow> (if \<not> b then Inr False else lSafeToRunWithAllLanesOff_vars vs))"

fun lSafeToRunWithAllLanesOff_Stmt :: "Stmt option \<Rightarrow> abort + bool"
  and lSafeToRunWithAllLanesOff_stmts :: "Stmt option list \<Rightarrow> abort + bool" where
  "lSafeToRunWithAllLanesOff_Stmt None = Inr True"
| "lSafeToRunWithAllLanesOff_Stmt (Some (ExprStmt expr p)) = lSafeToRunWithAllLanesOff_Expr expr"
| "lSafeToRunWithAllLanesOff_Stmt (Some (DeclStmt vars p)) = lSafeToRunWithAllLanesOff_vars vars"
| "lSafeToRunWithAllLanesOff_Stmt (Some (IfStmt test trueStmts falseStmts doAllCheck doAnyCheck p)) =
     andAlso (lSafeToRunWithAllLanesOff_Expr test)
       (andAlso (lSafeToRunWithAllLanesOff_Stmt trueStmts) (lSafeToRunWithAllLanesOff_Stmt falseStmts))"
| "lSafeToRunWithAllLanesOff_Stmt (Some (DoStmt testExpr bodyStmts cc p)) =
     andAlso (lSafeToRunWithAllLanesOff_Expr testExpr) (lSafeToRunWithAllLanesOff_Stmt bodyStmts)"
| "lSafeToRunWithAllLanesOff_Stmt (Some (ForStmt ini test step stmts cc p)) =
     andAlso (lSafeToRunWithAllLanesOff_Stmt ini)
       (andAlso (lSafeToRunWithAllLanesOff_Expr test)
         (andAlso (lSafeToRunWithAllLanesOff_Stmt step) (lSafeToRunWithAllLanesOff_Stmt stmts)))"
| "lSafeToRunWithAllLanesOff_Stmt (Some (BreakStmt cc p)) = Inr True"
| "lSafeToRunWithAllLanesOff_Stmt (Some (ContinueStmt cc p)) = Inr True"
| "lSafeToRunWithAllLanesOff_Stmt (Some (ReturnStmt val cc p)) = lSafeToRunWithAllLanesOff_Expr val"
| "lSafeToRunWithAllLanesOff_Stmt (Some (StmtList sls p)) = lSafeToRunWithAllLanesOff_stmts sls"
| "lSafeToRunWithAllLanesOff_Stmt (Some (PrintStmt format values p)) = lSafeToRunWithAllLanesOff_Expr values"
| "lSafeToRunWithAllLanesOff_Stmt (Some (AssertStmt message expr p)) = Inr False"
| "lSafeToRunWithAllLanesOff_stmts [] = Inr True"
| "lSafeToRunWithAllLanesOff_stmts (s # ss) =
     (case lSafeToRunWithAllLanesOff_Stmt s of
        Inl x \<Rightarrow> Inl x
      | Inr v \<Rightarrow> (if \<not> v then Inr False else lSafeToRunWithAllLanesOff_stmts ss))"

section \<open>Varying break or continue\<close>

fun lHasVaryingBreakOrContinue :: "Stmt option \<Rightarrow> bool \<Rightarrow> bool"
  and lHasVaryingBreakOrContinue_stmts :: "Stmt option list \<Rightarrow> bool \<Rightarrow> bool" where
  "lHasVaryingBreakOrContinue (Some (StmtList stmts p)) inVaryingCF =
     lHasVaryingBreakOrContinue_stmts stmts inVaryingCF"
| "lHasVaryingBreakOrContinue (Some (IfStmt test trueStmts falseStmts doAllCheck doAnyCheck p)) inVaryingCF =
     (let inVaryingCF' =
        (case test of
           None \<Rightarrow> inVaryingCF
         | Some t \<Rightarrow> (case GetType t of
                       None \<Rightarrow> inVaryingCF
                     | Some ty \<Rightarrow> inVaryingCF \<or> IsVaryingType ty))
      in lHasVaryingBreakOrContinue trueStmts inVaryingCF' \<or>
         lHasVaryingBreakOrContinue falseStmts inVaryingCF')"
| "lHasVaryingBreakOrContinue (Some (BreakStmt cc p)) inVaryingCF = inVaryingCF"
| "lHasVaryingBreakOrContinue (Some (ContinueStmt cc p)) inVaryingCF = inVaryingCF"
| "lHasVaryingBreakOrContinue (Some (ExprStmt e p)) inVaryingCF = False"
| "lHasVaryingBreakOrContinue (Some (DeclStmt vs p)) inVaryingCF = False"
| "lHasVaryingBreakOrContinue (Some (DoStmt t b cc p)) inVaryingCF = False"
| "lHasVaryingBreakOrContinue (Some (ForStmt i t st b cc p)) inVaryingCF = False"
| "lHasVaryingBreakOrContinue (Some (ReturnStmt v cc p)) inVaryingCF = False"
| "lHasVaryingBreakOrContinue (Some (PrintStmt f v p)) inVaryingCF = False"
| "lHasVaryingBreakOrContinue (Some (AssertStmt m e p)) inVaryingCF = False"
| "lHasVaryingBreakOrContinue None inVaryingCF = False"
| "lHasVaryingBreakOrContinue_stmts [] inVaryingCF = False"
| "lHasVaryingBreakOrContinue_stmts (s # ss) inVaryingCF =
     (if lHasVaryingBreakOrContinue s inVaryingCF then True
      else lHasVaryingBreakOrContinue_stmts ss inVaryingCF)"

text \<open>
  The detector in the words of the spec.  A statement holds a free jump when it has a
  \<^verbatim>\<open>break\<close> or \<^verbatim>\<open>continue\<close> that no nested loop encloses; it holds a varying jump
  when such a jump lies under an \<^verbatim>\<open>if\<close> of the statement whose test is varying.
\<close>

definition varyingTest :: "Expr option \<Rightarrow> bool" where
  "varyingTest test =
     (case test of None \<Rightarrow> False
      | Some t \<Rightarrow> (case GetType t of None \<Rightarrow> False | Some ty \<Rightarrow> IsVaryingType ty))"

fun freeJump :: "Stmt \<Rightarrow> bool" where
  "freeJump (BreakStmt cc p) = True"
| "freeJump (ContinueStmt cc p) = True"
| "freeJump (IfStmt test ts fs da dn p) =
     ((case ts of None \<Rightarrow> False | Some s \<Rightarrow> freeJump s) \<or>
      (case fs of None \<Rightarrow> False | Some s \<Rightarrow> freeJump s))"
| "freeJump (StmtList ss p) =
     list_ex (\<lambda>so. case so of None \<Rightarrow> False | Some s \<Rightarrow> freeJump s) ss"
| "freeJump _ = False"

fun varyingJump :: "Stmt \<Rightarrow> bool" where
  "varyingJump (IfStmt test ts fs da dn p) =
     (if varyingTest test
      then ((case ts of None \<Rightarrow> False | Some s \<Rightarrow> freeJump s) \<or>
            (case fs of None \<Rightarrow> False | Some s \<Rightarrow> freeJump s))
      else ((case ts of None \<Rightarrow> False | Some s \<Rightarrow> varyingJump s) \<or>
            (case fs of None \<Rightarrow> False | Some s \<Rightarrow> varyingJump s)))"
| "varyingJump (StmtList ss p) =
     list_ex (\<lambda>so. case so of None \<Rightarrow> False | Some s \<Rightarrow> varyingJump s) ss"
| "varyingJump _ = False"

definition bodyHasVaryingJump :: "Stmt option \<Rightarrow> bool" where
  "bodyHasVaryingJump body = (case body of None \<Rightarrow> False | Some s \<Rightarrow> varyingJump s)"

section \<open>The emit context (ctx.h is not among the sources)\<close>

text \<open>
  Modelled from the spec: the emit-context interface of section 6.1.  Values that the
  context computes are terms over their operands; every call that emits into the
  function or changes the context's bookkeeping is an event of the context's log.
\<close>

datatype LType =
    LLVMType Type
  | VoidPointerType
  | VoidPointerPointerType
  | VoidPointerArrayType nat

datatype StringConst =
    Literal string
  | AssertMessage SourcePos string

datatype Value =
    NoValue
  | LLVMMaskAllOn
  | LLVMTrue
  | LLVMBoolVector bool
  | LLVMInt32 int
  | UndefValue LType
  | NullValue LType
  | ExprValue Expr
  | ConstantValue Expr Type
  | MaskAnd Value Value
  | MaskAndNot Value Value
  | FullMask Value Value
  | AllOf Value
  | AnyOf Value
  | LaneMaskOf Value
  | Alloca nat
  | GlobalVariable nat
  | ElementPtr Value nat nat
  | BitCast Value LType
  | StringPtr StringConst
  | Argument nat

datatype Event =
    EvSetDebugPos SourcePos
  | EvStartScope
  | EvEndScope
  | EvAddInstrumentationPoint string
  | EvCreateBasicBlock nat string
  | EvSetCurrentBasicBlock nat
  | EvBranchInst nat
  | EvCondBranchInst nat nat Value
  | EvBranchIfMaskAll nat nat
  | EvBranchIfMaskAny nat nat
  | EvStartUniformIf
  | EvStartVaryingIf Value
  | EvEndIf
  | EvStartLoop nat nat bool
  | EvEndLoop
  | EvSetLoopMask Value
  | EvRestoreContinuedLanes
  | EvSetInternalMask Value
  | EvSetFunctionMask Value
  | EvBreak bool
  | EvContinue bool
  | EvCurrentLanesReturned "Expr option" bool
  | EvGetValue Expr
  | EvAllocaInst nat LType string
  | EvStoreInst Value Value
  | EvEmitVariableDebugInfo nat
  | EvCallInst string "Value list"

datatype Diag =
    ErrExprListInitializer string Type
  | ErrReferenceInitializer Type "Type option"
  | ErrInitializerCount string string nat nat
  | ErrCantAssign "Type option" Type
  | ErrUnsizedArray SourcePos
  | ErrReferenceNeedsInitializer SourcePos string
  | ErrStaticInitializer SourcePos string
  | ErrNotBoolean string Type
  | ErrPrintType Type
  | WarnUniformCondition string

datatype StorageClass = SC_NONE | SC_EXTERN | SC_EXTERN_C | SC_STATIC | SC_TYPEDEF

record Symbol =
  name :: string
  type :: "Type option"
  storageClass :: StorageClass
  pos :: SourcePos
  storagePtr :: "Value option"
  parentFunction :: "nat option"
  varyingCFDepth :: nat
  constValue :: "Expr option"

record GlobalVar =
  gType :: LType
  gIsConst :: bool
  gInitializer :: Value
  gLine :: nat
  gName :: string

record World =
  bblock :: "nat option"
  nblocks :: nat
  nvalues :: nat
  internalMask :: Value
  functionMask :: Value
  maskStack :: "Value option list"
  llvmFunction :: nat
  code :: "Event list"
  diags :: "Diag list"
  syms :: "nat \<Rightarrow> Symbol"
  globalVars :: "GlobalVar list"

text \<open>
  What stmt.cpp takes from elsewhere: the options and the target of the global
  \<^verbatim>\<open>g\<close>, the cost constants of ispc.h, the methods of expressions, type conversion,
  whether the context ends the block at a jump, and which functions the module declares.
\<close>

record Globals =
  disableUniformControlFlow :: bool
  disableCoherentControlFlow :: bool
  vectorWidth :: int
  COST_ASSERT :: int
  COST_COHERENT_BREAK_CONTINE :: int
  COST_FUNCALL :: int
  COST_REGULAR_BREAK_CONTINUE :: int
  COST_RETURN :: int
  COST_UNIFORM_IF :: int
  COST_UNIFORM_LOOP :: int
  COST_VARYING_IF :: int
  COST_VARYING_LOOP :: int
  PREDICATE_SAFE_IF_STATEMENT_COST :: int
  exprTypeCheck :: "Expr \<Rightarrow> Expr option"
  exprOptimize :: "(nat \<Rightarrow> Symbol) \<Rightarrow> Expr \<Rightarrow> Expr option"
  exprEstimateCost :: "Expr \<Rightarrow> int"
  exprGetValueOK :: "Expr \<Rightarrow> bool"
  exprGetConstantOK :: "Expr \<Rightarrow> Type \<Rightarrow> bool"
  TypeConvertExpr :: "Expr \<Rightarrow> Type \<Rightarrow> Expr option"
  jumpEndsBlock :: "World \<Rightarrow> bool"
  moduleHasFunction :: "string \<Rightarrow> bool"

definition emitEvent :: "Event \<Rightarrow> World \<Rightarrow> World" where
  "emitEvent e w = w\<lparr>code := code w @ [e]\<rparr>"

definition reportDiag :: "Diag \<Rightarrow> World \<Rightarrow> World" where
  "reportDiag d w = w\<lparr>diags := diags w @ [d]\<rparr>"

definition SetDebugPos :: "SourcePos \<Rightarrow> World \<Rightarrow> World" where
  "SetDebugPos p w = emitEvent (EvSetDebugPos p) w"

definition StartScope :: "World \<Rightarrow> World" where
  "StartScope w = emitEvent EvStartScope w"

definition EndScope :: "World \<Rightarrow> World" where
  "EndScope w = emitEvent EvEndScope w"

definition AddInstrumentationPoint :: "string \<Rightarrow> World \<Rightarrow> World" where
  "AddInstrumentationPoint l w = emitEvent (EvAddInstrumentationPoint l) w"

definition CreateBasicBlock :: "string \<Rightarrow> World \<Rightarrow> nat \<times> World" where
  "CreateBasicBlock l w =
     (nblocks w, emitEvent (EvCreateBasicBlock (nblocks w) l) (w\<lparr>nblocks := Suc (nblocks w)\<rparr>))"

definition SetCurrentBasicBlock :: "nat \<Rightarrow> World \<Rightarrow> World" where
  "SetCurrentBasicBlock b w = emitEvent (EvSetCurrentBasicBlock b) (w\<lparr>bblock := Some b\<rparr>)"

definition BranchInst :: "nat \<Rightarrow> World \<Rightarrow> World" where
  "BranchInst dest w = emitEvent (EvBranchInst dest) (w\<lparr>bblock := None\<rparr>)"

definition CondBranchInst :: "nat \<Rightarrow> nat \<Rightarrow> Value \<Rightarrow> World \<Rightarrow> World" where
  "CondBranchInst t f c w = emitEvent (EvCondBranchInst t f c) (w\<lparr>bblock := None\<rparr>)"

definition BranchIfMaskAll :: "nat \<Rightarrow> nat \<Rightarrow> World \<Rightarrow> World" where
  "BranchIfMaskAll bAll bMixed w = emitEvent (EvBranchIfMaskAll bAll bMixed) (w\<lparr>bblock := None\<rparr>)"

definition BranchIfMaskAny :: "nat \<Rightarrow> nat \<Rightarrow> World \<Rightarrow> World" where
  "BranchIfMaskAny bRun bSkip w = emitEvent (EvBranchIfMaskAny bRun bSkip) (w\<lparr>bblock := None\<rparr>)"

definition GetInternalMask :: "World \<Rightarrow> Value" where
  "GetInternalMask w = internalMask w"

definition GetFunctionMask :: "World \<Rightarrow> Value" where
  "GetFunctionMask w = functionMask w"

definition GetFullMask :: "World \<Rightarrow> Value" where
  "GetFullMask w =
     (if internalMask w = LLVMMaskAllOn \<and> functionMask w = LLVMMaskAllOn then LLVMMaskAllOn
      else FullMask (internalMask w) (functionMask w))"

definition SetInternalMask :: "Value \<Rightarrow> World \<Rightarrow> World" where
  "SetInternalMask v w = emitEvent (EvSetInternalMask v) (w\<lparr>internalMask := v\<rparr>)"

definition SetInternalMaskAnd :: "Value \<Rightarrow> Value \<Rightarrow> World \<Rightarrow> World" where
  "SetInternalMaskAnd oldMask test w = SetInternalMask (MaskAnd oldMask test) w"

definition SetInternalMaskAndNot :: "Value \<Rightarrow> Value \<Rightarrow> World \<Rightarrow> World" where
  "SetInternalMaskAndNot oldMask test w = SetInternalMask (MaskAndNot oldMask test) w"

definition SetFunctionMask :: "Value \<Rightarrow> World \<Rightarrow> World" where
  "SetFunctionMask v w = emitEvent (EvSetFunctionMask v) (w\<lparr>functionMask := v\<rparr>)"

definition popMask :: "World \<Rightarrow> World" where
  "popMask w =
     (case maskStack w of
        [] \<Rightarrow> w
      | None # rest \<Rightarrow> w\<lparr>maskStack := rest\<rparr>
      | Some m # rest \<Rightarrow> w\<lparr>maskStack := rest, internalMask := m\<rparr>)"

definition StartUniformIf :: "World \<Rightarrow> World" where
  "StartUniformIf w = emitEvent EvStartUniformIf (w\<lparr>maskStack := None # maskStack w\<rparr>)"

definition StartVaryingIf :: "Value \<Rightarrow> World \<Rightarrow> World" where
  "StartVaryingIf oldMask w =
     emitEvent (EvStartVaryingIf oldMask) (w\<lparr>maskStack := Some oldMask # maskStack w\<rparr>)"

definition EndIf :: "World \<Rightarrow> World" where
  "EndIf w = emitEvent EvEndIf (popMask w)"

definition StartLoop :: "nat \<Rightarrow> nat \<Rightarrow> bool \<Rightarrow> World \<Rightarrow> World" where
  "StartLoop bexit bcont uniformCF w =
     emitEvent (EvStartLoop bexit bcont uniformCF)
       (w\<lparr>maskStack := (if uniformCF then None else Some (internalMask w)) # maskStack w\<rparr>)"

definition EndLoop :: "World \<Rightarrow> World" where
  "EndLoop w = emitEvent EvEndLoop (popMask w)"

definition SetLoopMask :: "Value \<Rightarrow> World \<Rightarrow> World" where
  "SetLoopMask v w = emitEvent (EvSetLoopMask v) w"

definition RestoreContinuedLanes :: "World \<Rightarrow> World" where
  "RestoreContinuedLanes w = emitEvent EvRestoreContinuedLanes w"

definition endBlockAtJump :: "Globals \<Rightarrow> World \<Rightarrow> World" where
  "endBlockAtJump g w = (if jumpEndsBlock g w then w\<lparr>bblock := None\<rparr> else w)"

definition ctxBreak :: "Globals \<Rightarrow> bool \<Rightarrow> World \<Rightarrow> World" where
  "ctxBreak g doCoherenceCheck w = emitEvent (EvBreak doCoherenceCheck) (endBlockAtJump g w)"

definition ctxContinue :: "Globals \<Rightarrow> bool \<Rightarrow> World \<Rightarrow> World" where
  "ctxContinue g doCoherenceCheck w = emitEvent (EvContinue doCoherenceCheck) (endBlockAtJump g w)"

definition CurrentLanesReturned :: "Globals \<Rightarrow> Expr option \<Rightarrow> bool \<Rightarrow> World \<Rightarrow> World" where
  "CurrentLanesReturned g val doCoherenceCheck w =
     emitEvent (EvCurrentLanesReturned val doCoherenceCheck) (endBlockAtJump g w)"

definition GetValue :: "Globals \<Rightarrow> Expr \<Rightarrow> World \<Rightarrow> Value option \<times> World" where
  "GetValue g e w =
     ((if exprGetValueOK g e then Some (ExprValue e) else None), emitEvent (EvGetValue e) w)"

definition GetConstant :: "Globals \<Rightarrow> Expr \<Rightarrow> Type \<Rightarrow> Value option" where
  "GetConstant g e t = (if exprGetConstantOK g e t then Some (ConstantValue e t) else None)"

definition AllocaInst :: "LType \<Rightarrow> string \<Rightarrow> World \<Rightarrow> Value \<times> World" where
  "AllocaInst lt l w =
     (Alloca (nvalues w), emitEvent (EvAllocaInst (nvalues w) lt l) (w\<lparr>nvalues := Suc (nvalues w)\<rparr>))"

definition StoreInst :: "Value \<Rightarrow> Value \<Rightarrow> World \<Rightarrow> World" where
  "StoreInst v ptr w = emitEvent (EvStoreInst v ptr) w"

definition GetElementPtrInst :: "Value \<Rightarrow> nat \<Rightarrow> nat \<Rightarrow> Value" where
  "GetElementPtrInst base i j = ElementPtr base i j"

definition BitCastInst :: "Value \<Rightarrow> LType \<Rightarrow> Value" where
  "BitCastInst v lt = BitCast v lt"

definition GetStringPtr :: "StringConst \<Rightarrow> Value" where
  "GetStringPtr s = StringPtr s"

definition CallInst :: "string \<Rightarrow> Value list \<Rightarrow> World \<Rightarrow> World" where
  "CallInst f args w = emitEvent (EvCallInst f args) w"

definition EmitVariableDebugInfo :: "nat \<Rightarrow> World \<Rightarrow> World" where
  "EmitVariableDebugInfo k w = emitEvent (EvEmitVariableDebugInfo k) w"

definition VaryingCFDepth :: "World \<Rightarrow> nat" where
  "VaryingCFDepth w = length (filter (\<lambda>m. m \<noteq> None) (maskStack w))"

definition GetFunction :: "World \<Rightarrow> nat" where
  "GetFunction w = llvmFunction w"

definition updSym :: "nat \<Rightarrow> (Symbol \<Rightarrow> Symbol) \<Rightarrow> World \<Rightarrow> World" where
  "updSym k f w = w\<lparr>syms := (syms w)(k := f (syms w k))\<rparr>"

definition addGlobalVariable :: "GlobalVar \<Rightarrow> World \<Rightarrow> Value \<times> World" where
  "addGlobalVariable gv w =
     (GlobalVariable (length (globalVars w)), w\<lparr>globalVars := globalVars w @ [gv]\<rparr>)"

section \<open>Constructing an if statement\<close>

text \<open>
  \<^verbatim>\<open>IfStmt::IfStmt\<close> computes the two flags that the statement keeps from then on:
  \<^verbatim>\<open>doAllCheck\<close> from the coherence of the keyword and the option, \<^verbatim>\<open>doAnyCheck\<close>
  from the type that the test has when the statement is built.
\<close>

definition IfStmt_IfStmt ::
  "Globals \<Rightarrow> Expr option \<Rightarrow> Stmt option \<Rightarrow> Stmt option \<Rightarrow> bool \<Rightarrow> SourcePos \<Rightarrow> abort + Stmt" where
  "IfStmt_IfStmt g t ts fs checkCoherence p =
     (case t of
        None \<Rightarrow> Inl NullDeref
      | Some test \<Rightarrow>
          Inr (IfStmt (Some test) ts fs
                 (checkCoherence \<and> \<not> disableCoherentControlFlow g)
                 (case GetType test of None \<Rightarrow> False | Some ty \<Rightarrow> IsVaryingType ty) p))"

section \<open>Cost estimate\<close>

text \<open>Costs are C \<^verbatim>\<open>int\<close>s; they are far from the range's ends and are kept as integers.\<close>

definition addCost :: "abort + int \<Rightarrow> abort + int \<Rightarrow> abort + int" where
  "addCost a b =
     (case a of Inl x \<Rightarrow> Inl x
      | Inr m \<Rightarrow> (case b of Inl y \<Rightarrow> Inl y | Inr n \<Rightarrow> Inr (m + n)))"

definition exprCost :: "Globals \<Rightarrow> Expr option \<Rightarrow> int" where
  "exprCost g e = (case e of None \<Rightarrow> 0 | Some x \<Rightarrow> exprEstimateCost g x)"

fun DeclStmt_EstimateCost :: "Globals \<Rightarrow> VariableDeclaration list \<Rightarrow> int" where
  "DeclStmt_EstimateCost g [] = 0"
| "DeclStmt_EstimateCost g (v # vs) = exprCost g (init v) + DeclStmt_EstimateCost g vs"

fun EstimateCost :: "Globals \<Rightarrow> Stmt \<Rightarrow> abort + int"
  and EstimateCost_opt :: "Globals \<Rightarrow> Stmt option \<Rightarrow> abort + int"
  and EstimateCost_stmts :: "Globals \<Rightarrow> Stmt option list \<Rightarrow> abort + int" where
  "EstimateCost g (ExprStmt expr p) = Inr (exprCost g expr)"
| "EstimateCost g (DeclStmt vars p) = Inr (DeclStmt_EstimateCost g vars)"
| "EstimateCost g (IfStmt test trueStmts falseStmts doAllCheck doAnyCheck p) =
     (let ifcost =
        (case test of
           None \<Rightarrow> 0
         | Some t \<Rightarrow> (case GetType t of
                       None \<Rightarrow> 0
                     | Some ty \<Rightarrow> if IsUniformType ty then COST_UNIFORM_IF g else COST_VARYING_IF g))
      in addCost (Inr ifcost)
           (addCost (Inr (exprCost g test))
             (addCost (EstimateCost_opt g trueStmts) (EstimateCost_opt g falseStmts))))"
| "EstimateCost g (DoStmt testExpr bodyStmts cc p) =
     addCost (Inr (exprCost g testExpr)) (EstimateCost_opt g bodyStmts)"
| "EstimateCost g (ForStmt ini test step stmts cc p) =
     (case (case test of
              None \<Rightarrow> Inr (\<not> disableUniformControlFlow g \<and> \<not> lHasVaryingBreakOrContinue stmts False)
            | Some t \<Rightarrow> (case GetType t of None \<Rightarrow> Inl NullDeref | Some ty \<Rightarrow> Inr (IsUniformType ty))) of
        Inl x \<Rightarrow> Inl x
      | Inr uniformTest \<Rightarrow>
          addCost (EstimateCost_opt g ini)
            (addCost (Inr (exprCost g test))
              (addCost (EstimateCost_opt g step)
                (addCost (EstimateCost_opt g stmts)
                  (Inr (if uniformTest then COST_UNIFORM_LOOP g else COST_VARYING_LOOP g))))))"
| "EstimateCost g (BreakStmt cc p) =
     Inr (if cc then COST_COHERENT_BREAK_CONTINE g else COST_REGULAR_BREAK_CONTINUE g)"
| "EstimateCost g (ContinueStmt cc p) =
     Inr (if cc then COST_COHERENT_BREAK_CONTINE g else COST_REGULAR_BREAK_CONTINUE g)"
| "EstimateCost g (ReturnStmt val cc p) = Inr (COST_RETURN g + exprCost g val)"
| "EstimateCost g (StmtList stmts p) = EstimateCost_stmts g stmts"
| "EstimateCost g (PrintStmt format values p) = Inr (COST_FUNCALL g + exprCost g values)"
| "EstimateCost g (AssertStmt message expr p) = Inr (exprCost g expr + COST_ASSERT g)"
| "EstimateCost_opt g None = Inr 0"
| "EstimateCost_opt g (Some s) = EstimateCost g s"
| "EstimateCost_stmts g [] = Inr 0"
| "EstimateCost_stmts g (s # ss) = addCost (EstimateCost_opt g s) (EstimateCost_stmts g ss)"

section \<open>Type checking\<close>

text \<open>
  The test of an \<^verbatim>\<open>if\<close>, a loop or an \<^verbatim>\<open>assert\<close>, once its own type check has run:
  a test with a type that is neither numeric nor bool is the error; a test with a type gets the
  bool cast, uniform when \<open>uniformOK\<close> says so; a test that is null or has no type stays.
\<close>

definition castTestToBool :: "string \<Rightarrow> (Type \<Rightarrow> bool) \<Rightarrow> Expr option \<Rightarrow> Diag + Expr option" where
  "castTestToBool what uniformOK test =
     (case test of
        None \<Rightarrow> Inr None
      | Some t \<Rightarrow>
          (case GetType t of
             None \<Rightarrow> Inr (Some t)
           | Some testType \<Rightarrow>
               if \<not> IsNumericType testType \<and> \<not> IsBoolType testType
               then Inl (ErrNotBoolean what testType)
               else Inr (Some (TypeCastExpr (if uniformOK testType then UniformBool else VaryingBool)
                                 (Some t)))))"

definition exprTypeCheck_opt :: "Globals \<Rightarrow> Expr option \<Rightarrow> Expr option" where
  "exprTypeCheck_opt g e = (case e of None \<Rightarrow> None | Some x \<Rightarrow> exprTypeCheck g x)"

fun DeclStmt_TypeCheck_vars ::
  "Globals \<Rightarrow> (nat \<Rightarrow> Symbol) \<Rightarrow> VariableDeclaration list \<Rightarrow> VariableDeclaration list \<times> bool" where
  "DeclStmt_TypeCheck_vars g \<sigma> [] = ([], False)"
| "DeclStmt_TypeCheck_vars g \<sigma> (v # vs) =
     (case DeclStmt_TypeCheck_vars g \<sigma> vs of
        (vs', encounteredError) \<Rightarrow>
          (case sym v of
             None \<Rightarrow> (v # vs', True)
           | Some k \<Rightarrow>
               (case init v of
                  None \<Rightarrow> (v # vs', encounteredError)
                | Some e \<Rightarrow>
                    (case exprTypeCheck g e of
                       None \<Rightarrow> (v\<lparr>init := None\<rparr> # vs', encounteredError)
                     | Some e' \<Rightarrow>
                         (case type (\<sigma> k) of
                            None \<Rightarrow> (v\<lparr>init := Some e'\<rparr> # vs', encounteredError)
                          | Some ty \<Rightarrow>
                              if (isAtomicType ty \<or> isEnumType ty) \<and> \<not> isExprList e'
                              then (case TypeConvertExpr g e' ty of
                                      None \<Rightarrow> (v\<lparr>init := None\<rparr> # vs', True)
                                    | Some e'' \<Rightarrow> (v\<lparr>init := Some e''\<rparr> # vs', encounteredError))
                              else (v\<lparr>init := Some e'\<rparr> # vs', encounteredError))))))"

fun TypeCheck :: "Globals \<Rightarrow> (nat \<Rightarrow> Symbol) \<Rightarrow> Stmt \<Rightarrow> Diag list \<Rightarrow> Stmt option \<times> Diag list"
  and TypeCheck_opt :: "Globals \<Rightarrow> (nat \<Rightarrow> Symbol) \<Rightarrow> Stmt option \<Rightarrow> Diag list \<Rightarrow> Stmt option \<times> Diag list"
  and TypeCheck_stmts ::
    "Globals \<Rightarrow> (nat \<Rightarrow> Symbol) \<Rightarrow> Stmt option list \<Rightarrow> Diag list \<Rightarrow> Stmt option list \<times> Diag list" where
  "TypeCheck g \<sigma> (ExprStmt expr p) ds = (Some (ExprStmt (exprTypeCheck_opt g expr) p), ds)"
| "TypeCheck g \<sigma> (DeclStmt vars p) ds =
     (case DeclStmt_TypeCheck_vars g \<sigma> vars of
        (vars', encounteredError) \<Rightarrow>
          ((if encounteredError then None else Some (DeclStmt vars' p)), ds))"
| "TypeCheck g \<sigma> (IfStmt test trueStmts falseStmts doAllCheck doAnyCheck p) ds =
     (case castTestToBool ''if''
             (\<lambda>testType. IsUniformType testType \<and> \<not> disableUniformControlFlow g)
             (exprTypeCheck_opt g test) of
        Inl d \<Rightarrow> (None, ds @ [d])
      | Inr test' \<Rightarrow>
          (case TypeCheck_opt g \<sigma> trueStmts ds of
             (trueStmts', ds1) \<Rightarrow>
               (case TypeCheck_opt g \<sigma> falseStmts ds1 of
                  (falseStmts', ds2) \<Rightarrow>
                    (Some (IfStmt test' trueStmts' falseStmts' doAllCheck doAnyCheck p), ds2))))"
| "TypeCheck g \<sigma> (DoStmt testExpr bodyStmts cc p) ds =
     (case castTestToBool ''do''
             (\<lambda>testType. IsUniformType testType \<and> \<not> disableUniformControlFlow g \<and>
                          \<not> lHasVaryingBreakOrContinue bodyStmts False)
             (exprTypeCheck_opt g testExpr) of
        Inl d \<Rightarrow> (None, ds @ [d])
      | Inr testExpr' \<Rightarrow>
          (case TypeCheck_opt g \<sigma> bodyStmts ds of
             (bodyStmts', ds1) \<Rightarrow> (Some (DoStmt testExpr' bodyStmts' cc p), ds1)))"
| "TypeCheck g \<sigma> (ForStmt ini test step stmts cc p) ds =
     (case castTestToBool ''for''
             (\<lambda>testType. IsUniformType testType \<and> \<not> disableUniformControlFlow g \<and>
                          \<not> lHasVaryingBreakOrContinue stmts False)
             (exprTypeCheck_opt g test) of
        Inl d \<Rightarrow> (None, ds @ [d])
      | Inr test' \<Rightarrow>
          (case TypeCheck_opt g \<sigma> ini ds of
             (ini', ds1) \<Rightarrow>
               (case TypeCheck_opt g \<sigma> step ds1 of
                  (step', ds2) \<Rightarrow>
                    (case TypeCheck_opt g \<sigma> stmts ds2 of
                       (stmts', ds3) \<Rightarrow> (Some (ForStmt ini' test' step' stmts' cc p), ds3)))))"
| "TypeCheck g \<sigma> (BreakStmt cc p) ds = (Some (BreakStmt cc p), ds)"
| "TypeCheck g \<sigma> (ContinueStmt cc p) ds = (Some (ContinueStmt cc p), ds)"
| "TypeCheck g \<sigma> (ReturnStmt val cc p) ds = (Some (ReturnStmt (exprTypeCheck_opt g val) cc p), ds)"
| "TypeCheck g \<sigma> (StmtList stmts p) ds =
     (case TypeCheck_stmts g \<sigma> stmts ds of (stmts', ds1) \<Rightarrow> (Some (StmtList stmts' p), ds1))"
| "TypeCheck g \<sigma> (PrintStmt format values p) ds =
     (Some (PrintStmt format (exprTypeCheck_opt g values) p), ds)"
| "TypeCheck g \<sigma> (AssertStmt message expr p) ds =
     (case castTestToBool ''assert'' IsUniformType (exprTypeCheck_opt g expr) of
        Inl d \<Rightarrow> (None, ds @ [d])
      | Inr expr' \<Rightarrow> (Some (AssertStmt message expr' p), ds))"
| "TypeCheck_opt g \<sigma> None ds = (None, ds)"
| "TypeCheck_opt g \<sigma> (Some s) ds = TypeCheck g \<sigma> s ds"
| "TypeCheck_stmts g \<sigma> [] ds = ([], ds)"
| "TypeCheck_stmts g \<sigma> (s # ss) ds =
     (case TypeCheck_opt g \<sigma> s ds of
        (s', ds1) \<Rightarrow>
          (case TypeCheck_stmts g \<sigma> ss ds1 of (ss', ds2) \<Rightarrow> (s' # ss', ds2)))"

text \<open>The test of an \<^verbatim>\<open>if\<close>, a loop or an \<^verbatim>\<open>assert\<close>, and the body of a loop.\<close>

fun testOf :: "Stmt \<Rightarrow> Expr option" where
  "testOf (IfStmt test ts fs da dn p) = test"
| "testOf (DoStmt testExpr body cc p) = testExpr"
| "testOf (ForStmt ini test step stmts cc p) = test"
| "testOf (AssertStmt m expr p) = expr"
| "testOf _ = None"

fun hasTest :: "Stmt \<Rightarrow> bool" where
  "hasTest (IfStmt test ts fs da dn p) = True"
| "hasTest (DoStmt testExpr body cc p) = True"
| "hasTest (ForStmt ini test step stmts cc p) = True"
| "hasTest (AssertStmt m expr p) = True"
| "hasTest _ = False"

fun isLoop :: "Stmt \<Rightarrow> bool" where
  "isLoop (DoStmt testExpr body cc p) = True"
| "isLoop (ForStmt ini test step stmts cc p) = True"
| "isLoop _ = False"

fun loopBody :: "Stmt \<Rightarrow> Stmt option" where
  "loopBody (DoStmt testExpr body cc p) = body"
| "loopBody (ForStmt ini test step stmts cc p) = stmts"
| "loopBody _ = None"

section \<open>Optimization\<close>





text \<open>
  The symbols that an expression names, over its children.
\<close>

fun symbolsOf :: "Expr option \<Rightarrow> nat list"
  and symbolsOf_exprs :: "Expr option list \<Rightarrow> nat list" where
  "symbolsOf None = []"
| "symbolsOf (Some (UnaryExpr e t)) = symbolsOf e"
| "symbolsOf (Some (BinaryExpr arg0 arg1 t)) = symbolsOf arg0 @ symbolsOf arg1"
| "symbolsOf (Some (AssignExpr lvalue rvalue t)) = symbolsOf lvalue @ symbolsOf rvalue"
| "symbolsOf (Some (SelectExpr test expr1 expr2 t)) = symbolsOf test @ symbolsOf expr1 @ symbolsOf expr2"
| "symbolsOf (Some (ExprList exprs)) = symbolsOf_exprs exprs"
| "symbolsOf (Some (FunctionCallExpr f a t)) = symbolsOf f @ symbolsOf a"
| "symbolsOf (Some (IndexExpr arrayOrVector index t)) = symbolsOf arrayOrVector @ symbolsOf index"
| "symbolsOf (Some (MemberExpr e m t)) = symbolsOf e"
| "symbolsOf (Some (ConstExpr t vs)) = []"
| "symbolsOf (Some (TypeCastExpr t e)) = symbolsOf e"
| "symbolsOf (Some (ReferenceExpr e t)) = symbolsOf e"
| "symbolsOf (Some (DereferenceExpr e)) = symbolsOf e"
| "symbolsOf (Some (SymbolExpr s t)) = (case s of None \<Rightarrow> [] | Some k \<Rightarrow> [k])"
| "symbolsOf (Some (FunctionSymbolExpr f t)) = []"
| "symbolsOf (Some SyncExpr) = []"
| "symbolsOf_exprs [] = []"
| "symbolsOf_exprs (e # es) = symbolsOf e @ symbolsOf_exprs es"





text \<open>
  The calls that one run of \<^verbatim>\<open>Optimize\<close> makes on a statement, in the order of the
  methods above: an expression handed to \<^verbatim>\<open>Expr::Optimize\<close>, or a symbol whose
  \<^verbatim>\<open>constValue\<close> \<^verbatim>\<open>DeclStmt::Optimize\<close> may write (the symbol of a declaration with
  an initializer, when its type is const-qualified).  \<^verbatim>\<open>IfStmt\<close>, \<^verbatim>\<open>DoStmt\<close> and
  \<^verbatim>\<open>ForStmt\<close> optimize the test first; \<^verbatim>\<open>ForStmt\<close> then the initializer, the step and
  the body.
\<close>

datatype OptimizeStep = Optimizes Expr | Captures nat

definition constSymbol :: "(nat \<Rightarrow> Symbol) \<Rightarrow> nat \<Rightarrow> bool" where
  "constSymbol \<sigma> k = (case type (\<sigma> k) of None \<Rightarrow> False | Some ty \<Rightarrow> IsConstType ty)"

definition exprStep :: "Expr option \<Rightarrow> OptimizeStep list" where
  "exprStep e = (case e of None \<Rightarrow> [] | Some x \<Rightarrow> [Optimizes x])"

fun DeclStmt_steps :: "(nat \<Rightarrow> bool) \<Rightarrow> VariableDeclaration list \<Rightarrow> OptimizeStep list" where
  "DeclStmt_steps isConst [] = []"
| "DeclStmt_steps isConst (v # vs) =
     (case init v of
        None \<Rightarrow> []
      | Some e \<Rightarrow>
          Optimizes e #
          (case sym v of None \<Rightarrow> [] | Some k \<Rightarrow> (if isConst k then [Captures k] else []))) @
     DeclStmt_steps isConst vs"

fun optimizeSteps :: "(nat \<Rightarrow> bool) \<Rightarrow> Stmt \<Rightarrow> OptimizeStep list"
  and optimizeSteps_opt :: "(nat \<Rightarrow> bool) \<Rightarrow> Stmt option \<Rightarrow> OptimizeStep list"
  and optimizeSteps_stmts :: "(nat \<Rightarrow> bool) \<Rightarrow> Stmt option list \<Rightarrow> OptimizeStep list" where
  "optimizeSteps isConst (ExprStmt expr p) = exprStep expr"
| "optimizeSteps isConst (DeclStmt vars p) = DeclStmt_steps isConst vars"
| "optimizeSteps isConst (IfStmt test trueStmts falseStmts doAllCheck doAnyCheck p) =
     exprStep test @ optimizeSteps_opt isConst trueStmts @ optimizeSteps_opt isConst falseStmts"
| "optimizeSteps isConst (DoStmt testExpr bodyStmts cc p) =
     exprStep testExpr @ optimizeSteps_opt isConst bodyStmts"
| "optimizeSteps isConst (ForStmt ini test step stmts cc p) =
     exprStep test @ optimizeSteps_opt isConst ini @ optimizeSteps_opt isConst step @
     optimizeSteps_opt isConst stmts"
| "optimizeSteps isConst (BreakStmt cc p) = []"
| "optimizeSteps isConst (ContinueStmt cc p) = []"
| "optimizeSteps isConst (ReturnStmt val cc p) = exprStep val"
| "optimizeSteps isConst (StmtList stmts p) = optimizeSteps_stmts isConst stmts"
| "optimizeSteps isConst (PrintStmt format values p) = exprStep values"
| "optimizeSteps isConst (AssertStmt message expr p) = exprStep expr"
| "optimizeSteps_opt isConst None = []"
| "optimizeSteps_opt isConst (Some s) = optimizeSteps isConst s"
| "optimizeSteps_stmts isConst [] = []"
| "optimizeSteps_stmts isConst (s # ss) = optimizeSteps_opt isConst s @ optimizeSteps_stmts isConst ss"

text \<open>
  No late capture: no symbol's constant is written after an expression that names the
  symbol has been optimized.
\<close>

fun noLateCapture :: "OptimizeStep list \<Rightarrow> bool" where
  "noLateCapture [] = True"
| "noLateCapture (Optimizes e # rest) =
     ((\<forall>k\<in>set (symbolsOf (Some e)). Captures k \<notin> set rest) \<and> noLateCapture rest)"
| "noLateCapture (Captures k # rest) = noLateCapture rest"

section \<open>Emitting declarations\<close>

definition collectionName :: "Type \<Rightarrow> string" where
  "collectionName ty =
     (case ty of StructType n ts u c \<Rightarrow> ''struct'' | ArrayType t n \<Rightarrow> ''array'' | _ \<Rightarrow> ''vector'')"

definition storeValueOf :: "Globals \<Rightarrow> Expr \<Rightarrow> Value \<Rightarrow> World \<Rightarrow> World" where
  "storeValueOf g e lvalue w =
     (case GetValue g e w of
        (None, w1) \<Rightarrow> w1
      | (Some initializerValue, w1) \<Rightarrow> StoreInst initializerValue lvalue w1)"

fun lInitSymbol :: "Globals \<Rightarrow> Value \<Rightarrow> string \<Rightarrow> Type \<Rightarrow> Expr option \<Rightarrow> World \<Rightarrow> abort + World"
  and lInitSymbol_elements ::
    "Globals \<Rightarrow> Value \<Rightarrow> string \<Rightarrow> Type \<Rightarrow> Expr option list \<Rightarrow> nat \<Rightarrow> World \<Rightarrow> abort + World" where
  "lInitSymbol g lvalue symName ty None w = Inr (StoreInst (UndefValue (LLVMType ty)) lvalue w)"
| "lInitSymbol g lvalue symName ty (Some initExpr) w =
     (case (if isExprList initExpr then None else TypeConvertExpr g initExpr ty) of
        Some converted \<Rightarrow> Inr (storeValueOf g converted lvalue w)
      | None \<Rightarrow>
          if isAtomicType ty \<or> isEnumType ty then
            (if isExprList initExpr then Inr (reportDiag (ErrExprListInitializer symName ty) w)
             else Inr w)
          else if isReferenceType ty then
            (if \<not> isExprList initExpr then Inl NullDeref
             else if \<not> type_Equal (GetType initExpr) (Some ty) then
               (case GetType initExpr of
                  None \<Rightarrow> Inl NullDeref
                | Some t \<Rightarrow> Inr (reportDiag (ErrReferenceInitializer ty (Some t)) w))
             else Inr (storeValueOf g initExpr lvalue w))
          else if isCollectionType ty then
            (case initExpr of
               ExprList exprs \<Rightarrow>
                 if length exprs \<noteq> GetElementCount ty
                 then Inr (reportDiag (ErrInitializerCount (collectionName ty) symName
                                         (GetElementCount ty) (length exprs)) w)
                 else lInitSymbol_elements g lvalue symName ty exprs 0 w
             | _ \<Rightarrow> Inl NullDeref)
          else Inl Fatal)"
| "lInitSymbol_elements g lvalue symName ty [] i w = Inr w"
| "lInitSymbol_elements g lvalue symName ty (e # es) i w =
     (case lInitSymbol g (GetElementPtrInst lvalue 0 i) symName (GetElementType ty i) e w of
        Inl x \<Rightarrow> Inl x
      | Inr w1 \<Rightarrow> lInitSymbol_elements g lvalue symName ty es (Suc i) w1)"

text \<open>The body of the loop of \<^verbatim>\<open>DeclStmt::EmitCode\<close>, for one declared variable.\<close>

definition DeclStmt_EmitCode_var :: "Globals \<Rightarrow> VariableDeclaration \<Rightarrow> World \<Rightarrow> abort + World" where
  "DeclStmt_EmitCode_var g v w =
     (case sym v of
        None \<Rightarrow> Inl AssertFailed
      | Some k \<Rightarrow>
          (case type (syms w k) of
             None \<Rightarrow> Inr w
           | Some ty0 \<Rightarrow>
               (let w1 = updSym k (\<lambda>s. s\<lparr>varyingCFDepth := VaryingCFDepth w\<rparr>) w;
                    w2 = SetDebugPos (pos (syms w1 k)) w1
                in case (if isArrayType ty0 \<and> GetElementCount ty0 = 0 then
                           (case init v of
                              Some (ExprList exprs) \<Rightarrow>
                                Some (GetSizedArray ty0 (length exprs),
                                      updSym k (\<lambda>s. s\<lparr>type := Some (GetSizedArray ty0 (length exprs))\<rparr>) w2)
                            | _ \<Rightarrow> None)
                         else Some (ty0, w2)) of
                     None \<Rightarrow> Inr (reportDiag (ErrUnsizedArray (pos (syms w2 k))) w2)
                   | Some (ty, w3) \<Rightarrow>
                       if isReferenceType ty \<and> init v = None then
                         Inr (reportDiag (ErrReferenceNeedsInitializer (pos (syms w3 k)) (name (syms w3 k))) w3)
                       else if storageClass (syms w3 k) = SC_STATIC then
                         (let cinit = (case init v of None \<Rightarrow> None | Some e \<Rightarrow> GetConstant g e ty);
                              w4 = (if init v \<noteq> None \<and> cinit = None
                                    then reportDiag (ErrStaticInitializer (pos (syms w3 k)) (name (syms w3 k))) w3
                                    else w3);
                              cinit' = (case cinit of None \<Rightarrow> NullValue (LLVMType ty) | Some c \<Rightarrow> c);
                              (gv, w5) = addGlobalVariable
                                           \<lparr>gType = LLVMType ty, gIsConst = IsConstType ty,
                                            gInitializer = cinit', gLine = fst (snd (pos (syms w4 k))),
                                            gName = name (syms w4 k)\<rparr> w4;
                              w6 = updSym k (\<lambda>s. s\<lparr>storagePtr := Some gv\<rparr>) w5
                          in Inr (EmitVariableDebugInfo k w6))
                       else
                         (let (ptr, w4) = AllocaInst (LLVMType ty) (name (syms w3 k)) w3;
                              w5 = updSym k (\<lambda>s. s\<lparr>storagePtr := Some ptr\<rparr>) w4;
                              w6 = EmitVariableDebugInfo k w5;
                              w7 = updSym k (\<lambda>s. s\<lparr>parentFunction := Some (GetFunction w6)\<rparr>) w6
                          in lInitSymbol g ptr (name (syms w7 k)) ty (init v) w7))))"

fun DeclStmt_EmitCode_vars :: "Globals \<Rightarrow> VariableDeclaration list \<Rightarrow> World \<Rightarrow> abort + World" where
  "DeclStmt_EmitCode_vars g [] w = Inr w"
| "DeclStmt_EmitCode_vars g (v # vs) w =
     (case DeclStmt_EmitCode_var g v w of
        Inl x \<Rightarrow> Inl x
      | Inr w1 \<Rightarrow> DeclStmt_EmitCode_vars g vs w1)"

definition DeclStmt_EmitCode :: "Globals \<Rightarrow> VariableDeclaration list \<Rightarrow> World \<Rightarrow> abort + World" where
  "DeclStmt_EmitCode g vars w =
     (if bblock w = None then Inr w else DeclStmt_EmitCode_vars g vars w)"

section \<open>Emitting statements\<close>

text \<open>
  A statement's \<^verbatim>\<open>EmitCode\<close> calls the \<^verbatim>\<open>EmitCode\<close> of its children through their
  virtual method.  In the definitions of this section a child comes with its emitter, the
  function that \<^verbatim>\<open>child->EmitCode(ctx)\<close> is; \<open>EmitCode\<close> below passes its own.
\<close>

type_synonym emitter = "World \<Rightarrow> abort + World"

definition assertBlock :: "World \<Rightarrow> abort + World" where
  "assertBlock w = (if bblock w = None then Inl AssertFailed else Inr w)"

definition ExprStmt_EmitCode :: "Globals \<Rightarrow> Expr option \<Rightarrow> SourcePos \<Rightarrow> World \<Rightarrow> abort + World" where
  "ExprStmt_EmitCode g expr p w =
     (if bblock w = None then Inr w
      else (case expr of
              None \<Rightarrow> Inr (SetDebugPos p w)
            | Some e \<Rightarrow> Inr (snd (GetValue g e (SetDebugPos p w)))))"

definition lEmitIfStatements :: "emitter \<Rightarrow> Stmt option \<Rightarrow> string \<Rightarrow> World \<Rightarrow> abort + World" where
  "lEmitIfStatements emitStmts stmts trueOrFalse w =
     (if stmts = None then Inr w
      else (case emitStmts (AddInstrumentationPoint trueOrFalse
                              (if \<not> isStmtList stmts then StartScope w else w)) of
              Inl x \<Rightarrow> Inl x
            | Inr w1 \<Rightarrow> Inr (if \<not> isStmtList stmts then EndScope w1 else w1)))"

definition emitMaskedTrueAndFalse ::
  "emitter \<Rightarrow> emitter \<Rightarrow> Stmt option \<Rightarrow> Stmt option \<Rightarrow> Value \<Rightarrow> Value \<Rightarrow> World \<Rightarrow> abort + World" where
  "emitMaskedTrueAndFalse emitTrue emitFalse trueStmts falseStmts oldMask test w =
     (case (if trueStmts \<noteq> None then
              (case lEmitIfStatements emitTrue trueStmts ''if: expr mixed, true statements''
                      (SetInternalMaskAnd oldMask test w) of
                 Inl x \<Rightarrow> Inl x
               | Inr w1 \<Rightarrow> assertBlock w1)
            else Inr w) of
        Inl x \<Rightarrow> Inl x
      | Inr w2 \<Rightarrow>
          (if falseStmts \<noteq> None then
             (case lEmitIfStatements emitFalse falseStmts ''if: expr mixed, false statements''
                     (SetInternalMaskAndNot oldMask test w2) of
                Inl x \<Rightarrow> Inl x
              | Inr w3 \<Rightarrow> assertBlock w3)
           else Inr w2))"

definition emitMaskAllOn ::
  "emitter \<Rightarrow> emitter \<Rightarrow> Stmt option \<Rightarrow> Stmt option \<Rightarrow> Value \<Rightarrow> nat \<Rightarrow> World \<Rightarrow> abort + World" where
  "emitMaskAllOn emitTrue emitFalse trueStmts falseStmts ltest bDone w =
     (let w1 = SetInternalMask LLVMMaskAllOn w;
          oldFunctionMask = GetFunctionMask w1;
          w2 = SetFunctionMask LLVMMaskAllOn w1;
          (bTestAll, w3) = CreateBasicBlock ''cif_test_all'' w2;
          (bTestNoneCheck, w4) = CreateBasicBlock ''cif_test_none_check'' w3;
          w5 = CondBranchInst bTestAll bTestNoneCheck (AllOf ltest) w4;
          w6 = StartVaryingIf LLVMMaskAllOn (SetCurrentBasicBlock bTestAll w5)
      in case lEmitIfStatements emitTrue trueStmts ''if: all on mask, expr all true'' w6 of
           Inl x \<Rightarrow> Inl x
         | Inr w7 \<Rightarrow>
             (let w8 = EndIf w7;
                  w9 = (if bblock w8 \<noteq> None then BranchInst bDone w8 else w8);
                  w10 = SetCurrentBasicBlock bTestNoneCheck w9;
                  (bTestNone, w11) = CreateBasicBlock ''cif_test_none'' w10;
                  (bTestMixed, w12) = CreateBasicBlock ''cif_test_mixed'' w11;
                  w13 = CondBranchInst bTestMixed bTestNone (AnyOf ltest) w12;
                  w14 = StartVaryingIf LLVMMaskAllOn (SetCurrentBasicBlock bTestNone w13)
              in case lEmitIfStatements emitFalse falseStmts ''if: all on mask, expr all false'' w14 of
                   Inl x \<Rightarrow> Inl x
                 | Inr w15 \<Rightarrow>
                     (let w16 = EndIf w15;
                          w17 = (if bblock w16 \<noteq> None then BranchInst bDone w16 else w16);
                          w18 = StartVaryingIf LLVMMaskAllOn (SetCurrentBasicBlock bTestMixed w17)
                      in case emitMaskedTrueAndFalse emitTrue emitFalse trueStmts falseStmts
                                LLVMMaskAllOn ltest w18 of
                           Inl x \<Rightarrow> Inl x
                         | Inr w19 \<Rightarrow>
                             (case assertBlock w19 of
                                Inl x \<Rightarrow> Inl x
                              | Inr w20 \<Rightarrow>
                                  Inr (SetFunctionMask oldFunctionMask
                                        (SetCurrentBasicBlock bDone (BranchInst bDone (EndIf w20))))))))"

definition emitMaskMixed ::
  "emitter \<Rightarrow> emitter \<Rightarrow> Stmt option \<Rightarrow> Stmt option \<Rightarrow> Value \<Rightarrow> Value \<Rightarrow> nat \<Rightarrow> World \<Rightarrow> abort + World" where
  "emitMaskMixed emitTrue emitFalse trueStmts falseStmts oldMask ltest bDone w =
     (let w1 = StartVaryingIf oldMask w;
          (bNext, w2) = CreateBasicBlock ''safe_if_after_true'' w1
      in case (if trueStmts \<noteq> None then
                 (let (bRunTrue, w3) = CreateBasicBlock ''safe_if_run_true'' w2;
                      w4 = SetInternalMaskAnd oldMask ltest w3;
                      w5 = CondBranchInst bRunTrue bNext (AnyOf (GetFullMask w4)) w4;
                      w6 = SetCurrentBasicBlock bRunTrue w5
                  in case lEmitIfStatements emitTrue trueStmts ''if: expr mixed, true statements'' w6 of
                       Inl x \<Rightarrow> Inl x
                     | Inr w7 \<Rightarrow>
                         (case assertBlock w7 of
                            Inl x \<Rightarrow> Inl x
                          | Inr w8 \<Rightarrow> Inr (SetCurrentBasicBlock bNext (BranchInst bNext w8))))
               else Inr w2) of
           Inl x \<Rightarrow> Inl x
         | Inr w9 \<Rightarrow>
             (case (if falseStmts \<noteq> None then
                      (let (bRunFalse, w10) = CreateBasicBlock ''safe_if_run_false'' w9;
                           (bNext', w11) = CreateBasicBlock ''safe_if_after_false'' w10;
                           w12 = SetInternalMaskAndNot oldMask ltest w11;
                           w13 = CondBranchInst bRunFalse bNext' (AnyOf (GetFullMask w12)) w12;
                           w14 = SetCurrentBasicBlock bRunFalse w13
                       in case lEmitIfStatements emitFalse falseStmts ''if: expr mixed, false statements'' w14 of
                            Inl x \<Rightarrow> Inl x
                          | Inr w15 \<Rightarrow>
                              (case assertBlock w15 of
                                 Inl x \<Rightarrow> Inl x
                               | Inr w16 \<Rightarrow> Inr (SetCurrentBasicBlock bNext' (BranchInst bNext' w16))))
                    else Inr w9) of
                Inl x \<Rightarrow> Inl x
              | Inr w17 \<Rightarrow> Inr (EndIf (SetCurrentBasicBlock bDone (BranchInst bDone w17)))))"

text \<open>
  The test of \<^verbatim>\<open>emitVaryingIf\<close> for the predicated form: both sides safe with all lanes off
  and their costs, together, under the threshold.
\<close>

definition safeAndCheap :: "Globals \<Rightarrow> Stmt option \<Rightarrow> Stmt option \<Rightarrow> abort + bool" where
  "safeAndCheap g trueStmts falseStmts =
     andAlso (lSafeToRunWithAllLanesOff_Stmt trueStmts)
       (andAlso (lSafeToRunWithAllLanesOff_Stmt falseStmts)
          (case addCost (EstimateCost_opt g trueStmts) (EstimateCost_opt g falseStmts) of
             Inl x \<Rightarrow> Inl x
           | Inr c \<Rightarrow> Inr (c < PREDICATE_SAFE_IF_STATEMENT_COST g)))"

definition emitVaryingIf ::
  "Globals \<Rightarrow> emitter \<Rightarrow> emitter \<Rightarrow> Stmt option \<Rightarrow> Stmt option \<Rightarrow> bool \<Rightarrow> bool \<Rightarrow> Value \<Rightarrow> World \<Rightarrow>
     abort + World" where
  "emitVaryingIf g emitTrue emitFalse trueStmts falseStmts doAllCheck doAnyCheck ltest w =
     (let oldMask = GetInternalMask w in
      if GetFullMask w = LLVMMaskAllOn then
        (let (bDone, w1) = CreateBasicBlock ''cif_done'' w
         in case emitMaskAllOn emitTrue emitFalse trueStmts falseStmts ltest bDone w1 of
              Inl x \<Rightarrow> Inl x
            | Inr w2 \<Rightarrow> Inr (SetCurrentBasicBlock bDone w2))
      else if doAllCheck then
        (let (bAllOn, w1) = CreateBasicBlock ''cif_mask_all'' w;
             (bMixedOn, w2) = CreateBasicBlock ''cif_mask_mixed'' w1;
             (bDone, w3) = CreateBasicBlock ''cif_done'' w2;
             w4 = CondBranchInst bAllOn bMixedOn (AllOf (GetFullMask w3)) w3;
             w5 = SetCurrentBasicBlock bAllOn w4
         in case emitMaskAllOn emitTrue emitFalse trueStmts falseStmts ltest bDone w5 of
              Inl x \<Rightarrow> Inl x
            | Inr w6 \<Rightarrow>
                (case emitMaskMixed emitTrue emitFalse trueStmts falseStmts oldMask ltest bDone
                        (SetCurrentBasicBlock bMixedOn w6) of
                   Inl x \<Rightarrow> Inl x
                 | Inr w7 \<Rightarrow> Inr (SetCurrentBasicBlock bDone w7)))
      else if trueStmts \<noteq> None \<or> falseStmts \<noteq> None then
        (case safeAndCheap g trueStmts falseStmts of
           Inl x \<Rightarrow> Inl x
         | Inr predicated \<Rightarrow>
             if predicated then
               (case emitMaskedTrueAndFalse emitTrue emitFalse trueStmts falseStmts oldMask ltest
                       (StartVaryingIf oldMask w) of
                  Inl x \<Rightarrow> Inl x
                | Inr w1 \<Rightarrow>
                    (case assertBlock w1 of Inl x \<Rightarrow> Inl x | Inr w2 \<Rightarrow> Inr (EndIf w2)))
             else if \<not> doAnyCheck then Inl AssertFailed
             else
               (let (bDone, w1) = CreateBasicBlock ''if_done'' w
                in case emitMaskMixed emitTrue emitFalse trueStmts falseStmts oldMask ltest bDone w1 of
                     Inl x \<Rightarrow> Inl x
                   | Inr w2 \<Rightarrow> Inr (SetCurrentBasicBlock bDone w2)))
      else Inr w)"

definition IfStmt_EmitCode ::
  "Globals \<Rightarrow> emitter \<Rightarrow> emitter \<Rightarrow> Expr option \<Rightarrow> Stmt option \<Rightarrow> Stmt option \<Rightarrow> bool \<Rightarrow> bool \<Rightarrow>
     SourcePos \<Rightarrow> World \<Rightarrow> abort + World" where
  "IfStmt_EmitCode g emitTrue emitFalse test trueStmts falseStmts doAllCheck doAnyCheck p w =
     (if bblock w = None then Inr w
      else
       (case test of
        None \<Rightarrow> Inr w
      | Some t \<Rightarrow>
          (case GetType t of
             None \<Rightarrow> Inr w
           | Some testType \<Rightarrow>
               (case GetValue g t (SetDebugPos p w) of
                  (None, w1) \<Rightarrow> Inr w1
                | (Some testValue, w1) \<Rightarrow>
                    if IsUniformType testType then
                      (let w2 = StartUniformIf w1;
                           w3 = (if doAllCheck then reportDiag (WarnUniformCondition ''cif'') w2 else w2);
                           (bthen, w4) = CreateBasicBlock ''if_then'' w3;
                           (belse, w5) = CreateBasicBlock ''if_else'' w4;
                           (bexit, w6) = CreateBasicBlock ''if_exit'' w5;
                           w7 = SetCurrentBasicBlock bthen (CondBranchInst bthen belse testValue w6)
                       in case lEmitIfStatements emitTrue trueStmts ''true'' w7 of
                            Inl x \<Rightarrow> Inl x
                          | Inr w8 \<Rightarrow>
                              (let w9 = (if bblock w8 \<noteq> None then BranchInst bexit w8 else w8);
                                   w10 = SetCurrentBasicBlock belse w9
                               in case lEmitIfStatements emitFalse falseStmts ''false'' w10 of
                                    Inl x \<Rightarrow> Inl x
                                  | Inr w11 \<Rightarrow>
                                      (let w12 = (if bblock w11 \<noteq> None then BranchInst bexit w11 else w11)
                                       in Inr (EndIf (SetCurrentBasicBlock bexit w12)))))
                    else emitVaryingIf g emitTrue emitFalse trueStmts falseStmts doAllCheck doAnyCheck
                           testValue w1))))"

text \<open>
  The loop body under a coherent check, shared by \<^verbatim>\<open>do\<close> and \<^verbatim>\<open>for\<close>: once with the
  mask set all on, once with the mask as it is; \<open>assertSecond\<close> tells whether the source
  asserts a current block after the second copy (\<^verbatim>\<open>do\<close> does, \<^verbatim>\<open>for\<close> does not).
\<close>

definition emitCoherentBody ::
  "emitter \<Rightarrow> string \<Rightarrow> string \<Rightarrow> nat \<Rightarrow> bool \<Rightarrow> World \<Rightarrow> abort + World" where
  "emitCoherentBody emitBody allOnName mixedName bnext assertSecond w =
     (let (bAllOn, w1) = CreateBasicBlock allOnName w;
          (bMixed, w2) = CreateBasicBlock mixedName w1;
          w3 = SetCurrentBasicBlock bAllOn (BranchIfMaskAll bAllOn bMixed w2);
          w4 = SetInternalMask LLVMMaskAllOn w3;
          oldFunctionMask = GetFunctionMask w4;
          w5 = SetFunctionMask LLVMMaskAllOn w4
      in case emitBody w5 of
           Inl x \<Rightarrow> Inl x
         | Inr w6 \<Rightarrow>
             (case assertBlock w6 of
                Inl x \<Rightarrow> Inl x
              | Inr w7 \<Rightarrow>
                  (case emitBody (SetCurrentBasicBlock bMixed
                                    (BranchInst bnext (SetFunctionMask oldFunctionMask w7))) of
                     Inl x \<Rightarrow> Inl x
                   | Inr w8 \<Rightarrow>
                       (if assertSecond \<and> bblock w8 = None then Inl AssertFailed
                        else Inr (BranchInst bnext w8)))))"

definition emitPlainBody :: "emitter \<Rightarrow> nat \<Rightarrow> World \<Rightarrow> abort + World" where
  "emitPlainBody emitBody bnext w =
     (case emitBody w of
        Inl x \<Rightarrow> Inl x
      | Inr w1 \<Rightarrow> Inr (if bblock w1 \<noteq> None then BranchInst bnext w1 else w1))"

definition DoStmt_EmitCode ::
  "Globals \<Rightarrow> emitter \<Rightarrow> Expr option \<Rightarrow> Stmt option \<Rightarrow> bool \<Rightarrow> SourcePos \<Rightarrow> World \<Rightarrow> abort + World" where
  "DoStmt_EmitCode g emitBody testExpr bodyStmts doCoherentCheck p w =
     (if bblock w = None then Inr w
      else
        (case testExpr of
           None \<Rightarrow> Inr w
         | Some t \<Rightarrow>
             (case GetType t of
                None \<Rightarrow> Inr w
              | Some testType \<Rightarrow>
                  (let uniformTest = IsUniformType testType;
                       w1 = (if uniformTest \<and> doCoherentCheck
                             then reportDiag (WarnUniformCondition ''cdo'') w else w);
                       (bloop, w2) = CreateBasicBlock ''do_loop'' w1;
                       (bexit, w3) = CreateBasicBlock ''do_exit'' w2;
                       (btest, w4) = CreateBasicBlock ''do_test'' w3;
                       w5 = SetCurrentBasicBlock bloop (BranchInst bloop (StartLoop bexit btest uniformTest w4));
                       w6 = SetDebugPos p (SetLoopMask (GetInternalMask w5) w5);
                       w7 = AddInstrumentationPoint ''do loop body''
                              (if \<not> isStmtList bodyStmts then StartScope w6 else w6)
                   in case (if doCoherentCheck \<and> \<not> uniformTest
                            then emitCoherentBody emitBody ''do_all_on'' ''do_mixed'' btest True w7
                            else emitPlainBody emitBody btest w7) of
                        Inl x \<Rightarrow> Inl x
                      | Inr w8 \<Rightarrow>
                          (let w9 = SetCurrentBasicBlock btest
                                      (if \<not> isStmtList bodyStmts then EndScope w8 else w8);
                               w10 = (if \<not> uniformTest then RestoreContinuedLanes w9 else w9)
                           in case GetValue g t w10 of
                                (None, w11) \<Rightarrow> Inr w11
                              | (Some testValue, w11) \<Rightarrow>
                                  (let w12 = (if uniformTest then CondBranchInst bloop bexit testValue w11
                                              else BranchIfMaskAny bloop bexit
                                                     (SetInternalMaskAnd (GetInternalMask w11) testValue w11))
                                   in Inr (EndLoop (SetCurrentBasicBlock bexit w12))))))))"

definition ForStmt_EmitCode ::
  "Globals \<Rightarrow> emitter \<Rightarrow> emitter \<Rightarrow> emitter \<Rightarrow> Stmt option \<Rightarrow> Expr option \<Rightarrow> Stmt option \<Rightarrow>
     Stmt option \<Rightarrow> bool \<Rightarrow> SourcePos \<Rightarrow> World \<Rightarrow> abort + World" where
  "ForStmt_EmitCode g emitInit emitStep emitBody ini test step stmts doCoherentCheck p w =
     (if bblock w = None then Inr w
      else
        (let (btest, w1) = CreateBasicBlock ''for_test'' w;
             (bstep, w2) = CreateBasicBlock ''for_step'' w1;
             (bloop, w3) = CreateBasicBlock ''for_loop'' w2;
             (bexit, w4) = CreateBasicBlock ''for_exit'' w3
         in case (case test of
                    None \<Rightarrow> Inr (\<not> disableUniformControlFlow g \<and> \<not> lHasVaryingBreakOrContinue stmts False)
                  | Some t \<Rightarrow> (case GetType t of None \<Rightarrow> Inl NullDeref | Some ty \<Rightarrow> Inr (IsUniformType ty))) of
              Inl x \<Rightarrow> Inl x
            | Inr uniformTest \<Rightarrow>
                (let w5 = SetDebugPos p (StartLoop bexit bstep uniformTest w4)
                 in case (if ini \<noteq> None then
                            (if isStmtList ini then Inl AssertFailed else emitInit (StartScope w5))
                          else Inr w5) of
                      Inl x \<Rightarrow> Inl x
                    | Inr w6 \<Rightarrow>
                        (let w7 = SetCurrentBasicBlock btest (BranchInst btest w6)
                         in case (case test of
                                    None \<Rightarrow> (Some (if uniformTest then LLVMTrue else LLVMBoolVector True), w7)
                                  | Some t \<Rightarrow> GetValue g t w7) of
                              (None, w8) \<Rightarrow> Inr (EndLoop (EndScope w8))
                            | (Some ltest, w8) \<Rightarrow>
                                (case (if uniformTest then
                                         (let w9 = (if doCoherentCheck
                                                    then reportDiag (WarnUniformCondition ''cfor/cwhile'') w8
                                                    else w8)
                                          in if (case test of
                                                   None \<Rightarrow> True
                                                 | Some t \<Rightarrow> (case GetType t of
                                                               None \<Rightarrow> False
                                                             | Some ty \<Rightarrow> GetAsNonConstType ty = UniformBool))
                                             then Inr (CondBranchInst bloop bexit ltest w9)
                                             else Inl AssertFailed)
                                       else Inr (BranchIfMaskAny bloop bexit
                                                   (SetInternalMaskAnd (GetInternalMask w8) ltest w8))) of
                                   Inl x \<Rightarrow> Inl x
                                 | Inr w10 \<Rightarrow>
                                     (let w11 = SetCurrentBasicBlock bloop w10;
                                          w12 = AddInstrumentationPoint ''for loop body''
                                                  (SetLoopMask (GetInternalMask w11) w11);
                                          w13 = (if \<not> isStmtList stmts then StartScope w12 else w12)
                                      in case (if doCoherentCheck \<and> \<not> uniformTest
                                               then emitCoherentBody emitBody ''for_all_on'' ''for_mixed''
                                                      bstep False w13
                                               else emitPlainBody emitBody bstep w13) of
                                           Inl x \<Rightarrow> Inl x
                                         | Inr w14 \<Rightarrow>
                                             (let w15 = RestoreContinuedLanes
                                                          (SetCurrentBasicBlock bstep
                                                            (if \<not> isStmtList stmts then EndScope w14 else w14))
                                              in case emitStep w15 of
                                                   Inl x \<Rightarrow> Inl x
                                                 | Inr w16 \<Rightarrow>
                                                     (let w17 = SetCurrentBasicBlock bexit (BranchInst btest w16);
                                                          w18 = (if ini \<noteq> None then EndScope w17 else w17)
                                                      in Inr (EndLoop w18)))))))))"

definition BreakStmt_EmitCode :: "Globals \<Rightarrow> bool \<Rightarrow> SourcePos \<Rightarrow> World \<Rightarrow> abort + World" where
  "BreakStmt_EmitCode g doCoherenceCheck p w =
     (if bblock w = None then Inr w else Inr (ctxBreak g doCoherenceCheck (SetDebugPos p w)))"

definition ContinueStmt_EmitCode :: "Globals \<Rightarrow> bool \<Rightarrow> SourcePos \<Rightarrow> World \<Rightarrow> abort + World" where
  "ContinueStmt_EmitCode g doCoherenceCheck p w =
     (if bblock w = None then Inr w else Inr (ctxContinue g doCoherenceCheck (SetDebugPos p w)))"

definition ReturnStmt_EmitCode :: "Globals \<Rightarrow> Expr option \<Rightarrow> bool \<Rightarrow> SourcePos \<Rightarrow> World \<Rightarrow> abort + World" where
  "ReturnStmt_EmitCode g val doCoherenceCheck p w =
     (if bblock w = None then Inr w
      else Inr (CurrentLanesReturned g val doCoherenceCheck (SetDebugPos p w)))"

definition StmtList_EmitCode :: "emitter \<Rightarrow> SourcePos \<Rightarrow> World \<Rightarrow> abort + World" where
  "StmtList_EmitCode emitStmts p w =
     (if bblock w = None then Inr w
      else (case emitStmts (SetDebugPos p (StartScope w)) of
              Inl x \<Rightarrow> Inl x
            | Inr w1 \<Rightarrow> Inr (EndScope w1)))"

section \<open>Print and assert\<close>

definition lEncodeType :: "Type \<Rightarrow> char" where
  "lEncodeType t =
     (if t = UniformBool then CHR ''b''
      else if t = VaryingBool then CHR ''B''
      else if t = UniformInt32 then CHR ''i''
      else if t = VaryingInt32 then CHR ''I''
      else if t = UniformUInt32 then CHR ''u''
      else if t = VaryingUInt32 then CHR ''U''
      else if t = UniformFloat then CHR ''f''
      else if t = VaryingFloat then CHR ''F''
      else if t = UniformInt64 then CHR ''l''
      else if t = VaryingInt64 then CHR ''L''
      else if t = UniformUInt64 then CHR ''v''
      else if t = VaryingUInt64 then CHR ''V''
      else if t = UniformDouble then CHR ''d''
      else if t = VaryingDouble then CHR ''D''
      else CHR 0x00)"

definition lProcessPrintArg :: "Globals \<Rightarrow> Expr \<Rightarrow> World \<Rightarrow> string \<Rightarrow> Value option \<times> World \<times> string" where
  "lProcessPrintArg g expr w argTypes =
     (case GetType expr of
        None \<Rightarrow> (None, w, argTypes)
      | Some ty0 \<Rightarrow>
          (case (if isReferenceType ty0
                 then (case GetType (DereferenceExpr (Some expr)) of
                         None \<Rightarrow> None
                       | Some ty \<Rightarrow> Some (DereferenceExpr (Some expr), ty))
                 else Some (expr, ty0)) of
             None \<Rightarrow> (None, w, argTypes)
           | Some (expr1, ty1) \<Rightarrow>
               (let baseType = GetAsUniformType (GetAsNonConstType ty1);
                    castType = (if IsUniformType ty1 then UniformInt32 else VaryingInt32);
                    (expr2, ty2) =
                      (if baseType = UniformInt8 \<or> baseType = UniformUInt8 \<or>
                          baseType = UniformInt16 \<or> baseType = UniformUInt16
                       then (TypeCastExpr castType (Some expr1), castType)
                       else (expr1, ty1));
                    t = lEncodeType (GetAsNonConstType ty2)
                in if t = CHR 0x00 then (None, reportDiag (ErrPrintType ty2) w, argTypes)
                   else
                     (let (ptr, w1) = AllocaInst (LLVMType ty2) ''print_arg'' w
                      in case GetValue g expr2 w1 of
                           (None, w2) \<Rightarrow> (None, w2, argTypes @ [t])
                         | (Some val, w2) \<Rightarrow>
                             (Some (BitCastInst ptr VoidPointerType), StoreInst val ptr w2, argTypes @ [t])))))"

text \<open>
  The loop of \<^verbatim>\<open>PrintStmt::EmitCode\<close> over the values of an expression list; the flag
  is false when the loop left the function.
\<close>

fun PrintStmt_args ::
  "Globals \<Rightarrow> Expr option list \<Rightarrow> nat \<Rightarrow> Value \<Rightarrow> World \<Rightarrow> string \<Rightarrow> bool \<times> World \<times> string" where
  "PrintStmt_args g [] i argPtrArray w argTypes = (True, w, argTypes)"
| "PrintStmt_args g (None # es) i argPtrArray w argTypes = (False, w, argTypes)"
| "PrintStmt_args g (Some expr # es) i argPtrArray w argTypes =
     (case lProcessPrintArg g expr w argTypes of
        (None, w1, argTypes1) \<Rightarrow> (False, w1, argTypes1)
      | (Some ptr, w1, argTypes1) \<Rightarrow>
          PrintStmt_args g es (Suc i) argPtrArray
            (StoreInst ptr (GetElementPtrInst argPtrArray 0 i) w1) argTypes1)"

definition callDoPrint :: "Globals \<Rightarrow> string \<Rightarrow> string \<Rightarrow> Value \<Rightarrow> World \<Rightarrow> abort + World" where
  "callDoPrint g format argTypes args4 w =
     (if \<not> moduleHasFunction g ''__do_print'' then Inl AssertFailed
      else Inr (CallInst ''__do_print''
                  [GetStringPtr (Literal format), GetStringPtr (Literal argTypes),
                   LLVMInt32 (vectorWidth g), LaneMaskOf (GetFullMask w), args4] w))"

definition PrintStmt_EmitCode :: "Globals \<Rightarrow> string \<Rightarrow> Expr option \<Rightarrow> SourcePos \<Rightarrow> World \<Rightarrow> abort + World" where
  "PrintStmt_EmitCode g format values p w =
     (let w0 = SetDebugPos p w in
      case values of
        None \<Rightarrow> callDoPrint g format [] (NullValue VoidPointerPointerType) w0
      | Some vals \<Rightarrow>
          (let nArgs = (case vals of ExprList exprs \<Rightarrow> length exprs | _ \<Rightarrow> 1);
               (argPtrArray, w1) = AllocaInst (VoidPointerArrayType nArgs) ''print_arg_ptrs'' w0;
               args4 = BitCastInst argPtrArray VoidPointerPointerType
           in case vals of
                ExprList exprs \<Rightarrow>
                  (case PrintStmt_args g exprs 0 argPtrArray w1 [] of
                     (False, w2, argTypes) \<Rightarrow> Inr w2
                   | (True, w2, argTypes) \<Rightarrow> callDoPrint g format argTypes args4 w2)
              | _ \<Rightarrow>
                  (case lProcessPrintArg g vals w1 [] of
                     (None, w2, argTypes) \<Rightarrow> Inr w2
                   | (Some ptr, w2, argTypes) \<Rightarrow>
                       callDoPrint g format argTypes args4
                         (StoreInst ptr (GetElementPtrInst argPtrArray 0 0) w2))))"

definition AssertStmt_EmitCode :: "Globals \<Rightarrow> string \<Rightarrow> Expr option \<Rightarrow> SourcePos \<Rightarrow> World \<Rightarrow> abort + World" where
  "AssertStmt_EmitCode g message expr p w =
     (case expr of
        None \<Rightarrow> Inr w
      | Some e \<Rightarrow>
          (case GetType e of
             None \<Rightarrow> Inr w
           | Some ty \<Rightarrow>
               (let assertFunc = (if IsUniformType ty then ''__do_assert_uniform''
                                  else ''__do_assert_varying'')
                in if \<not> moduleHasFunction g assertFunc then Inl AssertFailed
                   else (case GetValue g e w of
                           (val, w1) \<Rightarrow>
                             Inr (CallInst assertFunc
                                    [GetStringPtr (AssertMessage p message),
                                     (case val of None \<Rightarrow> NoValue | Some v \<Rightarrow> v),
                                     GetFullMask w1] w1)))))"

section \<open>The dispatch of \<^verbatim>\<open>EmitCode\<close>\<close>

fun EmitCode :: "Globals \<Rightarrow> Stmt \<Rightarrow> World \<Rightarrow> abort + World"
  and EmitCode_opt :: "Globals \<Rightarrow> Stmt option \<Rightarrow> World \<Rightarrow> abort + World"
  and EmitCode_stmts :: "Globals \<Rightarrow> Stmt option list \<Rightarrow> World \<Rightarrow> abort + World" where
  "EmitCode g (ExprStmt expr p) w = ExprStmt_EmitCode g expr p w"
| "EmitCode g (DeclStmt vars p) w = DeclStmt_EmitCode g vars w"
| "EmitCode g (IfStmt test trueStmts falseStmts doAllCheck doAnyCheck p) w =
     IfStmt_EmitCode g (\<lambda>w'. EmitCode_opt g trueStmts w') (\<lambda>w'. EmitCode_opt g falseStmts w')
       test trueStmts falseStmts doAllCheck doAnyCheck p w"
| "EmitCode g (DoStmt testExpr bodyStmts cc p) w =
     DoStmt_EmitCode g (\<lambda>w'. EmitCode_opt g bodyStmts w') testExpr bodyStmts cc p w"
| "EmitCode g (ForStmt ini test step stmts cc p) w =
     ForStmt_EmitCode g (\<lambda>w'. EmitCode_opt g ini w') (\<lambda>w'. EmitCode_opt g step w')
       (\<lambda>w'. EmitCode_opt g stmts w') ini test step stmts cc p w"
| "EmitCode g (BreakStmt cc p) w = BreakStmt_EmitCode g cc p w"
| "EmitCode g (ContinueStmt cc p) w = ContinueStmt_EmitCode g cc p w"
| "EmitCode g (ReturnStmt val cc p) w = ReturnStmt_EmitCode g val cc p w"
| "EmitCode g (StmtList stmts p) w = StmtList_EmitCode (\<lambda>w'. EmitCode_stmts g stmts w') p w"
| "EmitCode g (PrintStmt format values p) w = PrintStmt_EmitCode g format values p w"
| "EmitCode g (AssertStmt message expr p) w = AssertStmt_EmitCode g message expr p w"
| "EmitCode_opt g None w = Inr w"
| "EmitCode_opt g (Some s) w = EmitCode g s w"
| "EmitCode_stmts g [] w = Inr w"
| "EmitCode_stmts g (s # ss) w =
     (case EmitCode_opt g s w of
        Inl x \<Rightarrow> Inl x
      | Inr w1 \<Rightarrow> EmitCode_stmts g ss w1)"

section \<open>Example inputs\<close>

text \<open>
  A compilation whose expression methods change nothing and always succeed, with small
  costs (the constants are in ispc.h, not in stmt.cpp); a symbol; an emit context at the
  start of a function, whose mask is an argument of the function.
\<close>

definition exampleGlobals :: Globals where
  "exampleGlobals =
     \<lparr>disableUniformControlFlow = False, disableCoherentControlFlow = False, vectorWidth = 4,
      COST_ASSERT = 8, COST_COHERENT_BREAK_CONTINE = 4, COST_FUNCALL = 4,
      COST_REGULAR_BREAK_CONTINUE = 2, COST_RETURN = 4, COST_UNIFORM_IF = 2,
      COST_UNIFORM_LOOP = 4, COST_VARYING_IF = 3, COST_VARYING_LOOP = 6,
      PREDICATE_SAFE_IF_STATEMENT_COST = 6,
      exprTypeCheck = (\<lambda>e. Some e),
      exprOptimize = (\<lambda>\<sigma> e. Some e),
      exprEstimateCost = (\<lambda>e. 1),
      exprGetValueOK = (\<lambda>e. True),
      exprGetConstantOK = (\<lambda>e t. isConstExpr e),
      TypeConvertExpr = (\<lambda>e t. Some e),
      jumpEndsBlock = (\<lambda>w. False),
      moduleHasFunction = (\<lambda>f. True)\<rparr>"

definition exampleSymbol :: "Type option \<Rightarrow> StorageClass \<Rightarrow> Symbol" where
  "exampleSymbol ty sc =
     \<lparr>name = ''a'', type = ty, storageClass = sc, pos = (''t.ispc'', 1, 1), storagePtr = None,
      parentFunction = None, varyingCFDepth = 0, constValue = None\<rparr>"

definition exampleWorld :: "nat option \<Rightarrow> (nat \<Rightarrow> Symbol) \<Rightarrow> World" where
  "exampleWorld b \<sigma> =
     \<lparr>bblock = b, nblocks = 1, nvalues = 0, internalMask = LLVMMaskAllOn,
      functionMask = Argument 0, maskStack = [], llvmFunction = 0, code = [], diags = [],
      syms = \<sigma>, globalVars = []\<rparr>"



text \<open>The loop \<^verbatim>\<open>for (const uniform int n = 10; n; ) ;\<close>, and the same with its test folded.\<close>

abbreviation ConstUniformInt32 :: Type where
  "ConstUniformInt32 \<equiv> AtomicType TYPE_INT32 True True"

definition countedLoop :: "Expr \<Rightarrow> Stmt" where
  "countedLoop test =
     ForStmt (Some (DeclStmt [\<lparr>sym = Some 0, init = Some (ConstExpr ConstUniformInt32 [10])\<rparr>]
                      (''t.ispc'', 1, 6)))
       (Some test) None None False (''t.ispc'', 1, 1)"

text \<open>Symbols of type const uniform int, of which symbol 0 has captured \<open>c\<close>.\<close>

definition constIntSymbols :: "Expr option \<Rightarrow> nat \<Rightarrow> Symbol" where
  "constIntSymbols c =
     (\<lambda>k. if k = 0 then (exampleSymbol (Some ConstUniformInt32) SC_NONE)\<lparr>constValue := c\<rparr>
          else exampleSymbol (Some ConstUniformInt32) SC_NONE)"


text \<open>The declarations \<^verbatim>\<open>int a[] = {10, 20, 30};\<close> and \<^verbatim>\<open>int a[];\<close> of symbol 0.\<close>

definition unsizedDecl :: "Expr option \<Rightarrow> VariableDeclaration" where
  "unsizedDecl ini = \<lparr>sym = Some 0, init = ini\<rparr>"

definition threeInts :: Expr where
  "threeInts = ExprList [Some (ConstExpr UniformInt32 [10]), Some (ConstExpr UniformInt32 [20]),
                         Some (ConstExpr UniformInt32 [30])]"

text \<open>
  The statement \<^verbatim>\<open>if (c) a = 0; else ++a;\<close> with a varying \<open>c\<close>, and the same with a
  call in its second branch.
\<close>

definition exampleTest :: Expr where
  "exampleTest = SymbolExpr (Some 1) (Some VaryingBool)"

definition exampleThen :: "Stmt option" where
  "exampleThen =
     Some (ExprStmt (Some (AssignExpr (Some (SymbolExpr (Some 2) (Some VaryingInt32)))
                             (Some (ConstExpr VaryingInt32 [0])) (Some VaryingInt32)))
             (''t.ispc'', 2, 11))"

definition exampleElse :: "Stmt option" where
  "exampleElse =
     Some (ExprStmt (Some (UnaryExpr (Some (SymbolExpr (Some 2) (Some VaryingInt32))) (Some VaryingInt32)))
             (''t.ispc'', 3, 11))"

definition exampleCall :: "Stmt option" where
  "exampleCall =
     Some (ExprStmt (Some (FunctionCallExpr (Some (FunctionSymbolExpr ''f'' None)) (Some (ExprList []))
                             (Some VaryingInt32)))
             (''t.ispc'', 3, 11))"

text \<open>
  The statement \<^verbatim>\<open>if (u) f();\<close> with a uniform \<open>u\<close>, compiled with
  \<^verbatim>\<open>disableUniformControlFlow\<close>.
\<close>

definition exampleUniformTest :: Expr where
  "exampleUniformTest = SymbolExpr (Some 1) (Some UniformBool)"

definition varyingOnlyGlobals :: Globals where
  "varyingOnlyGlobals = exampleGlobals\<lparr>disableUniformControlFlow := True\<rparr>"

section \<open>Notions of the proofs\<close>

text \<open>Sequencing of steps that may abort.\<close>

definition andThen :: "abort + 'a \<Rightarrow> ('a \<Rightarrow> abort + 'b) \<Rightarrow> abort + 'b" where
  "andThen r f = (case r of Inl x \<Rightarrow> Inl x | Inr v \<Rightarrow> f v)"

text \<open>
  The writes of \<^verbatim>\<open>constValue\<close> that one run of the optimizer makes, in order, and the
  write of one declaration; two symbol tables with the same types, and two that differ
  in captured constants only; the symbols that the expressions of a run name and the
  symbols that it may capture.
\<close>

definition constWrites :: "(nat \<times> Expr option) list \<Rightarrow> (nat \<Rightarrow> Symbol) \<Rightarrow> (nat \<Rightarrow> Symbol)" where
  "constWrites ws \<sigma> = fold (\<lambda>kv \<sigma>'. \<sigma>'(fst kv := (\<sigma>' (fst kv))\<lparr>constValue := snd kv\<rparr>)) ws \<sigma>"


definition sameTypes :: "(nat \<Rightarrow> Symbol) \<Rightarrow> (nat \<Rightarrow> Symbol) \<Rightarrow> bool" where
  "sameTypes \<tau> \<sigma> = (\<forall>k. type (\<tau> k) = type (\<sigma> k))"



definition capsOf :: "OptimizeStep list \<Rightarrow> nat set" where
  "capsOf steps = {k. Captures k \<in> set steps}"


text \<open>
  What \<^verbatim>\<open>lInitSymbol\<close> leaves alone: symbols, module variables, the allocation counter
  and the current block; diagnostics only grow.
\<close>

definition sameFrame :: "World \<Rightarrow> World \<Rightarrow> bool" where
  "sameFrame w' w = (syms w' = syms w \<and> globalVars w' = globalVars w \<and> nvalues w' = nvalues w \<and>
                     bblock w' = bblock w \<and> set (diags w) \<subseteq> set (diags w'))"

text \<open>
  The second half of the loop body of \<^verbatim>\<open>DeclStmt::EmitCode\<close>, from the reference check
  on, for the symbol \<open>k\<close> with its type \<open>ty\<close> settled; and the fields of a symbol that it
  keeps.
\<close>

definition declStorage :: "Globals \<Rightarrow> VariableDeclaration \<Rightarrow> nat \<Rightarrow> Type \<Rightarrow> World \<Rightarrow> abort + World" where
  "declStorage g v k ty w3 =
     (if isReferenceType ty \<and> init v = None then
        Inr (reportDiag (ErrReferenceNeedsInitializer (pos (syms w3 k)) (name (syms w3 k))) w3)
      else if storageClass (syms w3 k) = SC_STATIC then
        (let cinit = (case init v of None \<Rightarrow> None | Some e \<Rightarrow> GetConstant g e ty);
             w4 = (if init v \<noteq> None \<and> cinit = None
                   then reportDiag (ErrStaticInitializer (pos (syms w3 k)) (name (syms w3 k))) w3
                   else w3);
             cinit' = (case cinit of None \<Rightarrow> NullValue (LLVMType ty) | Some c \<Rightarrow> c);
             (gv, w5) = addGlobalVariable
                          \<lparr>gType = LLVMType ty, gIsConst = IsConstType ty,
                           gInitializer = cinit', gLine = fst (snd (pos (syms w4 k))),
                           gName = name (syms w4 k)\<rparr> w4;
             w6 = updSym k (\<lambda>s. s\<lparr>storagePtr := Some gv\<rparr>) w5
         in Inr (EmitVariableDebugInfo k w6))
      else
        (let (ptr, w4) = AllocaInst (LLVMType ty) (name (syms w3 k)) w3;
             w5 = updSym k (\<lambda>s. s\<lparr>storagePtr := Some ptr\<rparr>) w4;
             w6 = EmitVariableDebugInfo k w5;
             w7 = updSym k (\<lambda>s. s\<lparr>parentFunction := Some (GetFunction w6)\<rparr>) w6
         in lInitSymbol g ptr (name (syms w7 k)) ty (init v) w7))"

definition sameSymbol :: "Symbol \<Rightarrow> Symbol \<Rightarrow> bool" where
  "sameSymbol a b = (type a = type b \<and> pos a = pos b \<and> name a = name b \<and> storageClass a = storageClass b)"

section \<open>Unfolding the emit context\<close>

lemmas ctx_defs = SetDebugPos_def StartScope_def EndScope_def AddInstrumentationPoint_def
  CreateBasicBlock_def SetCurrentBasicBlock_def BranchInst_def CondBranchInst_def
  GetInternalMask_def GetFunctionMask_def GetFullMask_def SetInternalMask_def SetInternalMaskAnd_def
  SetInternalMaskAndNot_def SetFunctionMask_def popMask_def StartVaryingIf_def EndIf_def
  GetValue_def StoreInst_def AllocaInst_def EmitVariableDebugInfo_def emitEvent_def reportDiag_def
  updSym_def addGlobalVariable_def GetFunction_def VaryingCFDepth_def GetElementPtrInst_def
  assertBlock_def

section \<open>Sequencing\<close>

lemma andThen_Inr [simp]: "andThen (Inr v) f = f v"
  by (simp add: andThen_def)

lemma andThen_Inl [simp]: "andThen (Inl x) f = Inl x"
  by (simp add: andThen_def)

lemma andThen_assoc: "andThen (andThen r f) h = andThen r (\<lambda>v. andThen (f v) h)"
  by (cases r) simp_all

lemma andThen_fold: "(case r of Inl x \<Rightarrow> Inl x | Inr v \<Rightarrow> f v) = andThen r f"
  by (simp add: andThen_def)

lemma andThen_assertBlock:
  "andThen (assertBlock w) f = (if bblock w = None then Inl AssertFailed else f w)"
  by (simp add: assertBlock_def)

section \<open>The safety of a return statement\<close>

text \<open>
  C2, as the code has it: a \<^verbatim>\<open>return\<close> statement is judged safe to run with all lanes
  off exactly when its value expression is present and safe.  The statement predicate hands
  the value to the expression predicate, whose first test answers false for a null
  expression, so a value-less \<^verbatim>\<open>return;\<close> is judged unsafe.
\<close>

theorem return_safe_iff_value_present_and_safe:
  "(lSafeToRunWithAllLanesOff_Stmt (Some (ReturnStmt val cc p)) = Inr True) =
   (\<exists>e. val = Some e \<and> lSafeToRunWithAllLanesOff_Expr (Some e) = Inr True)"
  by (cases val) simp_all

text \<open>The claim as written fails at \<^verbatim>\<open>return;\<close>: the predicate answers false.\<close>

theorem valueless_return_judged_unsafe:
  "lSafeToRunWithAllLanesOff_Stmt (Some (ReturnStmt None False (''t.ispc'', 1, 1))) = Inr False"
  by simp

section \<open>Type checking of tests\<close>

lemma lHasVaryingBreakOrContinue_True:
  "lHasVaryingBreakOrContinue so True = (case so of None \<Rightarrow> False | Some s \<Rightarrow> freeJump s)"
  "lHasVaryingBreakOrContinue_stmts ss True =
     list_ex (\<lambda>so. case so of None \<Rightarrow> False | Some s \<Rightarrow> freeJump s) ss"
  by (induction so "True" and ss "True"
        rule: lHasVaryingBreakOrContinue_lHasVaryingBreakOrContinue_stmts.induct)
     (auto split: option.splits)

lemma lHasVaryingBreakOrContinue_False:
  "lHasVaryingBreakOrContinue so False = (case so of None \<Rightarrow> False | Some s \<Rightarrow> varyingJump s)"
  "lHasVaryingBreakOrContinue_stmts ss False =
     list_ex (\<lambda>so. case so of None \<Rightarrow> False | Some s \<Rightarrow> varyingJump s) ss"
  by (induction so "False" and ss "False"
        rule: lHasVaryingBreakOrContinue_lHasVaryingBreakOrContinue_stmts.induct)
     (auto simp: lHasVaryingBreakOrContinue_True varyingTest_def split: option.splits)

lemma lHasVaryingBreakOrContinue_body:
  "lHasVaryingBreakOrContinue body False = bodyHasVaryingJump body"
  by (simp add: lHasVaryingBreakOrContinue_False bodyHasVaryingJump_def)

lemma DoStmt_lowering:
  "EmitCode g (DoStmt (Some (TypeCastExpr (if u then UniformBool else VaryingBool) t1)) body cc p) w =
     (let test = TypeCastExpr (if u then UniformBool else VaryingBool) t1 in
      if bblock w = None then Inr w
      else if u then
        (let w1 = (if cc then reportDiag (WarnUniformCondition ''cdo'') w else w);
             (bloop, w2) = CreateBasicBlock ''do_loop'' w1;
             (bexit, w3) = CreateBasicBlock ''do_exit'' w2;
             (btest, w4) = CreateBasicBlock ''do_test'' w3;
             w5 = SetCurrentBasicBlock bloop (BranchInst bloop (StartLoop bexit btest True w4));
             w6 = SetDebugPos p (SetLoopMask (GetInternalMask w5) w5);
             w7 = AddInstrumentationPoint ''do loop body''
                    (if \<not> isStmtList body then StartScope w6 else w6)
         in andThen (EmitCode_opt g body w7)
              (\<lambda>w8. let w9 = (if bblock w8 \<noteq> None then BranchInst btest w8 else w8);
                        w10 = SetCurrentBasicBlock btest
                                (if \<not> isStmtList body then EndScope w9 else w9)
                    in case GetValue g test w10 of
                         (None, w11) \<Rightarrow> Inr w11
                       | (Some testValue, w11) \<Rightarrow>
                           Inr (EndLoop (SetCurrentBasicBlock bexit
                                           (CondBranchInst bloop bexit testValue w11)))))
      else
        (let (bloop, w2) = CreateBasicBlock ''do_loop'' w;
             (bexit, w3) = CreateBasicBlock ''do_exit'' w2;
             (btest, w4) = CreateBasicBlock ''do_test'' w3;
             w5 = SetCurrentBasicBlock bloop (BranchInst bloop (StartLoop bexit btest False w4));
             w6 = SetDebugPos p (SetLoopMask (GetInternalMask w5) w5);
             w7 = AddInstrumentationPoint ''do loop body''
                    (if \<not> isStmtList body then StartScope w6 else w6)
         in andThen
              (if cc then
                 (let (bAllOn, a1) = CreateBasicBlock ''do_all_on'' w7;
                      (bMixed, a2) = CreateBasicBlock ''do_mixed'' a1;
                      a3 = SetCurrentBasicBlock bAllOn (BranchIfMaskAll bAllOn bMixed a2);
                      a4 = SetInternalMask LLVMMaskAllOn a3;
                      oldFunctionMask = GetFunctionMask a4;
                      a5 = SetFunctionMask LLVMMaskAllOn a4
                  in andThen (EmitCode_opt g body a5)
                    (\<lambda>a6. andThen (assertBlock a6)
                    (\<lambda>a7. andThen (EmitCode_opt g body
                                      (SetCurrentBasicBlock bMixed
                                         (BranchInst btest (SetFunctionMask oldFunctionMask a7))))
                    (\<lambda>a8. andThen (assertBlock a8)
                    (\<lambda>a9. Inr (BranchInst btest a9))))))
               else andThen (EmitCode_opt g body w7)
                      (\<lambda>w8. Inr (if bblock w8 \<noteq> None then BranchInst btest w8 else w8)))
              (\<lambda>w9. let w10 = RestoreContinuedLanes
                                (SetCurrentBasicBlock btest
                                   (if \<not> isStmtList body then EndScope w9 else w9))
                    in case GetValue g test w10 of
                         (None, w11) \<Rightarrow> Inr w11
                       | (Some testValue, w11) \<Rightarrow>
                           Inr (EndLoop (SetCurrentBasicBlock bexit
                                  (BranchIfMaskAny bloop bexit
                                     (SetInternalMaskAnd (GetInternalMask w11) testValue w11)))))))"
proof -
  obtain bloop w2 where c1: "CreateBasicBlock ''do_loop'' w = (bloop, w2)"
    by (cases "CreateBasicBlock ''do_loop'' w")
  obtain bloopU w2U where c1U:
    "CreateBasicBlock ''do_loop'' (reportDiag (WarnUniformCondition ''cdo'') w) = (bloopU, w2U)"
    by (cases "CreateBasicBlock ''do_loop'' (reportDiag (WarnUniformCondition ''cdo'') w)")
  obtain bexit w3 where c2: "CreateBasicBlock ''do_exit'' w2 = (bexit, w3)"
    by (cases "CreateBasicBlock ''do_exit'' w2")
  obtain btest w4 where c3: "CreateBasicBlock ''do_test'' w3 = (btest, w4)"
    by (cases "CreateBasicBlock ''do_test'' w3")
  obtain bexitU w3U where c2U: "CreateBasicBlock ''do_exit'' w2U = (bexitU, w3U)"
    by (cases "CreateBasicBlock ''do_exit'' w2U")
  obtain btestU w4U where c3U: "CreateBasicBlock ''do_test'' w3U = (btestU, w4U)"
    by (cases "CreateBasicBlock ''do_test'' w3U")
  show ?thesis
    unfolding EmitCode.simps DoStmt_EmitCode_def emitPlainBody_def emitCoherentBody_def andThen_fold
    by (cases u; cases cc)
       (simp_all add: c1 c2 c3 c1U c2U c3U Let_def split_beta andThen_assoc andThen_assertBlock
          cong: if_cong option.case_cong)
qed

lemma ForStmt_lowering:
  "EmitCode g (ForStmt ini (Some (TypeCastExpr (if u then UniformBool else VaryingBool) t1)) step body cc p) w =
     (let test = TypeCastExpr (if u then UniformBool else VaryingBool) t1 in
      if bblock w = None then Inr w
      else
        (let (btest, w1) = CreateBasicBlock ''for_test'' w;
             (bstep, w2) = CreateBasicBlock ''for_step'' w1;
             (bloop, w3) = CreateBasicBlock ''for_loop'' w2;
             (bexit, w4) = CreateBasicBlock ''for_exit'' w3;
             w5 = SetDebugPos p (StartLoop bexit bstep u w4)
         in andThen
              (if ini \<noteq> None
               then (if isStmtList ini then Inl AssertFailed else EmitCode_opt g ini (StartScope w5))
               else Inr w5)
              (\<lambda>w6. case GetValue g test (SetCurrentBasicBlock btest (BranchInst btest w6)) of
                      (None, w8) \<Rightarrow> Inr (EndLoop (EndScope w8))
                    | (Some ltest, w8) \<Rightarrow>
                        andThen
                          (if u then
                             (let w9 = (if cc then reportDiag (WarnUniformCondition ''cfor/cwhile'') w8
                                        else w8);
                                  w10 = SetCurrentBasicBlock bloop (CondBranchInst bloop bexit ltest w9);
                                  w11 = AddInstrumentationPoint ''for loop body''
                                          (SetLoopMask (GetInternalMask w10) w10);
                                  w12 = (if \<not> isStmtList body then StartScope w11 else w11)
                              in andThen (EmitCode_opt g body w12)
                                   (\<lambda>w13. Inr (if bblock w13 \<noteq> None then BranchInst bstep w13 else w13)))
                           else
                             (let w10 = SetCurrentBasicBlock bloop
                                          (BranchIfMaskAny bloop bexit
                                             (SetInternalMaskAnd (GetInternalMask w8) ltest w8));
                                  w11 = AddInstrumentationPoint ''for loop body''
                                          (SetLoopMask (GetInternalMask w10) w10);
                                  w12 = (if \<not> isStmtList body then StartScope w11 else w11)
                              in if cc then
                                   (let (bAllOn, a1) = CreateBasicBlock ''for_all_on'' w12;
                                        (bMixed, a2) = CreateBasicBlock ''for_mixed'' a1;
                                        a3 = SetCurrentBasicBlock bAllOn (BranchIfMaskAll bAllOn bMixed a2);
                                        a4 = SetInternalMask LLVMMaskAllOn a3;
                                        oldFunctionMask = GetFunctionMask a4;
                                        a5 = SetFunctionMask LLVMMaskAllOn a4
                                    in andThen (EmitCode_opt g body a5)
                                      (\<lambda>a6. andThen (assertBlock a6)
                                      (\<lambda>a7. andThen (EmitCode_opt g body
                                                        (SetCurrentBasicBlock bMixed
                                                           (BranchInst bstep
                                                              (SetFunctionMask oldFunctionMask a7))))
                                      (\<lambda>a8. Inr (BranchInst bstep a8)))))
                                 else andThen (EmitCode_opt g body w12)
                                        (\<lambda>w13. Inr (if bblock w13 \<noteq> None then BranchInst bstep w13
                                                     else w13))))
                          (\<lambda>w14. andThen
                                    (EmitCode_opt g step
                                       (RestoreContinuedLanes
                                          (SetCurrentBasicBlock bstep
                                             (if \<not> isStmtList body then EndScope w14 else w14))))
                                    (\<lambda>w16. let w17 = SetCurrentBasicBlock bexit (BranchInst btest w16)
                                           in Inr (EndLoop (if ini \<noteq> None then EndScope w17 else w17)))))))"
proof -
  obtain btest w1 where c1: "CreateBasicBlock ''for_test'' w = (btest, w1)"
    by (cases "CreateBasicBlock ''for_test'' w")
  obtain bstep w2 where c2: "CreateBasicBlock ''for_step'' w1 = (bstep, w2)"
    by (cases "CreateBasicBlock ''for_step'' w1")
  obtain bloop w3 where c3: "CreateBasicBlock ''for_loop'' w2 = (bloop, w3)"
    by (cases "CreateBasicBlock ''for_loop'' w2")
  obtain bexit w4 where c4: "CreateBasicBlock ''for_exit'' w3 = (bexit, w4)"
    by (cases "CreateBasicBlock ''for_exit'' w3")
  show ?thesis
    unfolding EmitCode.simps ForStmt_EmitCode_def emitPlainBody_def emitCoherentBody_def andThen_fold
    by (cases u; cases cc)
       (simp_all add: c1 c2 c3 c4 Let_def split_beta andThen_assoc andThen_assertBlock
          cong: if_cong option.case_cong)
qed

text \<open>
  C3: for a \<^verbatim>\<open>do\<close> or \<^verbatim>\<open>for\<close> loop whose test is present and has a type after its
  own type check, and whose type check succeeds, the test becomes a cast of that test to
  uniform bool when the test's type is uniform, \<^verbatim>\<open>disableUniformControlFlow\<close> is off and
  the body has no \<^verbatim>\<open>break\<close> or \<^verbatim>\<open>continue\<close> under a varying \<^verbatim>\<open>if\<close> outside nested
  loops; otherwise it becomes the cast to varying bool.  The type of the new test is
  uniform under exactly these three conditions, and \<^verbatim>\<open>EmitCode\<close> lowers the checked loop
  by it.  Under the three conditions the loop is a uniform loop: \<^verbatim>\<open>StartLoop\<close> is told
  so, the body is emitted once, and the value of the test is the condition of the branch
  to the loop or to the exit.  Otherwise it is a varying loop: the internal mask is
  and-ed with the value of the test and the branch is on any lane of the mask, the
  continued lanes are restored before the test (\<^verbatim>\<open>do\<close>), and under the coherent check
  the body is emitted twice, the first time with the mask all on.
\<close>

theorem loop_test_cast_uniform_iff:
  assumes "isLoop s" and "testOf s = Some t" and "exprTypeCheck g t = Some t1"
    and "GetType t1 = Some ty" and "TypeCheck g \<sigma> s ds = (Some s', ds')"
  shows "testOf s' =
           Some (TypeCastExpr
                   (if IsUniformType ty \<and> \<not> disableUniformControlFlow g \<and>
                       \<not> bodyHasVaryingJump (loopBody s)
                    then UniformBool else VaryingBool) (Some t1))
         \<and> map_option IsUniformType (case testOf s' of None \<Rightarrow> None | Some t' \<Rightarrow> GetType t') =
             Some (IsUniformType ty \<and> \<not> disableUniformControlFlow g \<and>
                   \<not> bodyHasVaryingJump (loopBody s))
         \<and> (let u = (IsUniformType ty \<and> \<not> disableUniformControlFlow g \<and>
                      \<not> bodyHasVaryingJump (loopBody s));
                 test = TypeCastExpr (if u then UniformBool else VaryingBool) (Some t1)
             in EmitCode g s' w =
                  (case s' of
                     DoStmt testExpr body cc p \<Rightarrow>
                       (if bblock w = None then Inr w
      else if u then
        (let w1 = (if cc then reportDiag (WarnUniformCondition ''cdo'') w else w);
             (bloop, w2) = CreateBasicBlock ''do_loop'' w1;
             (bexit, w3) = CreateBasicBlock ''do_exit'' w2;
             (btest, w4) = CreateBasicBlock ''do_test'' w3;
             w5 = SetCurrentBasicBlock bloop (BranchInst bloop (StartLoop bexit btest True w4));
             w6 = SetDebugPos p (SetLoopMask (GetInternalMask w5) w5);
             w7 = AddInstrumentationPoint ''do loop body''
                    (if \<not> isStmtList body then StartScope w6 else w6)
         in andThen (EmitCode_opt g body w7)
              (\<lambda>w8. let w9 = (if bblock w8 \<noteq> None then BranchInst btest w8 else w8);
                        w10 = SetCurrentBasicBlock btest
                                (if \<not> isStmtList body then EndScope w9 else w9)
                    in case GetValue g test w10 of
                         (None, w11) \<Rightarrow> Inr w11
                       | (Some testValue, w11) \<Rightarrow>
                           Inr (EndLoop (SetCurrentBasicBlock bexit
                                           (CondBranchInst bloop bexit testValue w11)))))
      else
        (let (bloop, w2) = CreateBasicBlock ''do_loop'' w;
             (bexit, w3) = CreateBasicBlock ''do_exit'' w2;
             (btest, w4) = CreateBasicBlock ''do_test'' w3;
             w5 = SetCurrentBasicBlock bloop (BranchInst bloop (StartLoop bexit btest False w4));
             w6 = SetDebugPos p (SetLoopMask (GetInternalMask w5) w5);
             w7 = AddInstrumentationPoint ''do loop body''
                    (if \<not> isStmtList body then StartScope w6 else w6)
         in andThen
              (if cc then
                 (let (bAllOn, a1) = CreateBasicBlock ''do_all_on'' w7;
                      (bMixed, a2) = CreateBasicBlock ''do_mixed'' a1;
                      a3 = SetCurrentBasicBlock bAllOn (BranchIfMaskAll bAllOn bMixed a2);
                      a4 = SetInternalMask LLVMMaskAllOn a3;
                      oldFunctionMask = GetFunctionMask a4;
                      a5 = SetFunctionMask LLVMMaskAllOn a4
                  in andThen (EmitCode_opt g body a5)
                    (\<lambda>a6. andThen (assertBlock a6)
                    (\<lambda>a7. andThen (EmitCode_opt g body
                                      (SetCurrentBasicBlock bMixed
                                         (BranchInst btest (SetFunctionMask oldFunctionMask a7))))
                    (\<lambda>a8. andThen (assertBlock a8)
                    (\<lambda>a9. Inr (BranchInst btest a9))))))
               else andThen (EmitCode_opt g body w7)
                      (\<lambda>w8. Inr (if bblock w8 \<noteq> None then BranchInst btest w8 else w8)))
              (\<lambda>w9. let w10 = RestoreContinuedLanes
                                (SetCurrentBasicBlock btest
                                   (if \<not> isStmtList body then EndScope w9 else w9))
                    in case GetValue g test w10 of
                         (None, w11) \<Rightarrow> Inr w11
                       | (Some testValue, w11) \<Rightarrow>
                           Inr (EndLoop (SetCurrentBasicBlock bexit
                                  (BranchIfMaskAny bloop bexit
                                     (SetInternalMaskAnd (GetInternalMask w11) testValue w11)))))))
                   | ForStmt ini test' step body cc p \<Rightarrow>
                       (if bblock w = None then Inr w
      else
        (let (btest, w1) = CreateBasicBlock ''for_test'' w;
             (bstep, w2) = CreateBasicBlock ''for_step'' w1;
             (bloop, w3) = CreateBasicBlock ''for_loop'' w2;
             (bexit, w4) = CreateBasicBlock ''for_exit'' w3;
             w5 = SetDebugPos p (StartLoop bexit bstep u w4)
         in andThen
              (if ini \<noteq> None
               then (if isStmtList ini then Inl AssertFailed else EmitCode_opt g ini (StartScope w5))
               else Inr w5)
              (\<lambda>w6. case GetValue g test (SetCurrentBasicBlock btest (BranchInst btest w6)) of
                      (None, w8) \<Rightarrow> Inr (EndLoop (EndScope w8))
                    | (Some ltest, w8) \<Rightarrow>
                        andThen
                          (if u then
                             (let w9 = (if cc then reportDiag (WarnUniformCondition ''cfor/cwhile'') w8
                                        else w8);
                                  w10 = SetCurrentBasicBlock bloop (CondBranchInst bloop bexit ltest w9);
                                  w11 = AddInstrumentationPoint ''for loop body''
                                          (SetLoopMask (GetInternalMask w10) w10);
                                  w12 = (if \<not> isStmtList body then StartScope w11 else w11)
                              in andThen (EmitCode_opt g body w12)
                                   (\<lambda>w13. Inr (if bblock w13 \<noteq> None then BranchInst bstep w13 else w13)))
                           else
                             (let w10 = SetCurrentBasicBlock bloop
                                          (BranchIfMaskAny bloop bexit
                                             (SetInternalMaskAnd (GetInternalMask w8) ltest w8));
                                  w11 = AddInstrumentationPoint ''for loop body''
                                          (SetLoopMask (GetInternalMask w10) w10);
                                  w12 = (if \<not> isStmtList body then StartScope w11 else w11)
                              in if cc then
                                   (let (bAllOn, a1) = CreateBasicBlock ''for_all_on'' w12;
                                        (bMixed, a2) = CreateBasicBlock ''for_mixed'' a1;
                                        a3 = SetCurrentBasicBlock bAllOn (BranchIfMaskAll bAllOn bMixed a2);
                                        a4 = SetInternalMask LLVMMaskAllOn a3;
                                        oldFunctionMask = GetFunctionMask a4;
                                        a5 = SetFunctionMask LLVMMaskAllOn a4
                                    in andThen (EmitCode_opt g body a5)
                                      (\<lambda>a6. andThen (assertBlock a6)
                                      (\<lambda>a7. andThen (EmitCode_opt g body
                                                        (SetCurrentBasicBlock bMixed
                                                           (BranchInst bstep
                                                              (SetFunctionMask oldFunctionMask a7))))
                                      (\<lambda>a8. Inr (BranchInst bstep a8)))))
                                 else andThen (EmitCode_opt g body w12)
                                        (\<lambda>w13. Inr (if bblock w13 \<noteq> None then BranchInst bstep w13
                                                     else w13))))
                          (\<lambda>w14. andThen
                                    (EmitCode_opt g step
                                       (RestoreContinuedLanes
                                          (SetCurrentBasicBlock bstep
                                             (if \<not> isStmtList body then EndScope w14 else w14))))
                                    (\<lambda>w16. let w17 = SetCurrentBasicBlock bexit (BranchInst btest w16)
                                           in Inr (EndLoop (if ini \<noteq> None then EndScope w17 else w17)))))))
                   | _ \<Rightarrow> Inr w))"
proof -
  define u where "u = (IsUniformType ty \<and> \<not> disableUniformControlFlow g \<and>
                      \<not> bodyHasVaryingJump (loopBody s))"
  define test where "test = TypeCastExpr (if u then UniformBool else VaryingBool) (Some t1)"
  from assms have first: "testOf s' = Some test"
    unfolding test_def u_def
    by (cases s)
       (auto simp: castTestToBool_def exprTypeCheck_opt_def lHasVaryingBreakOrContinue_body
             split: option.splits if_splits sum.splits prod.splits)
  from assms have loop: "isLoop s'"
    by (cases s) (auto split: option.splits if_splits sum.splits prod.splits)
  have second: "map_option IsUniformType (case testOf s' of None \<Rightarrow> None | Some t' \<Rightarrow> GetType t') = Some u"
    unfolding first test_def by simp
  have third: "EmitCode g s' w =
                  (case s' of
                     DoStmt testExpr body cc p \<Rightarrow>
                       (if bblock w = None then Inr w
      else if u then
        (let w1 = (if cc then reportDiag (WarnUniformCondition ''cdo'') w else w);
             (bloop, w2) = CreateBasicBlock ''do_loop'' w1;
             (bexit, w3) = CreateBasicBlock ''do_exit'' w2;
             (btest, w4) = CreateBasicBlock ''do_test'' w3;
             w5 = SetCurrentBasicBlock bloop (BranchInst bloop (StartLoop bexit btest True w4));
             w6 = SetDebugPos p (SetLoopMask (GetInternalMask w5) w5);
             w7 = AddInstrumentationPoint ''do loop body''
                    (if \<not> isStmtList body then StartScope w6 else w6)
         in andThen (EmitCode_opt g body w7)
              (\<lambda>w8. let w9 = (if bblock w8 \<noteq> None then BranchInst btest w8 else w8);
                        w10 = SetCurrentBasicBlock btest
                                (if \<not> isStmtList body then EndScope w9 else w9)
                    in case GetValue g test w10 of
                         (None, w11) \<Rightarrow> Inr w11
                       | (Some testValue, w11) \<Rightarrow>
                           Inr (EndLoop (SetCurrentBasicBlock bexit
                                           (CondBranchInst bloop bexit testValue w11)))))
      else
        (let (bloop, w2) = CreateBasicBlock ''do_loop'' w;
             (bexit, w3) = CreateBasicBlock ''do_exit'' w2;
             (btest, w4) = CreateBasicBlock ''do_test'' w3;
             w5 = SetCurrentBasicBlock bloop (BranchInst bloop (StartLoop bexit btest False w4));
             w6 = SetDebugPos p (SetLoopMask (GetInternalMask w5) w5);
             w7 = AddInstrumentationPoint ''do loop body''
                    (if \<not> isStmtList body then StartScope w6 else w6)
         in andThen
              (if cc then
                 (let (bAllOn, a1) = CreateBasicBlock ''do_all_on'' w7;
                      (bMixed, a2) = CreateBasicBlock ''do_mixed'' a1;
                      a3 = SetCurrentBasicBlock bAllOn (BranchIfMaskAll bAllOn bMixed a2);
                      a4 = SetInternalMask LLVMMaskAllOn a3;
                      oldFunctionMask = GetFunctionMask a4;
                      a5 = SetFunctionMask LLVMMaskAllOn a4
                  in andThen (EmitCode_opt g body a5)
                    (\<lambda>a6. andThen (assertBlock a6)
                    (\<lambda>a7. andThen (EmitCode_opt g body
                                      (SetCurrentBasicBlock bMixed
                                         (BranchInst btest (SetFunctionMask oldFunctionMask a7))))
                    (\<lambda>a8. andThen (assertBlock a8)
                    (\<lambda>a9. Inr (BranchInst btest a9))))))
               else andThen (EmitCode_opt g body w7)
                      (\<lambda>w8. Inr (if bblock w8 \<noteq> None then BranchInst btest w8 else w8)))
              (\<lambda>w9. let w10 = RestoreContinuedLanes
                                (SetCurrentBasicBlock btest
                                   (if \<not> isStmtList body then EndScope w9 else w9))
                    in case GetValue g test w10 of
                         (None, w11) \<Rightarrow> Inr w11
                       | (Some testValue, w11) \<Rightarrow>
                           Inr (EndLoop (SetCurrentBasicBlock bexit
                                  (BranchIfMaskAny bloop bexit
                                     (SetInternalMaskAnd (GetInternalMask w11) testValue w11)))))))
                   | ForStmt ini test' step body cc p \<Rightarrow>
                       (if bblock w = None then Inr w
      else
        (let (btest, w1) = CreateBasicBlock ''for_test'' w;
             (bstep, w2) = CreateBasicBlock ''for_step'' w1;
             (bloop, w3) = CreateBasicBlock ''for_loop'' w2;
             (bexit, w4) = CreateBasicBlock ''for_exit'' w3;
             w5 = SetDebugPos p (StartLoop bexit bstep u w4)
         in andThen
              (if ini \<noteq> None
               then (if isStmtList ini then Inl AssertFailed else EmitCode_opt g ini (StartScope w5))
               else Inr w5)
              (\<lambda>w6. case GetValue g test (SetCurrentBasicBlock btest (BranchInst btest w6)) of
                      (None, w8) \<Rightarrow> Inr (EndLoop (EndScope w8))
                    | (Some ltest, w8) \<Rightarrow>
                        andThen
                          (if u then
                             (let w9 = (if cc then reportDiag (WarnUniformCondition ''cfor/cwhile'') w8
                                        else w8);
                                  w10 = SetCurrentBasicBlock bloop (CondBranchInst bloop bexit ltest w9);
                                  w11 = AddInstrumentationPoint ''for loop body''
                                          (SetLoopMask (GetInternalMask w10) w10);
                                  w12 = (if \<not> isStmtList body then StartScope w11 else w11)
                              in andThen (EmitCode_opt g body w12)
                                   (\<lambda>w13. Inr (if bblock w13 \<noteq> None then BranchInst bstep w13 else w13)))
                           else
                             (let w10 = SetCurrentBasicBlock bloop
                                          (BranchIfMaskAny bloop bexit
                                             (SetInternalMaskAnd (GetInternalMask w8) ltest w8));
                                  w11 = AddInstrumentationPoint ''for loop body''
                                          (SetLoopMask (GetInternalMask w10) w10);
                                  w12 = (if \<not> isStmtList body then StartScope w11 else w11)
                              in if cc then
                                   (let (bAllOn, a1) = CreateBasicBlock ''for_all_on'' w12;
                                        (bMixed, a2) = CreateBasicBlock ''for_mixed'' a1;
                                        a3 = SetCurrentBasicBlock bAllOn (BranchIfMaskAll bAllOn bMixed a2);
                                        a4 = SetInternalMask LLVMMaskAllOn a3;
                                        oldFunctionMask = GetFunctionMask a4;
                                        a5 = SetFunctionMask LLVMMaskAllOn a4
                                    in andThen (EmitCode_opt g body a5)
                                      (\<lambda>a6. andThen (assertBlock a6)
                                      (\<lambda>a7. andThen (EmitCode_opt g body
                                                        (SetCurrentBasicBlock bMixed
                                                           (BranchInst bstep
                                                              (SetFunctionMask oldFunctionMask a7))))
                                      (\<lambda>a8. Inr (BranchInst bstep a8)))))
                                 else andThen (EmitCode_opt g body w12)
                                        (\<lambda>w13. Inr (if bblock w13 \<noteq> None then BranchInst bstep w13
                                                     else w13))))
                          (\<lambda>w14. andThen
                                    (EmitCode_opt g step
                                       (RestoreContinuedLanes
                                          (SetCurrentBasicBlock bstep
                                             (if \<not> isStmtList body then EndScope w14 else w14))))
                                    (\<lambda>w16. let w17 = SetCurrentBasicBlock bexit (BranchInst btest w16)
                                           in Inr (EndLoop (if ini \<noteq> None then EndScope w17 else w17)))))))
                   | _ \<Rightarrow> Inr w)"
  proof (cases s')
    case (DoStmt testExpr body cc p)
    with first have t: "testExpr = Some test" by simp
    show ?thesis
      unfolding DoStmt t Stmt.case test_def
      by (rule DoStmt_lowering [unfolded Let_def [of "TypeCastExpr b e" for b e]])
  next
    case (ForStmt ini test' step body cc p)
    with first have t: "test' = Some test" by simp
    show ?thesis
      unfolding ForStmt t Stmt.case test_def
      by (rule ForStmt_lowering [unfolded Let_def [of "TypeCastExpr b e" for b e]])
  qed (use loop in simp_all)
  show ?thesis
    unfolding Let_def [of "IsUniformType ty \<and> \<not> disableUniformControlFlow g \<and> \<not> bodyHasVaryingJump (loopBody s)"]
      Let_def [of "TypeCastExpr b e" for b e]
    using first second third
    unfolding test_def u_def by simp
qed

text \<open>
  The loop \<^verbatim>\<open>do { if (c) break; } while (cond);\<close> with \<open>c\<close> varying and \<open>cond\<close>
  uniform is a varying loop; the loop \<^verbatim>\<open>do ; while (cond);\<close> is a uniform loop.
\<close>

theorem loop_test_cast_uniform_iff_witness:
  "(let s = DoStmt (Some (SymbolExpr (Some 1) (Some UniformInt32)))
              (Some (IfStmt (Some (SymbolExpr (Some 2) (Some VaryingBool)))
                       (Some (BreakStmt False (''t.ispc'', 2, 9))) None False True (''t.ispc'', 2, 3)))
              False (''t.ispc'', 1, 1);
        t1 = SymbolExpr (Some 1) (Some UniformInt32);
        s' = DoStmt (Some (TypeCastExpr VaryingBool (Some t1)))
               (Some (IfStmt (Some (TypeCastExpr VaryingBool (Some (SymbolExpr (Some 2) (Some VaryingBool)))))
                        (Some (BreakStmt False (''t.ispc'', 2, 9))) None False True (''t.ispc'', 2, 3)))
               False (''t.ispc'', 1, 1);
        plain = DoStmt (Some t1) None False (''t.ispc'', 1, 1);
        plain' = DoStmt (Some (TypeCastExpr UniformBool (Some t1))) None False (''t.ispc'', 1, 1);
        w = exampleWorld (Some 0) (\<lambda>k. exampleSymbol None SC_NONE)
    in isLoop s \<and> testOf s = Some t1 \<and> exprTypeCheck exampleGlobals t1 = Some t1 \<and>
       GetType t1 = Some UniformInt32 \<and> bodyHasVaryingJump (loopBody s) \<and>
       TypeCheck exampleGlobals (\<lambda>k. exampleSymbol None SC_NONE) s [] = (Some s', []) \<and>
       testOf s' = Some (TypeCastExpr VaryingBool (Some t1)) \<and>
       map_sum id code (EmitCode exampleGlobals s' w) =
         Inr [EvCreateBasicBlock 1 ''do_loop'', EvCreateBasicBlock 2 ''do_exit'',
              EvCreateBasicBlock 3 ''do_test'', EvStartLoop 2 3 False,
              EvBranchInst 1, EvSetCurrentBasicBlock 1, EvSetLoopMask LLVMMaskAllOn,
              EvSetDebugPos (''t.ispc'', 1, 1), EvStartScope,
              EvAddInstrumentationPoint ''do loop body'',
              EvSetDebugPos (''t.ispc'', 2, 3),
              EvGetValue (TypeCastExpr VaryingBool (Some (SymbolExpr (Some 2) (Some VaryingBool)))),
              EvStartVaryingIf LLVMMaskAllOn,
              EvSetInternalMask
                (MaskAnd LLVMMaskAllOn
                   (ExprValue (TypeCastExpr VaryingBool (Some (SymbolExpr (Some 2) (Some VaryingBool)))))),
              EvStartScope, EvAddInstrumentationPoint ''if: expr mixed, true statements'',
              EvSetDebugPos (''t.ispc'', 2, 9), EvBreak False, EvEndScope, EvEndIf,
              EvBranchInst 3, EvEndScope, EvSetCurrentBasicBlock 3,
              EvRestoreContinuedLanes,
              EvGetValue (TypeCastExpr VaryingBool (Some t1)),
              EvSetInternalMask (MaskAnd LLVMMaskAllOn (ExprValue (TypeCastExpr VaryingBool (Some t1)))),
              EvBranchIfMaskAny 1 2, EvSetCurrentBasicBlock 2, EvEndLoop] \<and>
       TypeCheck exampleGlobals (\<lambda>k. exampleSymbol None SC_NONE) plain [] = (Some plain', []) \<and>
       map_sum id code (EmitCode exampleGlobals plain' w) =
         Inr [EvCreateBasicBlock 1 ''do_loop'', EvCreateBasicBlock 2 ''do_exit'',
              EvCreateBasicBlock 3 ''do_test'', EvStartLoop 2 3 True,
              EvBranchInst 1, EvSetCurrentBasicBlock 1, EvSetLoopMask LLVMMaskAllOn,
              EvSetDebugPos (''t.ispc'', 1, 1), EvStartScope,
              EvAddInstrumentationPoint ''do loop body'', EvBranchInst 3,
              EvEndScope, EvSetCurrentBasicBlock 3,
              EvGetValue (TypeCastExpr UniformBool (Some t1)),
              EvCondBranchInst 1 2 (ExprValue (TypeCastExpr UniformBool (Some t1))),
              EvSetCurrentBasicBlock 2, EvEndLoop])"
proof -
  let ?t1 = "SymbolExpr (Some 1) (Some UniformInt32)"
  let ?s = "DoStmt (Some ?t1)
              (Some (IfStmt (Some (SymbolExpr (Some 2) (Some VaryingBool)))
                       (Some (BreakStmt False (''t.ispc'', 2, 9))) None False True (''t.ispc'', 2, 3)))
              False (''t.ispc'', 1, 1)"
  let ?s' = "DoStmt (Some (TypeCastExpr VaryingBool (Some ?t1)))
               (Some (IfStmt (Some (TypeCastExpr VaryingBool (Some (SymbolExpr (Some 2) (Some VaryingBool)))))
                        (Some (BreakStmt False (''t.ispc'', 2, 9))) None False True (''t.ispc'', 2, 3)))
               False (''t.ispc'', 1, 1)"
  let ?plain = "DoStmt (Some ?t1) None False (''t.ispc'', 1, 1)"
  let ?plain' = "DoStmt (Some (TypeCastExpr UniformBool (Some ?t1))) None False (''t.ispc'', 1, 1)"
  let ?\<sigma> = "\<lambda>k. exampleSymbol None SC_NONE"
  let ?w = "exampleWorld (Some 0) ?\<sigma>"
  have h: "isLoop ?s" "testOf ?s = Some ?t1" "exprTypeCheck exampleGlobals ?t1 = Some ?t1"
    "GetType ?t1 = Some UniformInt32" "isLoop ?plain" "testOf ?plain = Some ?t1"
    by (simp_all add: exampleGlobals_def)
  have j: "bodyHasVaryingJump (loopBody ?s)" "\<not> bodyHasVaryingJump (loopBody ?plain)"
    "\<not> disableUniformControlFlow exampleGlobals"
    by (simp_all add: bodyHasVaryingJump_def varyingTest_def IsVaryingType_def exampleGlobals_def)
  have c: "TypeCheck exampleGlobals ?\<sigma> ?s [] = (Some ?s', [])"
    "TypeCheck exampleGlobals ?\<sigma> ?plain [] = (Some ?plain', [])"
    by (simp_all add: exampleGlobals_def castTestToBool_def exprTypeCheck_opt_def IsVaryingType_def)
  note varying = loop_test_cast_uniform_iff [OF h(1-4) c(1), of ?w]
  note uniform = loop_test_cast_uniform_iff [OF h(5,6,3,4) c(2), of ?w]
  have e: "map_sum id code (EmitCode exampleGlobals ?s' ?w) =
         Inr [EvCreateBasicBlock 1 ''do_loop'', EvCreateBasicBlock 2 ''do_exit'',
              EvCreateBasicBlock 3 ''do_test'', EvStartLoop 2 3 False,
              EvBranchInst 1, EvSetCurrentBasicBlock 1, EvSetLoopMask LLVMMaskAllOn,
              EvSetDebugPos (''t.ispc'', 1, 1), EvStartScope,
              EvAddInstrumentationPoint ''do loop body'',
              EvSetDebugPos (''t.ispc'', 2, 3),
              EvGetValue (TypeCastExpr VaryingBool (Some (SymbolExpr (Some 2) (Some VaryingBool)))),
              EvStartVaryingIf LLVMMaskAllOn,
              EvSetInternalMask
                (MaskAnd LLVMMaskAllOn
                   (ExprValue (TypeCastExpr VaryingBool (Some (SymbolExpr (Some 2) (Some VaryingBool)))))),
              EvStartScope, EvAddInstrumentationPoint ''if: expr mixed, true statements'',
              EvSetDebugPos (''t.ispc'', 2, 9), EvBreak False, EvEndScope, EvEndIf,
              EvBranchInst 3, EvEndScope, EvSetCurrentBasicBlock 3,
              EvRestoreContinuedLanes,
              EvGetValue (TypeCastExpr VaryingBool (Some ?t1)),
              EvSetInternalMask (MaskAnd LLVMMaskAllOn (ExprValue (TypeCastExpr VaryingBool (Some ?t1)))),
              EvBranchIfMaskAny 1 2, EvSetCurrentBasicBlock 2, EvEndLoop]"
    unfolding varying [THEN conjunct2, THEN conjunct2, unfolded Let_def [of "_ \<and> _"] Let_def [of "TypeCastExpr b x" for b x] Stmt.case]
    by (simp add: bodyHasVaryingJump_def varyingTest_def IsVaryingType_def exampleGlobals_def exampleWorld_def
        IfStmt_EmitCode_def emitVaryingIf_def safeAndCheap_def
        emitMaskedTrueAndFalse_def lEmitIfStatements_def andAlso_def addCost_def
        BreakStmt_EmitCode_def ctxBreak_def endBlockAtJump_def StartLoop_def EndLoop_def SetLoopMask_def
        RestoreContinuedLanes_def BranchIfMaskAny_def andThen_def Let_def ctx_defs)
  have f: "map_sum id code (EmitCode exampleGlobals ?plain' ?w) =
         Inr [EvCreateBasicBlock 1 ''do_loop'', EvCreateBasicBlock 2 ''do_exit'',
              EvCreateBasicBlock 3 ''do_test'', EvStartLoop 2 3 True,
              EvBranchInst 1, EvSetCurrentBasicBlock 1, EvSetLoopMask LLVMMaskAllOn,
              EvSetDebugPos (''t.ispc'', 1, 1), EvStartScope,
              EvAddInstrumentationPoint ''do loop body'', EvBranchInst 3,
              EvEndScope, EvSetCurrentBasicBlock 3,
              EvGetValue (TypeCastExpr UniformBool (Some ?t1)),
              EvCondBranchInst 1 2 (ExprValue (TypeCastExpr UniformBool (Some ?t1))),
              EvSetCurrentBasicBlock 2, EvEndLoop]"
    unfolding uniform [THEN conjunct2, THEN conjunct2, unfolded Let_def [of "_ \<and> _"] Let_def [of "TypeCastExpr b x" for b x] Stmt.case]
    by (simp add: bodyHasVaryingJump_def varyingTest_def IsVaryingType_def exampleGlobals_def exampleWorld_def
        StartLoop_def EndLoop_def SetLoopMask_def
        CondBranchInst_def andThen_def Let_def ctx_defs)
  from varying [THEN conjunct1] j have g: "testOf ?s' = Some (TypeCastExpr VaryingBool (Some ?t1))"
    by simp
  show ?thesis
    unfolding Let_def using h j c e f g by simp
qed

text \<open>
  C5: after a type check that succeeds, the test of an \<^verbatim>\<open>if\<close>, \<^verbatim>\<open>do\<close>, \<^verbatim>\<open>for\<close> or
  \<^verbatim>\<open>assert\<close> statement, when it is present and has a type, has the type uniform bool or
  the type varying bool.
\<close>

theorem checked_test_is_bool:
  "TypeCheck g \<sigma> s ds = (Some s', ds') \<Longrightarrow> testOf s' = Some t' \<Longrightarrow> GetType t' = Some ty \<Longrightarrow>
     ty = UniformBool \<or> ty = VaryingBool"
  by (cases s)
     (auto simp: castTestToBool_def exprTypeCheck_opt_def
           split: option.splits if_splits sum.splits prod.splits)

theorem checked_test_is_bool_witness:
  "(let t' = TypeCastExpr UniformBool (Some (SymbolExpr (Some 1) (Some UniformInt32)));
        s' = AssertStmt ''positive'' (Some t') (''t.ispc'', 3, 1)
    in TypeCheck exampleGlobals (\<lambda>k. exampleSymbol None SC_NONE)
         (AssertStmt ''positive'' (Some (SymbolExpr (Some 1) (Some UniformInt32))) (''t.ispc'', 3, 1)) []
         = (Some s', []) \<and>
       testOf s' = Some t' \<and> GetType t' = Some UniformBool)"
  using checked_test_is_bool
    [of exampleGlobals "\<lambda>k. exampleSymbol None SC_NONE"
        "AssertStmt ''positive'' (Some (SymbolExpr (Some 1) (Some UniformInt32))) (''t.ispc'', 3, 1)" "[]"
        "AssertStmt ''positive''
           (Some (TypeCastExpr UniformBool (Some (SymbolExpr (Some 1) (Some UniformInt32)))))
           (''t.ispc'', 3, 1)" "[]"
        "TypeCastExpr UniformBool (Some (SymbolExpr (Some 1) (Some UniformInt32)))" UniformBool]
  by (simp add: exampleGlobals_def castTestToBool_def exprTypeCheck_opt_def)

section \<open>Print arguments\<close>

text \<open>
  C10: a print argument whose type is an 8-bit or 16-bit integer, signed or unsigned, is
  cast to the signed 32-bit integer type of its variability; the value evaluated and
  stored is the cast's, and the character appended to the type string is \<open>i\<close> for a
  uniform argument and \<open>I\<close> for a varying one.
\<close>

theorem small_int_print_arg_promoted:
  assumes "GetType expr = Some (AtomicType b u c)"
    and "b = TYPE_INT8 \<or> b = TYPE_UINT8 \<or> b = TYPE_INT16 \<or> b = TYPE_UINT16"
  shows "lProcessPrintArg g expr w argTypes =
     (let castType = (if u then UniformInt32 else VaryingInt32);
          castExpr = TypeCastExpr castType (Some expr);
          w1 = emitEvent (EvGetValue castExpr)
                 (emitEvent (EvAllocaInst (nvalues w) (LLVMType castType) ''print_arg'')
                    (w\<lparr>nvalues := Suc (nvalues w)\<rparr>))
      in if exprGetValueOK g castExpr
         then (Some (BitCast (Alloca (nvalues w)) VoidPointerType),
               emitEvent (EvStoreInst (ExprValue castExpr) (Alloca (nvalues w))) w1,
               argTypes @ [if u then CHR ''i'' else CHR ''I''])
         else (None, w1, argTypes @ [if u then CHR ''i'' else CHR ''I'']))"
  using assms
  by (auto simp: lProcessPrintArg_def lEncodeType_def AllocaInst_def GetValue_def StoreInst_def
        BitCastInst_def Let_def)

theorem small_int_print_arg_promoted_witness:
  "GetType (SymbolExpr (Some 1) (Some (AtomicType TYPE_UINT16 False True))) =
     Some (AtomicType TYPE_UINT16 False True) \<and>
   snd (snd (lProcessPrintArg exampleGlobals
               (SymbolExpr (Some 1) (Some (AtomicType TYPE_UINT16 False True)))
               (exampleWorld (Some 0) (\<lambda>k. exampleSymbol None SC_NONE)) ''f'')) = ''fI''"
  using small_int_print_arg_promoted
    [of "SymbolExpr (Some 1) (Some (AtomicType TYPE_UINT16 False True))" TYPE_UINT16 False True
        exampleGlobals "exampleWorld (Some 0) (\<lambda>k. exampleSymbol None SC_NONE)" "''f''"]
  by (simp add: exampleGlobals_def Let_def)

section \<open>Optimizing twice\<close>

lemma constWrites_Nil [simp]: "constWrites [] \<sigma> = \<sigma>"
  by (simp add: constWrites_def)


lemma constWrites_at:
  "constWrites ws \<sigma> k =
     (\<sigma> k)\<lparr>constValue := (case map_of (rev ws) k of None \<Rightarrow> constValue (\<sigma> k) | Some v \<Rightarrow> v)\<rparr>"
proof (induction ws arbitrary: \<sigma>)
  case Nil
  then show ?case by simp
next
  case (Cons kv ws)
  have "constWrites (kv # ws) \<sigma> = constWrites ws (\<sigma>(fst kv := (\<sigma> (fst kv))\<lparr>constValue := snd kv\<rparr>))"
    by (simp add: constWrites_def)
  then show ?case
    by (cases kv) (auto simp: Cons.IH map_add_def split: option.splits)
qed

lemma constWrites_type: "type (constWrites ws \<sigma> k) = type (\<sigma> k)"
  by (simp add: constWrites_at)

lemma sameTypes_constWrites: "sameTypes \<tau> \<sigma> \<Longrightarrow> sameTypes (constWrites ws \<tau>) (constWrites ws' \<sigma>)"
  by (simp add: sameTypes_def constWrites_type)












lemma capsOf_exprStep: "capsOf (exprStep e) = {}"
  by (cases e) (simp_all add: capsOf_def exprStep_def)
























text \<open>
  The loop \<^verbatim>\<open>for (const uniform int n = 10; n; ) ;\<close> captures late: the test names
  \<open>n\<close> and is optimized before the initializer captures \<open>10\<close> for \<open>n\<close>.
\<close>

lemma countedLoop_captures_late:
  "\<not> noLateCapture (optimizeSteps (constSymbol (constIntSymbols None))
                       (countedLoop (SymbolExpr (Some 0) (Some ConstUniformInt32))))"
  by (simp add: countedLoop_def exprStep_def constSymbol_def constIntSymbols_def exampleSymbol_def)


section \<open>Brace initializers of collections\<close>

lemma fold_Inl:
  "fold (\<lambda>j r. case r of Inl x \<Rightarrow> Inl x | Inr w' \<Rightarrow> f j w') js (Inl x) = Inl x"
  by (induction js) simp_all

lemma lInitSymbol_elements_fold:
  "es = drop i exprs \<Longrightarrow> i \<le> length exprs \<Longrightarrow>
   lInitSymbol_elements g lvalue symName ty es i w =
     fold (\<lambda>j r. case r of Inl x \<Rightarrow> Inl x
                  | Inr w' \<Rightarrow> lInitSymbol g (ElementPtr lvalue 0 j) symName (GetElementType ty j) (exprs ! j) w')
       [i..<length exprs] (Inr w)"
proof (induction es arbitrary: i w)
  case Nil
  then show ?case by simp
next
  case (Cons e es)
  from Cons.prems(1) have i: "i < length exprs"
    by (metis drop_all list.distinct(1) not_le)
  have "e # es = exprs ! i # drop (Suc i) exprs"
    using Cons.prems(1) Cons_nth_drop_Suc [OF i] by simp
  then have e: "e = exprs ! i" and es: "es = drop (Suc i) exprs"
    by simp_all
  have up: "[i..<length exprs] = i # [Suc i..<length exprs]"
    using i by (simp add: upt_conv_Cons)
  show ?case
    using Cons.IH [OF es] i
    by (simp add: up e GetElementPtrInst_def fold_Inl split: sum.splits)
qed

text \<open>
  C7: for a struct, array or vector type and a brace list of \<open>N\<close> initializers,
  \<^verbatim>\<open>lInitSymbol\<close> reports the count error, and does nothing else, when \<open>N\<close> differs from
  the element count of the type; when \<open>N\<close> is the element count it reports none and runs,
  for each index \<open>i\<close> in order, \<^verbatim>\<open>lInitSymbol\<close> on the element pointer \<open>i\<close> of the
  storage with the type of element \<open>i\<close> and the initializer \<open>i\<close> of the list.
\<close>

theorem brace_list_arity:
  assumes "isCollectionType ty"
  shows "lInitSymbol g lvalue symName ty (Some (ExprList exprs)) w =
     (if length exprs \<noteq> GetElementCount ty
      then Inr (w\<lparr>diags := diags w @
                   [ErrInitializerCount (collectionName ty) symName (GetElementCount ty) (length exprs)]\<rparr>)
      else fold (\<lambda>i r. case r of Inl x \<Rightarrow> Inl x
                  | Inr w' \<Rightarrow> lInitSymbol g (ElementPtr lvalue 0 i) symName (GetElementType ty i) (exprs ! i) w')
             [0..<length exprs] (Inr w))"
  using assms lInitSymbol_elements_fold [of exprs 0 exprs g lvalue symName ty w]
  by (cases ty) (simp_all add: reportDiag_def)

theorem brace_list_arity_witness:
  "isCollectionType (ArrayType UniformInt32 2) \<and>
   lInitSymbol exampleGlobals (Alloca 0) ''a'' (ArrayType UniformInt32 2)
     (Some (ExprList [Some (ConstExpr UniformInt32 [10]), Some (ConstExpr UniformInt32 [20]), Some (ConstExpr UniformInt32 [30])]))
     (exampleWorld (Some 0) (\<lambda>k. exampleSymbol None SC_NONE))
   = Inr ((exampleWorld (Some 0) (\<lambda>k. exampleSymbol None SC_NONE))\<lparr>diags := [ErrInitializerCount ''array'' ''a'' 2 3]\<rparr>)
   \<and>
   map_sum id code (lInitSymbol exampleGlobals (Alloca 0) ''a'' (ArrayType UniformInt32 2)
     (Some (ExprList [Some (ConstExpr UniformInt32 [10]), Some (ConstExpr UniformInt32 [20])]))
     (exampleWorld (Some 0) (\<lambda>k. exampleSymbol None SC_NONE)))
   = Inr [EvGetValue (ConstExpr UniformInt32 [10]),
          EvStoreInst (ExprValue (ConstExpr UniformInt32 [10])) (ElementPtr (Alloca 0) 0 0),
          EvGetValue (ConstExpr UniformInt32 [20]),
          EvStoreInst (ExprValue (ConstExpr UniformInt32 [20])) (ElementPtr (Alloca 0) 0 1)]"
  using brace_list_arity [of "ArrayType UniformInt32 2" exampleGlobals "Alloca 0" "''a''"
      "[Some (ConstExpr UniformInt32 [10]), Some (ConstExpr UniformInt32 [20]), Some (ConstExpr UniformInt32 [30])]"
      "exampleWorld (Some 0) (\<lambda>k. exampleSymbol None SC_NONE)"]
    brace_list_arity [of "ArrayType UniformInt32 2" exampleGlobals "Alloca 0" "''a''"
      "[Some (ConstExpr UniformInt32 [10]), Some (ConstExpr UniformInt32 [20])]"
      "exampleWorld (Some 0) (\<lambda>k. exampleSymbol None SC_NONE)"]
  by (simp add: exampleWorld_def exampleGlobals_def collectionName_def upt_rec [of 0] upt_rec [of 1]
        storeValueOf_def GetValue_def StoreInst_def emitEvent_def)

section \<open>Declarations of arrays without a size\<close>

lemma storeValueOf_frame:
  "syms (storeValueOf g e lv w) = syms w \<and> globalVars (storeValueOf g e lv w) = globalVars w \<and>
   nvalues (storeValueOf g e lv w) = nvalues w \<and> bblock (storeValueOf g e lv w) = bblock w \<and>
   diags (storeValueOf g e lv w) = diags w"
  by (simp add: storeValueOf_def GetValue_def StoreInst_def emitEvent_def)

lemma reportDiag_frame:
  "syms (reportDiag d w) = syms w \<and> globalVars (reportDiag d w) = globalVars w \<and>
   nvalues (reportDiag d w) = nvalues w \<and> bblock (reportDiag d w) = bblock w \<and>
   diags (reportDiag d w) = diags w @ [d]"
  by (simp add: reportDiag_def)

lemma lInitSymbol_frame:
  "lInitSymbol g lvalue symName ty e w = Inr w' \<Longrightarrow> sameFrame w' w"
  "lInitSymbol_elements g lvalue symName ty es i w = Inr w' \<Longrightarrow> sameFrame w' w"
proof (induction g lvalue symName ty e w and g lvalue symName ty es i w arbitrary: w' and w'
        rule: lInitSymbol_lInitSymbol_elements.induct)
  case (1 g lvalue symName ty w)
  then show ?case by (auto simp: StoreInst_def emitEvent_def sameFrame_def)
next
  case (2 g lvalue symName ty initExpr w)
  let ?conv = "if isExprList initExpr then None else TypeConvertExpr g initExpr ty"
  show ?case
  proof (cases ?conv)
    case (Some converted)
    then have "lInitSymbol g lvalue symName ty (Some initExpr) w = Inr (storeValueOf g converted lvalue w)"
      by simp
    with "2.prems" show ?thesis
      by (simp add: sameFrame_def storeValueOf_frame)
  next
    case None
    show ?thesis
    proof (cases "isAtomicType ty \<or> isEnumType ty")
      case True
      with None have "lInitSymbol g lvalue symName ty (Some initExpr) w =
          (if isExprList initExpr then Inr (reportDiag (ErrExprListInitializer symName ty) w) else Inr w)"
        by simp
      with "2.prems" show ?thesis
        by (auto simp: sameFrame_def reportDiag_frame split: if_splits)
    next
      case na: False
      show ?thesis
      proof (cases "isReferenceType ty")
        case True
        with None na have "lInitSymbol g lvalue symName ty (Some initExpr) w =
           (if \<not> isExprList initExpr then Inl NullDeref
             else if \<not> type_Equal (GetType initExpr) (Some ty) then
               (case GetType initExpr of
                  None \<Rightarrow> Inl NullDeref
                | Some t \<Rightarrow> Inr (reportDiag (ErrReferenceInitializer ty (Some t)) w))
             else Inr (storeValueOf g initExpr lvalue w))"
          by simp
        with "2.prems" show ?thesis
          by (auto simp: sameFrame_def reportDiag_frame storeValueOf_frame split: if_splits option.splits)
      next
        case nr: False
        show ?thesis
        proof (cases "isCollectionType ty")
          case nc: False
          with None na nr have "lInitSymbol g lvalue symName ty (Some initExpr) w = Inl Fatal"
            by simp
          with "2.prems" show ?thesis by simp
        next
          case c: True
          show ?thesis
          proof (cases initExpr)
            case (ExprList exprs)
            with None na nr c have eq: "lInitSymbol g lvalue symName ty (Some initExpr) w =
               (if length exprs \<noteq> GetElementCount ty
                 then Inr (reportDiag (ErrInitializerCount (collectionName ty) symName
                                         (GetElementCount ty) (length exprs)) w)
                 else lInitSymbol_elements g lvalue symName ty exprs 0 w)"
              by simp
            show ?thesis
            proof (cases "length exprs \<noteq> GetElementCount ty")
              case True
              with eq "2.prems" show ?thesis
                by (auto simp: sameFrame_def reportDiag_frame)
            next
              case False
              with eq "2.prems" have "lInitSymbol_elements g lvalue symName ty exprs 0 w = Inr w'"
                by simp
              with "2.IH" [OF None] na nr c ExprList False show ?thesis
                by blast
            qed
          qed (use None na nr c "2.prems" in simp_all)
        qed
      qed
    qed
  qed
next
  case (3 g lvalue symName ty i w)
  then show ?case by (simp add: sameFrame_def)
next
  case (4 g lvalue symName ty e es i w)
  from "4.prems" obtain w1 where
    a: "lInitSymbol g (GetElementPtrInst lvalue 0 i) symName (GetElementType ty i) e w = Inr w1" and
    b: "lInitSymbol_elements g lvalue symName ty es (Suc i) w1 = Inr w'"
    by (cases "lInitSymbol g (GetElementPtrInst lvalue 0 i) symName (GetElementType ty i) e w") simp_all
  from "4.IH"(1) [OF a] "4.IH"(2) [OF a b] show ?case
    unfolding sameFrame_def by auto
qed


lemma unsized_error_step:
  assumes "sym v = Some k" and "type (syms w k) = Some (ArrayType et 0)"
    and "\<And>exprs. init v \<noteq> Some (ExprList exprs)"
  shows "DeclStmt_EmitCode_var g v w =
           Inr (reportDiag (ErrUnsizedArray (pos (syms w k)))
                  (SetDebugPos (pos (syms w k))
                     (updSym k (\<lambda>s. s\<lparr>varyingCFDepth := VaryingCFDepth w\<rparr>) w)))"
  using assms
  by (auto simp: DeclStmt_EmitCode_var_def Let_def updSym_def SetDebugPos_def emitEvent_def
        split: option.splits Expr.splits)

lemma step_decompose:
  assumes "sym v = Some k" and "type (syms w k) = Some ty0"
  shows "DeclStmt_EmitCode_var g v w =
     (let w2 = SetDebugPos (pos (syms w k)) (updSym k (\<lambda>s. s\<lparr>varyingCFDepth := VaryingCFDepth w\<rparr>) w)
      in if isArrayType ty0 \<and> GetElementCount ty0 = 0
         then (case init v of
                 Some (ExprList exprs) \<Rightarrow>
                   declStorage g v k (GetSizedArray ty0 (length exprs))
                     (updSym k (\<lambda>s. s\<lparr>type := Some (GetSizedArray ty0 (length exprs))\<rparr>) w2)
               | _ \<Rightarrow> Inr (reportDiag (ErrUnsizedArray (pos (syms w k))) w2))
         else declStorage g v k ty0 w2)"
proof (cases "isArrayType ty0 \<and> GetElementCount ty0 = 0")
  case False
  show ?thesis
    unfolding DeclStmt_EmitCode_var_def declStorage_def Let_def assms option.case if_not_P [OF False]
    by (simp add: updSym_def SetDebugPos_def emitEvent_def)
next
  case True
  show ?thesis
  proof (cases "init v")
    case None
    show ?thesis
      unfolding DeclStmt_EmitCode_var_def Let_def assms option.case if_P [OF True] None
      by (simp add: updSym_def SetDebugPos_def emitEvent_def)
  next
    case (Some e)
    show ?thesis
      unfolding DeclStmt_EmitCode_var_def declStorage_def Let_def assms option.case if_P [OF True] Some
      by (cases e) (simp_all add: updSym_def SetDebugPos_def emitEvent_def)
  qed
qed

lemma declStorage_syms:
  assumes "declStorage g v k ty w3 = Inr w'"
  shows "sameSymbol (syms w' k) (syms w3 k) \<and> (\<forall>j. j \<noteq> k \<longrightarrow> syms w' j = syms w3 j) \<and>
         set (diags w3) \<subseteq> set (diags w')"
proof (cases "isReferenceType ty \<and> init v = None")
  case True
  with assms show ?thesis
    by (auto simp: declStorage_def reportDiag_def sameSymbol_def)
next
  case nr: False
  show ?thesis
  proof (cases "storageClass (syms w3 k) = SC_STATIC")
    case True
    with assms show ?thesis
      unfolding declStorage_def Let_def if_not_P [OF nr]
      by (auto simp: reportDiag_def sameSymbol_def addGlobalVariable_def updSym_def
            EmitVariableDebugInfo_def emitEvent_def)
  next
    case False
    with nr assms have
      "lInitSymbol g (Alloca (nvalues w3))
         (name (syms w3 k)) ty (init v)
         (updSym k (\<lambda>s. s\<lparr>parentFunction := Some (llvmFunction w3)\<rparr>)
            (EmitVariableDebugInfo k
               (updSym k (\<lambda>s. s\<lparr>storagePtr := Some (Alloca (nvalues w3))\<rparr>)
                  (snd (AllocaInst (LLVMType ty) (name (syms w3 k)) w3))))) = Inr w'"
      unfolding declStorage_def Let_def if_not_P [OF nr] if_not_P [OF False]
      by (simp add: AllocaInst_def updSym_def EmitVariableDebugInfo_def emitEvent_def GetFunction_def)
    from lInitSymbol_frame(1) [OF this] show ?thesis
      by (simp add: sameFrame_def sameSymbol_def AllocaInst_def updSym_def EmitVariableDebugInfo_def
            emitEvent_def)
  qed
qed


lemma step_other:
  assumes "sym v \<noteq> Some k" and "DeclStmt_EmitCode_var g v w = Inr w'"
  shows "syms w' k = syms w k \<and> set (diags w) \<subseteq> set (diags w')"
proof (cases "sym v")
  case None
  with assms(2) show ?thesis by (simp add: DeclStmt_EmitCode_var_def)
next
  case (Some j)
  with assms(1) have jk: "k \<noteq> j" by auto
  show ?thesis
  proof (cases "type (syms w j)")
    case None
    with Some assms(2) show ?thesis by (simp add: DeclStmt_EmitCode_var_def)
  next
    case (Some ty0)
    note d = step_decompose [OF \<open>sym v = Some j\<close> Some, of g]
    let ?w2 = "SetDebugPos (pos (syms w j)) (updSym j (\<lambda>s. s\<lparr>varyingCFDepth := VaryingCFDepth w\<rparr>) w)"
    have w2: "syms ?w2 k = syms w k" "diags ?w2 = diags w"
      using jk by (simp_all add: SetDebugPos_def emitEvent_def updSym_def)
    show ?thesis
    proof (cases "isArrayType ty0 \<and> GetElementCount ty0 = 0")
      case False
      with d assms(2) have "declStorage g v j ty0 ?w2 = Inr w'" by (simp add: Let_def)
      from declStorage_syms [OF this] jk w2 show ?thesis by auto
    next
      case True
      show ?thesis
      proof (cases "\<exists>exprs. init v = Some (ExprList exprs)")
        case True
        then obtain exprs where e: "init v = Some (ExprList exprs)" by blast
        with d assms(2) \<open>isArrayType ty0 \<and> GetElementCount ty0 = 0\<close>
        have "declStorage g v j (GetSizedArray ty0 (length exprs))
                (updSym j (\<lambda>s. s\<lparr>type := Some (GetSizedArray ty0 (length exprs))\<rparr>) ?w2) = Inr w'"
          by (simp add: Let_def)
        from declStorage_syms [OF this] jk w2 show ?thesis by (auto simp: updSym_def)
      next
        case False
        then have "\<And>exprs. init v \<noteq> Some (ExprList exprs)" by blast
        from unsized_error_step [OF \<open>sym v = Some j\<close> _ this, of w "GetElementType ty0 0" g]
          Some True assms(2) jk
        show ?thesis
          by (cases ty0) (auto simp: reportDiag_def SetDebugPos_def emitEvent_def updSym_def)
      qed
    qed
  qed
qed

lemma step_self_resize:
  assumes "sym v = Some k" and "type (syms w k) = Some (ArrayType et m)"
    and "m = 0 \<or> m = length exprs"
    and "init v = Some (ExprList exprs)" and "DeclStmt_EmitCode_var g v w = Inr w'"
  shows "type (syms w' k) = Some (ArrayType et (length exprs))"
proof -
  note d = step_decompose [OF assms(1,2), of g]
  let ?w2 = "SetDebugPos (pos (syms w k)) (updSym k (\<lambda>s. s\<lparr>varyingCFDepth := VaryingCFDepth w\<rparr>) w)"
  have w2: "type (syms ?w2 k) = Some (ArrayType et m)"
    using assms(2) by (simp add: SetDebugPos_def emitEvent_def updSym_def)
  show ?thesis
  proof (cases "m = 0")
    case True
    with d assms(4,5)
    have "declStorage g v k (ArrayType et (length exprs))
            (updSym k (\<lambda>s. s\<lparr>type := Some (ArrayType et (length exprs))\<rparr>) ?w2) = Inr w'"
      by (simp add: Let_def)
    from declStorage_syms [OF this] show ?thesis by (simp add: sameSymbol_def updSym_def)
  next
    case False
    with d assms(5) have "declStorage g v k (ArrayType et m) ?w2 = Inr w'"
      by (simp add: Let_def)
    from declStorage_syms [OF this] w2 False assms(3) show ?thesis by (simp add: sameSymbol_def)
  qed
qed

lemma vars_resize:
  assumes "sym v = Some k" and "init v = Some (ExprList exprs)"
  shows "\<forall>v2\<in>set vars. sym v2 = Some k \<longrightarrow> v2 = v \<Longrightarrow>
         type (syms w k) = Some (ArrayType et m) \<Longrightarrow> m = 0 \<or> m = length exprs \<Longrightarrow>
         DeclStmt_EmitCode_vars g vars w = Inr w' \<Longrightarrow>
         (\<exists>m'. type (syms w' k) = Some (ArrayType et m') \<and> (m' = 0 \<or> m' = length exprs)) \<and>
         (v \<in> set vars \<or> m = length exprs \<longrightarrow> type (syms w' k) = Some (ArrayType et (length exprs)))"
proof (induction vars arbitrary: w m)
  case Nil
  then show ?case by auto
next
  case (Cons v2 vars)
  from Cons.prems(4) obtain w1 where
    s: "DeclStmt_EmitCode_var g v2 w = Inr w1" and r: "DeclStmt_EmitCode_vars g vars w1 = Inr w'"
    by (cases "DeclStmt_EmitCode_var g v2 w") simp_all
  have rest: "\<forall>v3\<in>set vars. sym v3 = Some k \<longrightarrow> v3 = v" using Cons.prems(1) by simp
  show ?case
  proof (cases "sym v2 = Some k")
    case True
    with Cons.prems(1) have "v2 = v" by simp
    with s have "type (syms w1 k) = Some (ArrayType et (length exprs))"
      using step_self_resize [OF assms(1) Cons.prems(2,3) assms(2)] by simp
    from Cons.IH [OF rest this _ r] show ?thesis by auto
  next
    case False
    from step_other [OF False s] Cons.prems(2) have t: "type (syms w1 k) = Some (ArrayType et m)" by simp
    from False assms(1) have "v2 \<noteq> v" by auto
    with Cons.IH [OF rest t Cons.prems(3) r] show ?thesis by auto
  qed
qed

lemma vars_error:
  assumes "sym v = Some k" and "\<And>exprs. init v \<noteq> Some (ExprList exprs)"
  shows "\<forall>v2\<in>set vars. sym v2 = Some k \<longrightarrow> v2 = v \<Longrightarrow>
         type (syms w k) = Some (ArrayType et 0) \<Longrightarrow>
         DeclStmt_EmitCode_vars g vars w = Inr w' \<Longrightarrow>
         type (syms w' k) = Some (ArrayType et 0) \<and> pos (syms w' k) = pos (syms w k) \<and>
         storagePtr (syms w' k) = storagePtr (syms w k) \<and> set (diags w) \<subseteq> set (diags w') \<and>
         (v \<in> set vars \<longrightarrow> ErrUnsizedArray (pos (syms w k)) \<in> set (diags w'))"
proof (induction vars arbitrary: w)
  case Nil
  then show ?case by auto
next
  case (Cons v2 vars)
  from Cons.prems(3) obtain w1 where
    s: "DeclStmt_EmitCode_var g v2 w = Inr w1" and r: "DeclStmt_EmitCode_vars g vars w1 = Inr w'"
    by (cases "DeclStmt_EmitCode_var g v2 w") simp_all
  have rest: "\<forall>v3\<in>set vars. sym v3 = Some k \<longrightarrow> v3 = v" using Cons.prems(1) by simp
  show ?case
  proof (cases "sym v2 = Some k")
    case True
    with Cons.prems(1) have "v2 = v" by simp
    with s unsized_error_step [OF assms(1) Cons.prems(2) assms(2), of g]
    have w1: "w1 = reportDiag (ErrUnsizedArray (pos (syms w k)))
                  (SetDebugPos (pos (syms w k))
                     (updSym k (\<lambda>s. s\<lparr>varyingCFDepth := VaryingCFDepth w\<rparr>) w))"
      by simp
    have f: "type (syms w1 k) = Some (ArrayType et 0)" "pos (syms w1 k) = pos (syms w k)"
      "storagePtr (syms w1 k) = storagePtr (syms w k)"
      "set (diags w1) = insert (ErrUnsizedArray (pos (syms w k))) (set (diags w))"
      using Cons.prems(2) by (simp_all add: w1 reportDiag_def SetDebugPos_def emitEvent_def updSym_def)
    from Cons.IH [OF rest f(1) r] f show ?thesis by auto
  next
    case False
    from step_other [OF False s] Cons.prems(2)
    have t: "syms w1 k = syms w k" "set (diags w) \<subseteq> set (diags w1)" by simp_all
    from False assms(1) have "v2 \<noteq> v" by auto
    with Cons.IH [OF rest _ r] t Cons.prems(2) show ?thesis by auto
  qed
qed

text \<open>
  C6: a declaration statement is emitted with a current block, and one of its variables,
  the only one of the statement for its symbol, has an array type of element count 0.  If
  its initializer is a brace list of \<open>k\<close> expressions, the symbol's type after the
  emission is the array type of \<open>k\<close> elements.  If its initializer is absent or is not a
  brace list, the error is reported and the variable is skipped: the symbol keeps its type
  and its storage pointer.
\<close>

theorem unsized_array_declaration:
  assumes "bblock w \<noteq> None" and "v \<in> set vars" and "sym v = Some k"
    and "\<forall>v2\<in>set vars. sym v2 = Some k \<longrightarrow> v2 = v"
    and "type (syms w k) = Some (ArrayType et 0)"
    and "EmitCode g (DeclStmt vars p) w = Inr w'"
  shows "(case init v of
            Some (ExprList exprs) \<Rightarrow> type (syms w' k) = Some (ArrayType et (length exprs))
          | _ \<Rightarrow> type (syms w' k) = Some (ArrayType et 0) \<and>
                 storagePtr (syms w' k) = storagePtr (syms w k) \<and>
                 ErrUnsizedArray (pos (syms w k)) \<in> set (diags w'))"
proof -
  from assms(1,6) have run: "DeclStmt_EmitCode_vars g vars w = Inr w'"
    by (auto simp: DeclStmt_EmitCode_def)
  show ?thesis
  proof (cases "\<exists>exprs. init v = Some (ExprList exprs)")
    case True
    then obtain exprs where e: "init v = Some (ExprList exprs)" by blast
    from vars_resize [OF assms(3) e assms(4,5) _ run] assms(2) show ?thesis
      by (simp add: e)
  next
    case False
    then have n: "\<And>exprs. init v \<noteq> Some (ExprList exprs)" by blast
    from vars_error [OF assms(3) n assms(4,5) run] assms(2) n show ?thesis
      by (auto split: option.splits Expr.splits)
  qed
qed

theorem unsized_array_declaration_witness:
  "(let w = exampleWorld (Some 0) (\<lambda>k. exampleSymbol (Some (ArrayType UniformInt32 0)) SC_NONE);
        p = (''t.ispc'', 1, 1)
    in bblock w \<noteq> None \<and> type (syms w 0) = Some (ArrayType UniformInt32 0) \<and>
       map_sum id (\<lambda>w'. (type (syms w' 0), diags w', code w'))
         (EmitCode exampleGlobals (DeclStmt [unsizedDecl (Some threeInts)] p) w) =
         Inr (Some (ArrayType UniformInt32 3), [],
              [EvSetDebugPos (''t.ispc'', 1, 1),
                  EvAllocaInst 0 (LLVMType (ArrayType UniformInt32 3)) ''a'',
                  EvEmitVariableDebugInfo 0,
                  EvGetValue (ConstExpr UniformInt32 [10]),
                  EvStoreInst (ExprValue (ConstExpr UniformInt32 [10])) (ElementPtr (Alloca 0) 0 0),
                  EvGetValue (ConstExpr UniformInt32 [20]),
                  EvStoreInst (ExprValue (ConstExpr UniformInt32 [20])) (ElementPtr (Alloca 0) 0 1),
                  EvGetValue (ConstExpr UniformInt32 [30]),
                  EvStoreInst (ExprValue (ConstExpr UniformInt32 [30])) (ElementPtr (Alloca 0) 0 2)]) \<and>
       map_sum id (\<lambda>w'. (type (syms w' 0), storagePtr (syms w' 0), diags w', code w'))
         (EmitCode exampleGlobals (DeclStmt [unsizedDecl None] p) w) =
         Inr (Some (ArrayType UniformInt32 0), None, [ErrUnsizedArray p], [EvSetDebugPos p]))"
proof -
  let ?w = "exampleWorld (Some 0) (\<lambda>k. exampleSymbol (Some (ArrayType UniformInt32 0)) SC_NONE)"
  let ?p = "(''t.ispc'', 1, 1) :: SourcePos"
  have "\<exists>w1. EmitCode exampleGlobals (DeclStmt [unsizedDecl (Some threeInts)] ?p) ?w = Inr w1 \<and>
          diags w1 = [] \<and> code w1 = [EvSetDebugPos (''t.ispc'', 1, 1),
                  EvAllocaInst 0 (LLVMType (ArrayType UniformInt32 3)) ''a'',
                  EvEmitVariableDebugInfo 0,
                  EvGetValue (ConstExpr UniformInt32 [10]),
                  EvStoreInst (ExprValue (ConstExpr UniformInt32 [10])) (ElementPtr (Alloca 0) 0 0),
                  EvGetValue (ConstExpr UniformInt32 [20]),
                  EvStoreInst (ExprValue (ConstExpr UniformInt32 [20])) (ElementPtr (Alloca 0) 0 1),
                  EvGetValue (ConstExpr UniformInt32 [30]),
                  EvStoreInst (ExprValue (ConstExpr UniformInt32 [30])) (ElementPtr (Alloca 0) 0 2)]"
    by (simp add: exampleWorld_def exampleGlobals_def exampleSymbol_def unsizedDecl_def threeInts_def
          DeclStmt_EmitCode_def DeclStmt_EmitCode_var_def Let_def storeValueOf_def ctx_defs)
  then obtain w1 where r1: "EmitCode exampleGlobals (DeclStmt [unsizedDecl (Some threeInts)] ?p) ?w = Inr w1"
    and c1: "diags w1 = []" "code w1 = [EvSetDebugPos (''t.ispc'', 1, 1),
                  EvAllocaInst 0 (LLVMType (ArrayType UniformInt32 3)) ''a'',
                  EvEmitVariableDebugInfo 0,
                  EvGetValue (ConstExpr UniformInt32 [10]),
                  EvStoreInst (ExprValue (ConstExpr UniformInt32 [10])) (ElementPtr (Alloca 0) 0 0),
                  EvGetValue (ConstExpr UniformInt32 [20]),
                  EvStoreInst (ExprValue (ConstExpr UniformInt32 [20])) (ElementPtr (Alloca 0) 0 1),
                  EvGetValue (ConstExpr UniformInt32 [30]),
                  EvStoreInst (ExprValue (ConstExpr UniformInt32 [30])) (ElementPtr (Alloca 0) 0 2)]"
    by blast
  have "\<exists>w2. EmitCode exampleGlobals (DeclStmt [unsizedDecl None] ?p) ?w = Inr w2 \<and>
          code w2 = [EvSetDebugPos ?p] \<and> diags w2 = [ErrUnsizedArray ?p]"
    by (simp add: exampleWorld_def exampleGlobals_def exampleSymbol_def unsizedDecl_def
          DeclStmt_EmitCode_def DeclStmt_EmitCode_var_def Let_def ctx_defs)
  then obtain w2 where r2: "EmitCode exampleGlobals (DeclStmt [unsizedDecl None] ?p) ?w = Inr w2"
    and c2: "code w2 = [EvSetDebugPos ?p]" "diags w2 = [ErrUnsizedArray ?p]"
    by blast
  have h: "bblock ?w \<noteq> None" "type (syms ?w 0) = Some (ArrayType UniformInt32 0)"
    "pos (syms ?w 0) = ?p" "storagePtr (syms ?w 0) = None"
    by (simp_all add: exampleWorld_def exampleSymbol_def)
  from unsized_array_declaration [OF h(1) _ _ _ h(2) r1, of "unsizedDecl (Some threeInts)"]
  have t1: "type (syms w1 0) = Some (ArrayType UniformInt32 3)"
    by (simp add: unsizedDecl_def threeInts_def)
  from unsized_array_declaration [OF h(1) _ _ _ h(2) r2, of "unsizedDecl None"]
  have t2: "type (syms w2 0) = Some (ArrayType UniformInt32 0)" "storagePtr (syms w2 0) = None"
    by (simp_all add: unsizedDecl_def h)
  show ?thesis
    unfolding Let_def r1 r2 by (simp add: c1 c2 t1 t2 h)
qed

section \<open>Declarations without an initializer\<close>

text \<open>
  C8, as the code has it: the loop body of \<^verbatim>\<open>DeclStmt::EmitCode\<close> for a declared
  variable without an initializer.  An array of element count 0 and a reference are
  reported as errors and skipped: nothing is allocated and nothing is stored.  Any other
  static variable gets a module-level variable initialized with the null value of the
  type, and nothing is stored; any other variable gets a stack slot, and the undefined
  value of the type is stored into it.
\<close>

theorem uninitialized_declaration_storage:
  assumes "sym v = Some k" and "init v = None" and "type (syms w k) = Some ty"
  shows "\<exists>w'. DeclStmt_EmitCode_var g v w = Inr w' \<and>
           (if isArrayType ty \<and> GetElementCount ty = 0 then
              diags w' = diags w @ [ErrUnsizedArray (pos (syms w k))] \<and>
              code w' = code w @ [EvSetDebugPos (pos (syms w k))] \<and>
              storagePtr (syms w' k) = storagePtr (syms w k) \<and>
              globalVars w' = globalVars w \<and> nvalues w' = nvalues w
            else if isReferenceType ty then
              diags w' = diags w @ [ErrReferenceNeedsInitializer (pos (syms w k)) (name (syms w k))] \<and>
              code w' = code w @ [EvSetDebugPos (pos (syms w k))] \<and>
              storagePtr (syms w' k) = storagePtr (syms w k) \<and>
              globalVars w' = globalVars w \<and> nvalues w' = nvalues w
            else if storageClass (syms w k) = SC_STATIC then
              diags w' = diags w \<and>
              storagePtr (syms w' k) = Some (GlobalVariable (length (globalVars w))) \<and>
              globalVars w' = globalVars w @
                [\<lparr>gType = LLVMType ty, gIsConst = IsConstType ty,
                  gInitializer = NullValue (LLVMType ty),
                  gLine = fst (snd (pos (syms w k))), gName = name (syms w k)\<rparr>] \<and>
              code w' = code w @ [EvSetDebugPos (pos (syms w k)), EvEmitVariableDebugInfo k]
            else
              diags w' = diags w \<and>
              storagePtr (syms w' k) = Some (Alloca (nvalues w)) \<and>
              globalVars w' = globalVars w \<and>
              code w' = code w @
                [EvSetDebugPos (pos (syms w k)),
                 EvAllocaInst (nvalues w) (LLVMType ty) (name (syms w k)),
                 EvEmitVariableDebugInfo k,
                 EvStoreInst (UndefValue (LLVMType ty)) (Alloca (nvalues w))])"
proof (cases "isArrayType ty \<and> GetElementCount ty = 0")
  case True
  show ?thesis
    unfolding DeclStmt_EmitCode_var_def Let_def assms option.case if_P [OF True]
    by (simp add: updSym_def SetDebugPos_def emitEvent_def reportDiag_def)
next
  case sized: False
  show ?thesis
  proof (cases "isReferenceType ty")
    case True
    show ?thesis
      unfolding DeclStmt_EmitCode_var_def Let_def assms option.case if_not_P [OF sized]
      using True
      by (simp add: updSym_def SetDebugPos_def emitEvent_def reportDiag_def)
  next
    case noref: False
    show ?thesis
    proof (cases "storageClass (syms w k) = SC_STATIC")
      case True
      show ?thesis
        unfolding DeclStmt_EmitCode_var_def Let_def assms option.case if_not_P [OF sized]
        using noref True
        by (simp add: updSym_def SetDebugPos_def emitEvent_def addGlobalVariable_def
              EmitVariableDebugInfo_def)
    next
      case False
      show ?thesis
        unfolding DeclStmt_EmitCode_var_def Let_def assms option.case if_not_P [OF sized]
        using noref False
        by (simp add: updSym_def SetDebugPos_def emitEvent_def AllocaInst_def StoreInst_def
              EmitVariableDebugInfo_def GetFunction_def)
    qed
  qed
qed

theorem uninitialized_declaration_storage_witness:
  "(let v = \<lparr>sym = Some 0, init = None\<rparr>;
        auto = exampleWorld (Some 0) (\<lambda>k. exampleSymbol (Some UniformFloat) SC_NONE);
        static = exampleWorld (Some 0) (\<lambda>k. exampleSymbol (Some UniformFloat) SC_STATIC);
        reference = exampleWorld (Some 0) (\<lambda>k. exampleSymbol (Some (ReferenceType UniformFloat)) SC_STATIC);
        unsized = exampleWorld (Some 0) (\<lambda>k. exampleSymbol (Some (ArrayType UniformFloat 0)) SC_NONE)
    in map_sum id (\<lambda>w'. (code w', globalVars w', diags w')) (DeclStmt_EmitCode_var exampleGlobals v auto) =
         Inr ([EvSetDebugPos (''t.ispc'', 1, 1), EvAllocaInst 0 (LLVMType UniformFloat) ''a'',
               EvEmitVariableDebugInfo 0,
               EvStoreInst (UndefValue (LLVMType UniformFloat)) (Alloca 0)], [], []) \<and>
       map_sum id (\<lambda>w'. (code w', globalVars w', diags w')) (DeclStmt_EmitCode_var exampleGlobals v static) =
         Inr ([EvSetDebugPos (''t.ispc'', 1, 1), EvEmitVariableDebugInfo 0],
              [\<lparr>gType = LLVMType UniformFloat, gIsConst = False,
                gInitializer = NullValue (LLVMType UniformFloat), gLine = 1, gName = ''a''\<rparr>], []) \<and>
       map_sum id (\<lambda>w'. (code w', globalVars w', diags w', storagePtr (syms w' 0)))
           (DeclStmt_EmitCode_var exampleGlobals v reference) =
         Inr ([EvSetDebugPos (''t.ispc'', 1, 1)], [],
              [ErrReferenceNeedsInitializer (''t.ispc'', 1, 1) ''a''], None) \<and>
       map_sum id (\<lambda>w'. (code w', globalVars w', diags w', storagePtr (syms w' 0)))
           (DeclStmt_EmitCode_var exampleGlobals v unsized) =
         Inr ([EvSetDebugPos (''t.ispc'', 1, 1)], [], [ErrUnsizedArray (''t.ispc'', 1, 1)], None))"
  using uninitialized_declaration_storage
      [of "\<lparr>sym = Some 0, init = None\<rparr>" 0
          "exampleWorld (Some 0) (\<lambda>k. exampleSymbol (Some UniformFloat) SC_NONE)" UniformFloat exampleGlobals]
    uninitialized_declaration_storage
      [of "\<lparr>sym = Some 0, init = None\<rparr>" 0
          "exampleWorld (Some 0) (\<lambda>k. exampleSymbol (Some UniformFloat) SC_STATIC)" UniformFloat exampleGlobals]
    uninitialized_declaration_storage
      [of "\<lparr>sym = Some 0, init = None\<rparr>" 0
          "exampleWorld (Some 0) (\<lambda>k. exampleSymbol (Some (ReferenceType UniformFloat)) SC_STATIC)"
          "ReferenceType UniformFloat" exampleGlobals]
    uninitialized_declaration_storage
      [of "\<lparr>sym = Some 0, init = None\<rparr>" 0
          "exampleWorld (Some 0) (\<lambda>k. exampleSymbol (Some (ArrayType UniformFloat 0)) SC_NONE)"
          "ArrayType UniformFloat 0" exampleGlobals]
  by (auto simp: Let_def exampleWorld_def exampleSymbol_def)

text \<open>
  The claim as written fails at a reference without an initializer: the error is
  reported, nothing is allocated and nothing is stored.
\<close>

theorem reference_without_initializer_not_stored:
  "map_sum id (\<lambda>w'. (code w', diags w'))
     (EmitCode exampleGlobals (DeclStmt [\<lparr>sym = Some 0, init = None\<rparr>] (''t.ispc'', 1, 1))
        (exampleWorld (Some 0) (\<lambda>k. exampleSymbol (Some (ReferenceType UniformFloat)) SC_NONE))) =
   Inr ([EvSetDebugPos (''t.ispc'', 1, 1)], [ErrReferenceNeedsInitializer (''t.ispc'', 1, 1) ''a''])"
  by (simp add: exampleWorld_def exampleGlobals_def exampleSymbol_def DeclStmt_EmitCode_def
        DeclStmt_EmitCode_var_def Let_def updSym_def SetDebugPos_def emitEvent_def reportDiag_def)

section \<open>Emitting without a current block\<close>

lemma EmitCode_without_block:
  "bblock w = None \<Longrightarrow>
     (case s of PrintStmt f v p \<Rightarrow> True | AssertStmt m e p \<Rightarrow> True | _ \<Rightarrow> EmitCode g s w = Inr w)"
  by (cases s)
     (simp_all add: ExprStmt_EmitCode_def DeclStmt_EmitCode_def IfStmt_EmitCode_def DoStmt_EmitCode_def
        ForStmt_EmitCode_def BreakStmt_EmitCode_def ContinueStmt_EmitCode_def ReturnStmt_EmitCode_def
        StmtList_EmitCode_def)

text \<open>
  C1 at \<^verbatim>\<open>print\<close> and \<^verbatim>\<open>assert\<close>: \<^verbatim>\<open>PrintStmt::EmitCode\<close> and
  \<^verbatim>\<open>AssertStmt::EmitCode\<close> do not test the current block.  With no current block the
  first sets the debug position and emits the call of \<^verbatim>\<open>__do_print\<close>, the second
  evaluates its test and emits the call of \<^verbatim>\<open>__do_assert_uniform\<close>; every other
  statement leaves the context as it is (\<open>EmitCode_without_block\<close>).
\<close>

theorem print_and_assert_emit_without_block:
  "bblock (exampleWorld None (\<lambda>k. exampleSymbol None SC_NONE)) = None \<and>
   map_sum id code
     (EmitCode exampleGlobals (PrintStmt ''hello'' None (''t.ispc'', 7, 3))
        (exampleWorld None (\<lambda>k. exampleSymbol None SC_NONE))) =
     Inr [EvSetDebugPos (''t.ispc'', 7, 3),
          EvCallInst ''__do_print''
            [StringPtr (Literal ''hello''), StringPtr (Literal []), LLVMInt32 4,
             LaneMaskOf (FullMask LLVMMaskAllOn (Argument 0)),
             NullValue VoidPointerPointerType]] \<and>
   map_sum id code
     (EmitCode exampleGlobals
        (AssertStmt ''ok'' (Some (ConstExpr UniformBool [1])) (''t.ispc'', 8, 3))
        (exampleWorld None (\<lambda>k. exampleSymbol None SC_NONE))) =
     Inr [EvGetValue (ConstExpr UniformBool [1]),
          EvCallInst ''__do_assert_uniform''
            [StringPtr (AssertMessage (''t.ispc'', 8, 3) ''ok''),
             ExprValue (ConstExpr UniformBool [1]),
             FullMask LLVMMaskAllOn (Argument 0)]]"
  by (simp add: exampleWorld_def exampleGlobals_def PrintStmt_EmitCode_def AssertStmt_EmitCode_def
        callDoPrint_def SetDebugPos_def emitEvent_def CallInst_def GetStringPtr_def GetFullMask_def
        GetValue_def Let_def)

section \<open>Lowering an if with a varying test\<close>

lemma GetFullMask_MaskAnd:
  "GetFullMask (SetInternalMask (MaskAnd a b) w) = FullMask (MaskAnd a b) (functionMask w)"
  "GetFullMask (SetInternalMask (MaskAndNot a b) w) = FullMask (MaskAndNot a b) (functionMask w)"
  by (simp_all add: GetFullMask_def SetInternalMask_def emitEvent_def)

lemma functionMask_kept:
  "functionMask (snd (CreateBasicBlock l w)) = functionMask w"
  "functionMask (StartVaryingIf m w) = functionMask w"
  by (simp_all add: CreateBasicBlock_def StartVaryingIf_def emitEvent_def)

lemma emitMaskedTrueAndFalse_open:
  fixes g :: Globals
  defines "branch \<equiv> \<lambda>stmts label w.
             andThen (EmitCode_opt g stmts
                        (AddInstrumentationPoint label (if \<not> isStmtList stmts then StartScope w else w)))
               (\<lambda>w'. assertBlock (if \<not> isStmtList stmts then EndScope w' else w'))"
  shows "emitMaskedTrueAndFalse (EmitCode_opt g ts) (EmitCode_opt g fs) ts fs oldMask test w =
     andThen (if ts = None then Inr w
              else branch ts ''if: expr mixed, true statements''
                     (SetInternalMask (MaskAnd oldMask test) w))
       (\<lambda>w2. if fs = None then Inr w2
              else branch fs ''if: expr mixed, false statements''
                     (SetInternalMask (MaskAndNot oldMask test) w2))"
  unfolding branch_def emitMaskedTrueAndFalse_def lEmitIfStatements_def
    SetInternalMaskAnd_def SetInternalMaskAndNot_def andThen_fold
  by (cases ts; cases fs) (simp_all add: andThen_assoc cong: if_cong)

lemma emitMaskMixed_open:
  fixes g :: Globals
  defines "branch \<equiv> \<lambda>stmts label w.
             andThen (EmitCode_opt g stmts
                        (AddInstrumentationPoint label (if \<not> isStmtList stmts then StartScope w else w)))
               (\<lambda>w'. assertBlock (if \<not> isStmtList stmts then EndScope w' else w'))"
  shows "emitMaskMixed (EmitCode_opt g ts) (EmitCode_opt g fs) ts fs oldMask test bDone w =
     (let (bNext, w3) = CreateBasicBlock ''safe_if_after_true'' (StartVaryingIf oldMask w)
      in andThen
           (if ts = None then Inr w3
            else (let (bRunTrue, w4) = CreateBasicBlock ''safe_if_run_true'' w3;
                      w5 = SetInternalMask (MaskAnd oldMask test) w4;
                      w6 = SetCurrentBasicBlock bRunTrue
                             (CondBranchInst bRunTrue bNext
                                (AnyOf (FullMask (MaskAnd oldMask test) (functionMask w))) w5)
                  in andThen (branch ts ''if: expr mixed, true statements'' w6)
                       (\<lambda>w7. Inr (SetCurrentBasicBlock bNext (BranchInst bNext w7)))))
           (\<lambda>w8. andThen
                    (if fs = None then Inr w8
                     else (let (bRunFalse, w9) = CreateBasicBlock ''safe_if_run_false'' w8;
                               (bNext', w10) = CreateBasicBlock ''safe_if_after_false'' w9;
                               w11 = SetInternalMask (MaskAndNot oldMask test) w10;
                               w12 = SetCurrentBasicBlock bRunFalse
                                       (CondBranchInst bRunFalse bNext'
                                          (AnyOf (FullMask (MaskAndNot oldMask test) (functionMask w8))) w11)
                           in andThen (branch fs ''if: expr mixed, false statements'' w12)
                                (\<lambda>w13. Inr (SetCurrentBasicBlock bNext' (BranchInst bNext' w13)))))
                    (\<lambda>w14. Inr (EndIf (SetCurrentBasicBlock bDone (BranchInst bDone w14))))))"
  unfolding branch_def emitMaskMixed_def lEmitIfStatements_def
    SetInternalMaskAnd_def SetInternalMaskAndNot_def andThen_fold
  by (cases ts; cases fs)
     (simp_all add: andThen_assoc GetFullMask_MaskAnd functionMask_kept Let_def split_beta cong: if_cong)

lemma emitVaryingIf_plain:
  assumes "GetFullMask w \<noteq> LLVMMaskAllOn"
    and "lSafeToRunWithAllLanesOff_Stmt ts = Inr safeT"
    and "lSafeToRunWithAllLanesOff_Stmt fs = Inr safeF"
    and "EstimateCost_opt g ts = Inr costT"
    and "EstimateCost_opt g fs = Inr costF"
  shows "emitVaryingIf g eT eF ts fs False doAnyCheck ltest w =
     (if ts = None \<and> fs = None then Inr w
      else if safeT \<and> safeF \<and> costT + costF < PREDICATE_SAFE_IF_STATEMENT_COST g then
        andThen (emitMaskedTrueAndFalse eT eF ts fs (internalMask w) ltest
                   (StartVaryingIf (internalMask w) w))
          (\<lambda>w2. andThen (assertBlock w2) (\<lambda>w3. Inr (EndIf w3)))
      else if \<not> doAnyCheck then Inl AssertFailed
      else andThen (emitMaskMixed eT eF ts fs (internalMask w) ltest (fst (CreateBasicBlock ''if_done'' w))
                      (snd (CreateBasicBlock ''if_done'' w)))
             (\<lambda>w3. Inr (SetCurrentBasicBlock (fst (CreateBasicBlock ''if_done'' w)) w3)))"
proof (cases "ts = None \<and> fs = None")
  case True
  with assms show ?thesis
    by (auto simp: emitVaryingIf_def Let_def GetInternalMask_def)
next
  case False
  then have some: "ts \<noteq> None \<or> fs \<noteq> None" by simp
  have sc: "safeAndCheap g ts fs = Inr (safeT \<and> safeF \<and> costT + costF < PREDICATE_SAFE_IF_STATEMENT_COST g)"
    using assms(2-5) by (simp add: safeAndCheap_def andAlso_def addCost_def)
  show ?thesis
    unfolding emitVaryingIf_def Let_def if_not_P [OF assms(1)] if_P [OF some] if_not_P [OF False] sc
      andThen_fold
    by (simp add: GetInternalMask_def split_beta)
qed

text \<open>
  C4: an \<^verbatim>\<open>if\<close> statement whose test is varying when it is emitted, without the
  coherent check, is emitted with a full mask that is not the constant all-on mask.
  When both branches are safe with all lanes off and their costs sum to less than
  \<^verbatim>\<open>PREDICATE_SAFE_IF_STATEMENT_COST\<close>, the lowering is the predicated one: the
  internal mask is set to \<open>oldMask & test\<close> and the true branch is emitted, then it is
  set to \<open>oldMask & ~test\<close> and the false branch is emitted, with no test of the mask.
  Otherwise the code asserts \<^verbatim>\<open>doAnyCheck\<close>, the flag that the constructor computed
  from the type the test had then.  With the flag, the lowering is the mixed one: each
  branch is entered by a branch on \<open>any\<close> of the full mask, taken after the internal mask
  is set for the branch.  Without the flag the assertion fails and nothing is emitted:
  this is the case of a statement built with a uniform test that the type check has cast
  to varying bool under \<^verbatim>\<open>disableUniformControlFlow\<close>.
\<close>

theorem varying_if_predicated_mixed_or_abort:
  assumes "bblock w \<noteq> None" and "GetType t = Some ty" and "\<not> IsUniformType ty"
    and "exprGetValueOK g t" and "GetFullMask w \<noteq> LLVMMaskAllOn"
    and "lSafeToRunWithAllLanesOff_Stmt ts = Inr safeT"
    and "lSafeToRunWithAllLanesOff_Stmt fs = Inr safeF"
    and "EstimateCost_opt g ts = Inr costT"
    and "EstimateCost_opt g fs = Inr costF"
  shows "EmitCode g (IfStmt (Some t) ts fs False doAnyCheck p) w =
     (let w1 = emitEvent (EvGetValue t) (SetDebugPos p w);
          oldMask = internalMask w;
          test = ExprValue t;
          branch = (\<lambda>stmts label w.
             andThen (EmitCode_opt g stmts
                        (AddInstrumentationPoint label (if \<not> isStmtList stmts then StartScope w else w)))
               (\<lambda>w'. assertBlock (if \<not> isStmtList stmts then EndScope w' else w')))
      in if ts = None \<and> fs = None then Inr w1
         else if safeT \<and> safeF \<and> costT + costF < PREDICATE_SAFE_IF_STATEMENT_COST g then
           andThen (if ts = None then Inr (StartVaryingIf oldMask w1)
                    else branch ts ''if: expr mixed, true statements''
                           (SetInternalMask (MaskAnd oldMask test) (StartVaryingIf oldMask w1)))
             (\<lambda>w2. andThen (if fs = None then Inr w2
                             else branch fs ''if: expr mixed, false statements''
                                    (SetInternalMask (MaskAndNot oldMask test) w2))
             (\<lambda>w3. andThen (assertBlock w3)
             (\<lambda>w4. Inr (EndIf w4))))
         else if \<not> doAnyCheck then Inl AssertFailed
         else
           (let (bDone, w2) = CreateBasicBlock ''if_done'' w1;
                (bNext, w3) = CreateBasicBlock ''safe_if_after_true'' (StartVaryingIf oldMask w2)
            in andThen
                 (if ts = None then Inr w3
                  else (let (bRunTrue, w4) = CreateBasicBlock ''safe_if_run_true'' w3;
                            w5 = SetInternalMask (MaskAnd oldMask test) w4;
                            w6 = SetCurrentBasicBlock bRunTrue
                                   (CondBranchInst bRunTrue bNext
                                      (AnyOf (FullMask (MaskAnd oldMask test) (functionMask w))) w5)
                        in andThen (branch ts ''if: expr mixed, true statements'' w6)
                             (\<lambda>w7. Inr (SetCurrentBasicBlock bNext (BranchInst bNext w7)))))
                 (\<lambda>w8. andThen
                    (if fs = None then Inr w8
                     else (let (bRunFalse, w9) = CreateBasicBlock ''safe_if_run_false'' w8;
                               (bNext', w10) = CreateBasicBlock ''safe_if_after_false'' w9;
                               w11 = SetInternalMask (MaskAndNot oldMask test) w10;
                               w12 = SetCurrentBasicBlock bRunFalse
                                       (CondBranchInst bRunFalse bNext'
                                          (AnyOf (FullMask (MaskAndNot oldMask test) (functionMask w8))) w11)
                           in andThen (branch fs ''if: expr mixed, false statements'' w12)
                                (\<lambda>w13. Inr (SetCurrentBasicBlock bNext' (BranchInst bNext' w13)))))
                 (\<lambda>w14. Inr (SetCurrentBasicBlock bDone
                               (EndIf (SetCurrentBasicBlock bDone (BranchInst bDone w14))))))))"
proof -
  let ?w1 = "emitEvent (EvGetValue t) (SetDebugPos p w)"
  have m: "GetFullMask ?w1 \<noteq> LLVMMaskAllOn" "internalMask ?w1 = internalMask w"
    "functionMask ?w1 = functionMask w"
    using assms(5) by (auto simp: GetFullMask_def emitEvent_def SetDebugPos_def split: if_splits)
  have e: "EmitCode g (IfStmt (Some t) ts fs False doAnyCheck p) w =
          emitVaryingIf g (EmitCode_opt g ts) (EmitCode_opt g fs) ts fs False doAnyCheck (ExprValue t) ?w1"
    using assms(1-4) by (auto simp: IfStmt_EmitCode_def GetValue_def)
  show ?thesis
    unfolding e emitVaryingIf_plain [OF m(1) assms(6-9)] m(2) emitMaskedTrueAndFalse_open
      emitMaskMixed_open
    by (simp add: andThen_assoc functionMask_kept m(3) Let_def split_beta cong: if_cong)
qed

text \<open>
  The statement \<^verbatim>\<open>if (u) f();\<close> with a uniform \<open>u\<close>, built, type checked and emitted
  with \<^verbatim>\<open>disableUniformControlFlow\<close>: the constructor leaves \<^verbatim>\<open>doAnyCheck\<close> false,
  the type check casts the test to varying bool, and the emission aborts at the assertion.
  The two statements with a varying \<open>c\<close> are lowered as predicated and as mixed.
\<close>

theorem varying_if_predicated_mixed_or_abort_witness:
  "(let g = varyingOnlyGlobals;
        w = exampleWorld (Some 0) (\<lambda>k. exampleSymbol None SC_NONE);
        p = (''t.ispc'', 2, 1);
        cast = TypeCastExpr VaryingBool (Some exampleUniformTest)
    in IfStmt_IfStmt g (Some exampleUniformTest) exampleCall None False p =
         Inr (IfStmt (Some exampleUniformTest) exampleCall None False False p) \<and>
       TypeCheck g (syms w) (IfStmt (Some exampleUniformTest) exampleCall None False False p) [] =
         (Some (IfStmt (Some cast) exampleCall None False False p), []) \<and>
       bblock w \<noteq> None \<and> GetFullMask w \<noteq> LLVMMaskAllOn \<and> GetType cast = Some VaryingBool \<and>
       lSafeToRunWithAllLanesOff_Stmt exampleCall = Inr False \<and>
       EmitCode g (IfStmt (Some cast) exampleCall None False False p) w = Inl AssertFailed \<and>
       map_sum id code (EmitCode exampleGlobals (IfStmt (Some exampleTest) exampleThen exampleElse False True p) w) =
         Inr [EvSetDebugPos p, EvGetValue exampleTest,
              EvStartVaryingIf LLVMMaskAllOn,
              EvSetInternalMask (MaskAnd LLVMMaskAllOn (ExprValue exampleTest)),
              EvStartScope, EvAddInstrumentationPoint ''if: expr mixed, true statements'',
              EvSetDebugPos (''t.ispc'', 2, 11),
              EvGetValue (AssignExpr (Some (SymbolExpr (Some 2) (Some VaryingInt32)))
                            (Some (ConstExpr VaryingInt32 [0])) (Some VaryingInt32)),
              EvEndScope,
              EvSetInternalMask (MaskAndNot LLVMMaskAllOn (ExprValue exampleTest)),
              EvStartScope, EvAddInstrumentationPoint ''if: expr mixed, false statements'',
              EvSetDebugPos (''t.ispc'', 3, 11),
              EvGetValue (UnaryExpr (Some (SymbolExpr (Some 2) (Some VaryingInt32))) (Some VaryingInt32)),
              EvEndScope, EvEndIf] \<and>
       map_sum id code (EmitCode exampleGlobals (IfStmt (Some exampleTest) exampleThen exampleCall False True p) w) =
         Inr [EvSetDebugPos p, EvGetValue exampleTest,
              EvCreateBasicBlock 1 ''if_done'', EvStartVaryingIf LLVMMaskAllOn,
              EvCreateBasicBlock 2 ''safe_if_after_true'', EvCreateBasicBlock 3 ''safe_if_run_true'',
              EvSetInternalMask (MaskAnd LLVMMaskAllOn (ExprValue exampleTest)),
              EvCondBranchInst 3 2
                (AnyOf (FullMask (MaskAnd LLVMMaskAllOn (ExprValue exampleTest)) (Argument 0))),
              EvSetCurrentBasicBlock 3,
              EvStartScope, EvAddInstrumentationPoint ''if: expr mixed, true statements'',
              EvSetDebugPos (''t.ispc'', 2, 11),
              EvGetValue (AssignExpr (Some (SymbolExpr (Some 2) (Some VaryingInt32)))
                            (Some (ConstExpr VaryingInt32 [0])) (Some VaryingInt32)),
              EvEndScope, EvBranchInst 2, EvSetCurrentBasicBlock 2,
              EvCreateBasicBlock 4 ''safe_if_run_false'', EvCreateBasicBlock 5 ''safe_if_after_false'',
              EvSetInternalMask (MaskAndNot LLVMMaskAllOn (ExprValue exampleTest)),
              EvCondBranchInst 4 5
                (AnyOf (FullMask (MaskAndNot LLVMMaskAllOn (ExprValue exampleTest)) (Argument 0))),
              EvSetCurrentBasicBlock 4,
              EvStartScope, EvAddInstrumentationPoint ''if: expr mixed, false statements'',
              EvSetDebugPos (''t.ispc'', 3, 11),
              EvGetValue (FunctionCallExpr (Some (FunctionSymbolExpr ''f'' None)) (Some (ExprList []))
                            (Some VaryingInt32)),
              EvEndScope, EvBranchInst 5, EvSetCurrentBasicBlock 5,
              EvBranchInst 1, EvSetCurrentBasicBlock 1, EvEndIf, EvSetCurrentBasicBlock 1])"
  using varying_if_predicated_mixed_or_abort
      [of "exampleWorld (Some 0) (\<lambda>k. exampleSymbol None SC_NONE)"
          "TypeCastExpr VaryingBool (Some exampleUniformTest)" VaryingBool varyingOnlyGlobals
          exampleCall False None True 1 0 False "(''t.ispc'', 2, 1)"]
    varying_if_predicated_mixed_or_abort
      [of "exampleWorld (Some 0) (\<lambda>k. exampleSymbol None SC_NONE)" exampleTest VaryingBool exampleGlobals
          exampleThen True exampleElse True 1 1 True "(''t.ispc'', 2, 1)"]
    varying_if_predicated_mixed_or_abort
      [of "exampleWorld (Some 0) (\<lambda>k. exampleSymbol None SC_NONE)" exampleTest VaryingBool exampleGlobals
          exampleThen True exampleCall False 1 1 True "(''t.ispc'', 2, 1)"]
  by (simp add: Let_def exampleWorld_def exampleGlobals_def varyingOnlyGlobals_def exampleTest_def
        exampleUniformTest_def exampleThen_def exampleElse_def exampleCall_def andAlso_def exprCost_def
        IfStmt_IfStmt_def castTestToBool_def exprTypeCheck_opt_def IsVaryingType_def
        ExprStmt_EmitCode_def andThen_def ctx_defs)

end
